theory Spec2Isabelle
  imports Main "HOL-Library.AList"
begin

section \<open>Common notions\<close>

text \<open>
  An instant (Go's \<open>time.Time\<close>) is the number of nanoseconds elapsed since the zero
  instant \<open>time.Time{}\<close>: \<open>t.Before(u)\<close> is \<open>t < u\<close>, \<open>t.After(u)\<close> is \<open>u < t\<close>
  and \<open>t.IsZero()\<close> is \<open>t = 0\<close>.
\<close>

type_synonym time = int

text \<open>
  A coin of the chain SDK (\<open>sdk.Coin\<close>): a denomination and an arbitrary-precision
  amount.
\<close>

record Coin =
  Denom :: string
  Amount :: int

text \<open>A Go panic ends the goroutine that raised it; it is carried as a value.\<close>

datatype panic =
  NilDereference
  | InvalidDenominations string string
  | IntOverflow
  | Int64OutOfBound
  | NegativeCoinAmount
  | InvalidDenom string
  | IndexOutOfRange

section \<open>The user table (package db)\<close>

record User =
  ID :: int
  Username :: string
  Email :: string
  Address :: string
  CreatedAt :: time
  UpdatedAt :: time
  LastAuthenticatedAt :: "time option"
  UserGroup :: int

text \<open>
  The outcome of the ORM query \<open>c.Model(user).Where("id = ?", ID).First()\<close>: the row
  found, the sentinel error \<open>pg.ErrNoRows\<close>, or any other failure of the query.
\<close>

datatype error = ErrNoRows | QueryFailed string

text \<open>
  The data store as the queries of this development see it: the rows of the users table
  and, for each looked-up id, whether the query itself fails (connection lost, timeout,
  ...) and with which message.
\<close>

record Client =
  users_rows :: "User list"
  users_fault :: "int \<Rightarrow> string option"

definition First_user_by_id :: "Client \<Rightarrow> int \<Rightarrow> error + User" where
  "First_user_by_id c i =
     (case users_fault c i of
        Some msg \<Rightarrow> Inl (QueryFailed msg)
      | None \<Rightarrow>
          (case find (\<lambda>u. ID u = i) (users_rows c) of
             None \<Rightarrow> Inl ErrNoRows
           | Some u \<Rightarrow> Inr u))"

text \<open>
  \<open>UserByID\<close> returns Go's pair \<open>(*User, error)\<close>; \<open>None\<close> is \<open>nil\<close> in either
  component.
\<close>

definition UserByID :: "Client \<Rightarrow> int \<Rightarrow> User option \<times> error option" where
  "UserByID c i =
     (case First_user_by_id c i of
        Inl ErrNoRows \<Rightarrow> (None, None)
      | Inl err \<Rightarrow> (None, Some err)
      | Inr user \<Rightarrow> (Some user, None))"

section \<open>The reward notification worker\<close>

text \<open>
  The request type and its constants are declared in package \<open>truapi\<close>; the worker only
  compares them, so each enumeration is a datatype with one more constructor for every
  value the worker's switches do not name.
\<close>

datatype RewardType = RewardTypeInvite | RewardTypeTru | RewardTypeOther int

datatype RewardCauserAction =
  RewardCauserActionSignedUp
  | RewardCauserActionOneArgument
  | RewardCauserActionReceiveFiveAgrees
  | RewardCauserActionOther int

record RewardNotificationRequest =
  RewardeeID :: int
  CauserID :: int
  RewardType :: RewardType
  RewardAmount :: string
  CauserAction :: RewardCauserAction

datatype NotificationType =
  NotificationTypeZero
  | NotificationRewardInviteUnlocked
  | NotificationRewardTruUnlocked

record Notification =
  To :: string
  TypeID :: int
  Type :: NotificationType
  Msg :: string
  Action :: string
  Trim :: bool

text \<open>
  What the worker takes from outside this repository's sources: the SDK's coin parser
  (\<open>None\<close> when it returns an error) and the display name of the coin.
\<close>

record deps =
  ParseCoin :: "string \<Rightarrow> Coin option"
  CoinDisplayName :: string

text \<open>Decimal rendering of \<open>fmt.Sprintf("%d", n)\<close>.\<close>

fun show_nat :: "nat \<Rightarrow> string" where
  "show_nat n =
     (if n < 10 then [''0123456789'' ! n]
      else show_nat (n div 10) @ [''0123456789'' ! (n mod 10)])"

declare show_nat.simps [simp del]

definition fmt_d :: "int \<Rightarrow> string" where
  "fmt_d i = (if i < 0 then CHR ''-'' # show_nat (nat (- i)) else show_nat (nat i))"

definition is_int64 :: "int \<Rightarrow> bool" where
  "is_int64 i \<longleftrightarrow> - (2 ^ 63) \<le> i \<and> i < 2 ^ 63"

text \<open>\<open>sdk.Int.Int64()\<close> panics when the value does not fit.\<close>

definition Int64 :: "int \<Rightarrow> panic + int" where
  "Int64 i = (if is_int64 i then Inr i else Inl Int64OutOfBound)"

text \<open>Go's integer division truncates towards zero.\<close>

definition go_div :: "int \<Rightarrow> int \<Rightarrow> int" where
  "go_div a b = sgn a * sgn b * (\<bar>a\<bar> div \<bar>b\<bar>)"

definition getNotificationTypeFromRequest :: "RewardNotificationRequest \<Rightarrow> NotificationType" where
  "getNotificationTypeFromRequest n =
     (case RewardType n of
        RewardTypeInvite \<Rightarrow> NotificationRewardInviteUnlocked
      | RewardTypeTru \<Rightarrow> NotificationRewardTruUnlocked
      | RewardTypeOther _ \<Rightarrow> NotificationTypeZero)"

definition getRewardStringFromRequest :: "deps \<Rightarrow> RewardNotificationRequest \<Rightarrow> panic + string" where
  "getRewardStringFromRequest d n =
     (case RewardType n of
        RewardTypeInvite \<Rightarrow> Inr (RewardAmount n @ '' invites'')
      | RewardTypeTru \<Rightarrow>
          (case ParseCoin d (RewardAmount n) of
             None \<Rightarrow> Inr (RewardAmount n)
           | Some amount \<Rightarrow>
               (case Int64 (Amount amount) of
                  Inl p \<Rightarrow> Inl p
                | Inr a \<Rightarrow> Inr (fmt_d (go_div a (10 ^ 9)) @ '' '' @ CoinDisplayName d)))
      | RewardTypeOther _ \<Rightarrow> Inr [])"

definition getRewardReasonFromRequest ::
    "RewardNotificationRequest \<Rightarrow> User option \<Rightarrow> panic + string" where
  "getRewardReasonFromRequest n causer =
     (case RewardType n of
        RewardTypeInvite \<Rightarrow>
          (let causedBy = (case causer of None \<Rightarrow> ''you'' | Some u \<Rightarrow> Username u)
           in Inr (causedBy @ '' became an active user on TruStory.''))
      | RewardTypeTru \<Rightarrow>
          (let stepCompleted =
                 (case CauserAction n of
                    RewardCauserActionSignedUp \<Rightarrow> ''signed up''
                  | RewardCauserActionOneArgument \<Rightarrow> ''has written at least one argument''
                  | RewardCauserActionReceiveFiveAgrees \<Rightarrow> ''has received at least five agrees''
                  | RewardCauserActionOther _ \<Rightarrow> [])
           in (case causer of
                 None \<Rightarrow> Inl NilDereference
               | Some u \<Rightarrow> Inr (Username u @ '' '' @ stepCompleted @ '' on TruStory.'')))
      | RewardTypeOther _ \<Rightarrow> Inr [])"

text \<open>
  One turn of the worker's loop, for the request \<open>n\<close> received from the channel. The
  lookups it makes are recorded in order, so that a repeated lookup would show.
\<close>

datatype turn =
  Dropped "int list"
  | Sent "int list" Notification
  | Panicked "int list" panic

definition buildNotification ::
    "deps \<Rightarrow> RewardNotificationRequest \<Rightarrow> User option \<Rightarrow> User option \<Rightarrow> panic + Notification" where
  "buildNotification d n user causer =
     (case user of
        None \<Rightarrow> Inl NilDereference
      | Some u \<Rightarrow>
          (case getRewardStringFromRequest d n of
             Inl p \<Rightarrow> Inl p
           | Inr reward \<Rightarrow>
               (case getRewardReasonFromRequest n causer of
                  Inl p \<Rightarrow> Inl p
                | Inr reason \<Rightarrow>
                    Inr \<lparr>To = Address u, TypeID = 0,
                         Type = getNotificationTypeFromRequest n,
                         Msg = ''rewarded with '' @ reward @ '' because '' @ reason,
                         Action = ''Reward unlocked'', Trim = True\<rparr>)))"

definition processRewardNotification ::
    "Client \<Rightarrow> deps \<Rightarrow> RewardNotificationRequest \<Rightarrow> turn" where
  "processRewardNotification c d n =
     (case UserByID c (RewardeeID n) of
        (_, Some err) \<Rightarrow> Dropped [RewardeeID n]
      | (user, None) \<Rightarrow>
          (if CauserID n \<noteq> 0 then
             (case UserByID c (CauserID n) of
                (_, Some err) \<Rightarrow> Dropped [RewardeeID n, CauserID n]
              | (causer, None) \<Rightarrow>
                  (case buildNotification d n user causer of
                     Inl p \<Rightarrow> Panicked [RewardeeID n, CauserID n] p
                   | Inr m \<Rightarrow> Sent [RewardeeID n, CauserID n] m))
           else
             (case buildNotification d n user None of
                Inl p \<Rightarrow> Panicked [RewardeeID n] p
              | Inr m \<Rightarrow> Sent [RewardeeID n] m)))"

text \<open>
  The worker: \<open>for n := range rNotifications\<close> over the requests the channel delivers
  before it is closed. It yields the notifications sent downstream, the lookups made, and
  how the loop ended.
\<close>

datatype ending = ChannelClosed | Crashed panic

record run =
  sent :: "Notification list"
  lookups :: "int list"
  ended :: ending

fun processRewardsNotifications ::
    "Client \<Rightarrow> deps \<Rightarrow> RewardNotificationRequest list \<Rightarrow> run" where
  "processRewardsNotifications c d [] = \<lparr>sent = [], lookups = [], ended = ChannelClosed\<rparr>"
| "processRewardsNotifications c d (n # ns) =
     (case processRewardNotification c d n of
        Dropped ls \<Rightarrow>
          (let r = processRewardsNotifications c d ns in r\<lparr>lookups := ls @ lookups r\<rparr>)
      | Sent ls m \<Rightarrow>
          (let r = processRewardsNotifications c d ns
           in r\<lparr>sent := m # sent r, lookups := ls @ lookups r\<rparr>)
      | Panicked ls p \<Rightarrow> \<lparr>sent = [], lookups = ls, ended = Crashed p\<rparr>)"

text \<open>The causer the worker resolved for a request: \<open>nil\<close> unless an id was given.\<close>

definition resolvedCauser :: "Client \<Rightarrow> RewardNotificationRequest \<Rightarrow> User option" where
  "resolvedCauser c n = (if CauserID n \<noteq> 0 then fst (UserByID c (CauserID n)) else None)"

definition lookupFailed :: "Client \<Rightarrow> int \<Rightarrow> bool" where
  "lookupFailed c i \<longleftrightarrow> snd (UserByID c i) \<noteq> None"

text \<open>The notification a request leads to, if it is neither dropped nor fatal.\<close>

definition notificationFor ::
    "Client \<Rightarrow> deps \<Rightarrow> RewardNotificationRequest \<Rightarrow> Notification option" where
  "notificationFor c d n =
     (case processRewardNotification c d n of Sent _ m \<Rightarrow> Some m | _ \<Rightarrow> None)"

definition fatal :: "Client \<Rightarrow> deps \<Rightarrow> RewardNotificationRequest \<Rightarrow> bool" where
  "fatal c d n = (case processRewardNotification c d n of Panicked _ _ \<Rightarrow> True | _ \<Rightarrow> False)"

section \<open>Handlers and their responses\<close>

text \<open>
  What a handler does to its \<open>http.ResponseWriter\<close>, in order: headers added, records
  handed to the CSV writer, flushes of that writer, and calls of \<open>render.Error\<close>.
  Writes to the response are taken to succeed, so the error branches that follow
  \<open>csvw.Write\<close> are not entered.
\<close>

datatype event =
  HeaderAdd string string
  | CsvWrite "string list"
  | CsvFlush
  | RenderError string nat

text \<open>
  How a block of statements ends: it falls through to the next statement with its state,
  it returns from the handler, or it panics.
\<close>

datatype 's flow = Next 's | Return | Panic panic

definition and_then ::
    "event list \<times> 's flow \<Rightarrow> ('s \<Rightarrow> event list \<times> 't flow) \<Rightarrow> event list \<times> 't flow" where
  "and_then r k =
     (case r of
        (es, Next s) \<Rightarrow> (case k s of (es', f) \<Rightarrow> (es @ es', f))
      | (es, Return) \<Rightarrow> (es, Return)
      | (es, Panic p) \<Rightarrow> (es, Panic p))"

text \<open>
  \<open>for _, x := range xs { body }\<close>: the body ends with \<open>Next\<close> both when it runs to
  its end and when it executes \<open>continue\<close>.
\<close>

fun for_each ::
    "('a \<Rightarrow> 's \<Rightarrow> event list \<times> 's flow) \<Rightarrow> 'a list \<Rightarrow> 's \<Rightarrow> event list \<times> 's flow" where
  "for_each body [] s = ([], Next s)"
| "for_each body (x # xs) s = and_then (body x s) (for_each body xs)"

definition quiet :: "panic + 's \<Rightarrow> event list \<times> 's flow" where
  "quiet r = (case r of Inl p \<Rightarrow> ([], Panic p) | Inr s \<Rightarrow> ([], Next s))"

definition rows_of :: "event list \<Rightarrow> string list list" where
  "rows_of es = concat (map (\<lambda>e. case e of CsvWrite r \<Rightarrow> [r] | _ \<Rightarrow> []) es)"

text \<open>
  The standard library functions the handlers call on values they do not inspect:
  \<open>t.Format(time.RFC3339Nano)\<close>, \<open>time.Parse("2006-01-02", s)\<close> (its error message
  on the left) and \<open>strings.TrimSpace\<close>.
\<close>

record stdlib =
  FormatRFC3339Nano :: "time \<Rightarrow> string"
  ParseDate :: "string \<Rightarrow> string + time"
  TrimSpace :: "string \<Rightarrow> string"

text \<open>\<open>strings.ReplaceAll(s, old, new)\<close>, on bytes.\<close>

fun replace_nonempty :: "string \<Rightarrow> string \<Rightarrow> string \<Rightarrow> string" where
  "replace_nonempty old new [] = []"
| "replace_nonempty old new (c # cs) =
     (if old \<noteq> [] \<and> take (length old) (c # cs) = old
      then new @ replace_nonempty old new (drop (length old) (c # cs))
      else c # replace_nonempty old new cs)"

definition ReplaceAll :: "string \<Rightarrow> string \<Rightarrow> string \<Rightarrow> string" where
  "ReplaceAll s old new =
     (if old = [] then new @ concat (map (\<lambda>c. c # new) s) else replace_nonempty old new s)"

subsection \<open>The SDK's integers and coins\<close>

text \<open>
  \<open>sdk.Int\<close> holds at most 255 bits and panics beyond; \<open>Coin.Add\<close> and \<open>Coin.Sub\<close>
  panic on different denominations, \<open>Coin.Sub\<close> also on a negative result, and
  \<open>sdk.NewCoin\<close> on an invalid denomination or a negative amount.
\<close>

definition Int_ok :: "int \<Rightarrow> panic + int" where
  "Int_ok i = (if \<bar>i\<bar> < 2 ^ 255 then Inr i else Inl IntOverflow)"

definition Int_Add :: "int \<Rightarrow> int \<Rightarrow> panic + int" where
  "Int_Add a b = Int_ok (a + b)"

definition Int_Sub :: "int \<Rightarrow> int \<Rightarrow> panic + int" where
  "Int_Sub a b = Int_ok (a - b)"

definition lower_or_digit :: "char \<Rightarrow> bool" where
  "lower_or_digit c \<longleftrightarrow> c \<in> set ''abcdefghijklmnopqrstuvwxyz0123456789''"

definition validDenom :: "string \<Rightarrow> bool" where
  "validDenom d \<longleftrightarrow>
     (case d of
        [] \<Rightarrow> False
      | c # cs \<Rightarrow> c \<in> set ''abcdefghijklmnopqrstuvwxyz'' \<and> list_all lower_or_digit cs \<and>
          2 \<le> length cs \<and> length cs \<le> 15)"

definition NewCoin :: "string \<Rightarrow> int \<Rightarrow> panic + Coin" where
  "NewCoin denom amount =
     (if \<not> validDenom denom then Inl (InvalidDenom denom)
      else if amount < 0 then Inl NegativeCoinAmount
      else Inr \<lparr>Denom = denom, Amount = amount\<rparr>)"

definition Coin_Add :: "Coin \<Rightarrow> Coin \<Rightarrow> panic + Coin" where
  "Coin_Add a b =
     (if Denom a \<noteq> Denom b then Inl (InvalidDenominations (Denom a) (Denom b))
      else (case Int_Add (Amount a) (Amount b) of
              Inl p \<Rightarrow> Inl p
            | Inr r \<Rightarrow> Inr \<lparr>Denom = Denom a, Amount = r\<rparr>))"

definition Coin_Sub :: "Coin \<Rightarrow> Coin \<Rightarrow> panic + Coin" where
  "Coin_Sub a b =
     (if Denom a \<noteq> Denom b then Inl (InvalidDenominations (Denom a) (Denom b))
      else (case Int_Sub (Amount a) (Amount b) of
              Inl p \<Rightarrow> Inl p
            | Inr r \<Rightarrow> if r < 0 then Inl NegativeCoinAmount else Inr \<lparr>Denom = Denom a, Amount = r\<rparr>))"

definition StakeDenom :: string where
  "StakeDenom = ''trusteak''"

definition zeroStake :: Coin where
  "zeroStake = \<lparr>Denom = StakeDenom, Amount = 0\<rparr>"

subsection \<open>HandleUserBase\<close>

definition userGroupTypeName :: "string list" where
  "userGroupTypeName = [''User'', ''Employee'', ''TruStory Debater'', ''Research Analyst'']"

definition UserGroup_String :: "int \<Rightarrow> panic + string" where
  "UserGroup_String ug =
     (if ug \<ge> int (length userGroupTypeName) then Inr ''Unknown''
      else if ug < 0 then Inl IndexOutOfRange
      else Inr (userGroupTypeName ! nat ug))"

text \<open>\<open>r.Header.Get(key)\<close>: the first value stored under the key, or the empty string.\<close>

definition Header_Get :: "(string \<rightharpoonup> string list) \<Rightarrow> string \<Rightarrow> string" where
  "Header_Get h k = (case h k of None \<Rightarrow> [] | Some [] \<Rightarrow> [] | Some (v # _) \<Rightarrow> v)"

record UserBaseRequest =
  ub_Secret :: string
  ub_Header :: "string \<rightharpoonup> string list"
  ub_FindAll :: "string + User list"

definition user_base_header :: "string list" where
  "user_base_header =
     [''address'', ''username'', ''email'', ''creation_date'', ''updated_date'', ''last_login'',
      ''user_group'']"

definition user_base_body :: "stdlib \<Rightarrow> User \<Rightarrow> unit \<Rightarrow> event list \<times> unit flow" where
  "user_base_body lib user s =
     (if Address user = [] then ([], Next ())
      else
        (let lastLogin =
               (case LastAuthenticatedAt user of
                  None \<Rightarrow> []
                | Some t \<Rightarrow> FormatRFC3339Nano lib t)
         in (case UserGroup_String (UserGroup user) of
               Inl p \<Rightarrow> ([], Panic p)
             | Inr g \<Rightarrow>
                 ([CsvWrite [Address user, Username user, Email user,
                             FormatRFC3339Nano lib (CreatedAt user),
                             FormatRFC3339Nano lib (UpdatedAt user), lastLogin, g],
                   CsvFlush], Next ()))))"

definition HandleUserBase :: "stdlib \<Rightarrow> UserBaseRequest \<Rightarrow> event list \<times> unit flow" where
  "HandleUserBase lib rq =
     (let token = ub_Secret rq
      in if token = [] \<or> token \<noteq> Header_Get (ub_Header rq) ''Metrics-Secret''
         then ([RenderError ''Invalid token'' 401], Return)
         else and_then ([HeaderAdd ''Content-Type'' ''text/csv'', CsvWrite user_base_header], Next ())
                (\<lambda>_. case ub_FindAll rq of
                        Inl err \<Rightarrow> ([RenderError err 500], Return)
                      | Inr users \<Rightarrow> for_each (user_base_body lib) users ()))"

subsection \<open>What the chain and the data store answer\<close>

record Claim =
  c_ID :: nat
  c_CommunityID :: string
  c_Body :: string
  c_Creator :: string
  c_CreatedTime :: time

datatype StakeType = StakeBacking | StakeChallenge | StakeUpvote | StakeTypeOther nat

record Stake =
  st_ArgumentID :: nat
  st_CommunityID :: string
  st_Type :: StakeType
  st_Amount :: Coin
  st_Creator :: string
  st_CreatedTime :: time
  st_EndTime :: time
  st_Expired :: bool

record Argument =
  a_ID :: nat
  a_Creator :: string
  a_StakeType :: StakeType
  a_CreatedTime :: time

record Comment =
  cm_Creator :: string
  cm_CreatedAt :: time

record ClaimViewsStats =
  v_ClaimID :: int
  v_UserViews :: int
  v_UniqueUserViews :: int
  v_AnonViews :: int
  v_UniqueAnonViews :: int
  v_UserArgumentsViews :: int
  v_UniqueUserArgumentsViews :: int
  v_AnonArgumentsViews :: int
  v_UniqueAnonArgumentsViews :: int

record ClaimRepliesStats =
  r_ClaimID :: int
  r_Replies :: int

record Community =
  cy_ID :: string
  cy_Name :: string

datatype TransactionType =
  TransactionBacking
  | TransactionChallenge
  | TransactionCuratorReward
  | TransactionInterestArgumentCreation
  | TransactionInterestUpvoteReceived
  | TransactionInterestUpvoteGiven
  | TransactionInterestArgumentCreationSlashed
  | TransactionInterestUpvoteReceivedSlashed
  | TransactionInterestUpvoteGivenSlashed
  | TransactionStakeCreatorSlashed
  | TransactionStakeCuratorSlashed
  | TransactionOther nat

record Transaction =
  tx_ID :: nat
  tx_Type :: TransactionType
  tx_Amount :: Coin
  tx_CommunityID :: string
  tx_CreatedTime :: time

record UserOpenedClaimsSummary =
  oc_Address :: string
  oc_CommunityID :: string
  oc_OpenedClaims :: int
  oc_UniqueOpenedClaims :: int

record UserOpenedArgumentsSummary =
  oa_Address :: string
  oa_CommunityID :: string
  oa_OpenedArguments :: int
  oa_UniqueOpenedArguments :: int

record UserRepliesStats =
  ur_Address :: string
  ur_CommunityID :: string
  ur_Replies :: int

text \<open>
  The answers of the chain queries and of the data store for one request; an error is its
  message, on the left. \<open>AllowedForDeduction\<close> and \<open>TypeString\<close> are the methods of the
  chain's transaction type.
\<close>

record backend =
  QueryClaimsBeforeTime :: "time \<Rightarrow> string + Claim list"
  QueryClaimArguments :: "nat \<Rightarrow> string + Argument list"
  claimStakesResolver :: "Claim \<Rightarrow> Stake list"
  CommentsByClaimID :: "nat \<Rightarrow> Comment list"
  DBClaimViewsStats :: "time \<Rightarrow> string + ClaimViewsStats list"
  DBClaimRepliesStats :: "time \<Rightarrow> string + ClaimRepliesStats list"
  FlaggedStoriesIDs :: "string + int list"
  FindAllUsers :: "string + User list"
  QueryCommunities :: "string option"
  DecodeCommunities :: "string + Community list"
  OpenedClaimsSummary :: "time \<Rightarrow> string + UserOpenedClaimsSummary list"
  OpenedArgumentsSummary :: "time \<Rightarrow> string + UserOpenedArgumentsSummary list"
  DBUserRepliesStats :: "time \<Rightarrow> string + UserRepliesStats list"
  appAccountTransactionsResolver :: "string \<Rightarrow> Transaction list"
  AllowedForDeduction :: "TransactionType \<Rightarrow> bool"
  TypeString :: "TransactionType \<Rightarrow> string"

record MetricsRequest =
  rq_jobTime :: string
  rq_ParseForm :: "string option"
  rq_date :: string

definition getClaimArguments :: "backend \<Rightarrow> nat \<Rightarrow> string + Argument list" where
  "getClaimArguments b claimID = QueryClaimArguments b claimID"

text \<open>
  The prologue shared by the dated reports: \<open>r.ParseForm()\<close>, the \<open>date\<close> form value
  and its parsing.
\<close>

definition parse_date :: "stdlib \<Rightarrow> MetricsRequest \<Rightarrow> event list \<times> time flow" where
  "parse_date lib rq =
     (case rq_ParseForm rq of
        Some err \<Rightarrow> ([RenderError err 500], Return)
      | None \<Rightarrow>
          (if rq_date rq = [] then ([RenderError ''provide a valid date'' 400], Return)
           else (case ParseDate lib (rq_date rq) of
                   Inl err \<Rightarrow> ([RenderError err 500], Return)
                 | Inr t \<Rightarrow> ([], Next t))))"

subsection \<open>HandleUserClaims\<close>

definition user_claims_header :: "string list" where
  "user_claims_header =
     [''job_date_time'', ''date'', ''claim_id'', ''claim'', ''community'', ''address'',
      ''creation_date'', ''participants'']"

definition day :: int where
  "day = 24 * 3600 * 1000000000"

text \<open>
  The two participant sets are Go maps used as sets; a map's \<open>len\<close> is the number of its
  distinct keys.
\<close>

definition user_claims_body ::
    "stdlib \<Rightarrow> backend \<Rightarrow> string \<Rightarrow> time \<Rightarrow> Claim \<Rightarrow> unit \<Rightarrow> event list \<times> unit flow" where
  "user_claims_body lib b jobTime targetDate claim s =
     (if \<not> c_CreatedTime claim < targetDate then ([], Next ())
      else
        (let previousDay = targetDate - day;
             stakes = filter (\<lambda>s. st_CreatedTime s < targetDate) (claimStakesResolver b claim);
             comments = filter (\<lambda>c. cm_CreatedAt c < targetDate) (CommentsByClaimID b (c_ID claim));
             participantsTarget = map st_Creator stakes @ map cm_Creator comments;
             participantsPreviousDay =
               map st_Creator (filter (\<lambda>s. st_CreatedTime s < previousDay) stakes) @
               map cm_Creator (filter (\<lambda>c. cm_CreatedAt c < previousDay) comments);
             row = [jobTime, FormatRFC3339Nano lib targetDate, fmt_d (int (c_ID claim)),
                    c_Body claim, c_CommunityID claim, c_Creator claim,
                    FormatRFC3339Nano lib (c_CreatedTime claim),
                    fmt_d (int (length (remdups participantsTarget)) -
                           int (length (remdups participantsPreviousDay)))]
         in ([CsvWrite row, CsvFlush], Next ())))"

definition HandleUserClaims ::
    "stdlib \<Rightarrow> backend \<Rightarrow> MetricsRequest \<Rightarrow> event list \<times> unit flow" where
  "HandleUserClaims lib b rq =
     and_then ([HeaderAdd ''Content-Type'' ''text/csv'', CsvWrite user_claims_header], Next ())
       (\<lambda>_. and_then (parse_date lib rq)
          (\<lambda>targetDate.
             (case QueryClaimsBeforeTime b targetDate of
                Inl err \<Rightarrow> ([RenderError err 500], Return)
              | Inr claims \<Rightarrow>
                  for_each (user_claims_body lib b (rq_jobTime rq) targetDate) claims ())))"

subsection \<open>HandleClaimMetrics\<close>

definition bindP :: "panic + 'a \<Rightarrow> ('a \<Rightarrow> panic + 'b) \<Rightarrow> panic + 'b" where
  "bindP r k = (case r of Inl p \<Rightarrow> Inl p | Inr x \<Rightarrow> k x)"

definition uint64 :: "int \<Rightarrow> nat" where
  "uint64 i = nat (i mod 2 ^ 64)"

definition claim_metrics_header :: "string list" where
  "claim_metrics_header =
     [''job_date_time'', ''date'', ''created_date'', ''flagged'', ''id'', ''community_id'',
      ''claim_name'', ''arguments_created'', ''agrees_given'', ''staked'', ''staked_backed'',
      ''staked_argument_backed'', ''staked_agree_backed'', ''staked_challenged'',
      ''staked_argument_challenged'', ''staked_agree_challenged'', ''user_views'',
      ''unique_user_views'', ''anon_views'', ''unique_anon_views'', ''user_arguments_views'',
      ''unique_user_arguments_views'', ''anon_arguments_views'',
      ''unique_anon_arguments_views'', ''replies'', ''last_activiy_argument'',
      ''last_activity_agree'']"

text \<open>
  \<open>claimViewsStatsMappings\<close> maps a claim id to the index of its statistics (the last
  one, when an id occurs twice); \<open>getClaimViewsStats\<close> answers the zero struct for an id
  the map does not have. The replies statistics go the same way.
\<close>

definition index_by :: "('a \<Rightarrow> nat) \<Rightarrow> 'a list \<Rightarrow> (nat \<rightharpoonup> nat)" where
  "index_by key xs = fold (\<lambda>(idx, x) m. m(key x \<mapsto> idx)) (enumerate 0 xs) Map.empty"

definition zeroViewsStats :: ClaimViewsStats where
  "zeroViewsStats = \<lparr>v_ClaimID = 0, v_UserViews = 0, v_UniqueUserViews = 0, v_AnonViews = 0,
     v_UniqueAnonViews = 0, v_UserArgumentsViews = 0, v_UniqueUserArgumentsViews = 0,
     v_AnonArgumentsViews = 0, v_UniqueAnonArgumentsViews = 0\<rparr>"

definition getClaimViewsStats :: "ClaimViewsStats list \<Rightarrow> nat \<Rightarrow> ClaimViewsStats" where
  "getClaimViewsStats claimViewsStats claimID =
     (case index_by (\<lambda>c. uint64 (v_ClaimID c)) claimViewsStats claimID of
        None \<Rightarrow> zeroViewsStats
      | Some index \<Rightarrow> claimViewsStats ! index)"

definition getClaimRepliesStats :: "ClaimRepliesStats list \<Rightarrow> nat \<Rightarrow> ClaimRepliesStats" where
  "getClaimRepliesStats claimRepliesStats claimID =
     (case index_by (\<lambda>c. uint64 (r_ClaimID c)) claimRepliesStats claimID of
        None \<Rightarrow> \<lparr>r_ClaimID = 0, r_Replies = 0\<rparr>
      | Some index \<Rightarrow> claimRepliesStats ! index)"

record claim_totals =
  agreesGiven :: int
  totalBacked :: int
  totalBackedAgree :: int
  totalBackedArgument :: int
  totalChallenged :: int
  totalChallengedAgree :: int
  totalChallengedArgument :: int
  lastActivityAgree :: time

definition no_totals :: claim_totals where
  "no_totals = \<lparr>agreesGiven = 0, totalBacked = 0, totalBackedAgree = 0, totalBackedArgument = 0,
     totalChallenged = 0, totalChallengedAgree = 0, totalChallengedArgument = 0,
     lastActivityAgree = 0\<rparr>"

text \<open>
  The totals of a stake once its argument \<open>a\<close> is at hand (lines 536 to 559 of the
  handler).
\<close>

definition count_stake :: "Argument \<Rightarrow> Stake \<Rightarrow> claim_totals \<Rightarrow> panic + claim_totals" where
  "count_stake a stake t0 =
     (let amt = Amount (st_Amount stake);
          t = (if st_Type stake = StakeUpvote \<and> lastActivityAgree t0 < st_CreatedTime stake
               then t0\<lparr>lastActivityAgree := st_CreatedTime stake\<rparr> else t0)
      in if a_StakeType a = StakeBacking \<and> st_Type stake = StakeUpvote then
           bindP (Int_Add (totalBacked t) amt) (\<lambda>x.
           bindP (Int_Add (totalBackedAgree t) amt) (\<lambda>y.
           Inr (t\<lparr>totalBacked := x, totalBackedAgree := y, agreesGiven := agreesGiven t + 1\<rparr>)))
         else if a_StakeType a = StakeChallenge \<and> st_Type stake = StakeUpvote then
           bindP (Int_Add (totalChallenged t) amt) (\<lambda>x.
           bindP (Int_Add (totalChallengedAgree t) amt) (\<lambda>y.
           Inr (t\<lparr>totalChallenged := x, totalChallengedAgree := y,
                  agreesGiven := agreesGiven t + 1\<rparr>)))
         else
           bindP (if a_StakeType a = StakeBacking then
                    bindP (Int_Add (totalBacked t) amt) (\<lambda>x.
                    bindP (Int_Add (totalBackedArgument t) amt) (\<lambda>y.
                    Inr (t\<lparr>totalBacked := x, totalBackedArgument := y\<rparr>)))
                  else Inr t) (\<lambda>t'.
           if a_StakeType a = StakeChallenge then
             bindP (Int_Add (totalChallenged t') amt) (\<lambda>x.
             bindP (Int_Add (totalChallengedArgument t') amt) (\<lambda>y.
             Inr (t'\<lparr>totalChallenged := x, totalChallengedArgument := y\<rparr>)))
           else Inr t'))"

text \<open>
  One stake of a claim. When \<open>mapArguments\<close> has no entry for the stake's argument the
  handler renders an error and, there being no \<open>return\<close>, goes on with the zero index.
\<close>

definition claim_stake_body ::
    "time \<Rightarrow> Argument list \<Rightarrow> Stake \<Rightarrow> claim_totals \<Rightarrow> event list \<times> claim_totals flow" where
  "claim_stake_body beforeDate arguments stake t =
     (if \<not> st_CreatedTime stake < beforeDate then ([], Next t)
      else
        (let found = index_by a_ID arguments (st_ArgumentID stake);
             i = (case found of None \<Rightarrow> 0 | Some i \<Rightarrow> i)
         in and_then
              ((case found of
                  None \<Rightarrow>
                    [RenderError (''unable to find argument with id '' @
                       fmt_d (int (st_ArgumentID stake))) 500]
                | Some _ \<Rightarrow> []), Next ())
              (\<lambda>_. if i < length arguments then quiet (count_stake (arguments ! i) stake t)
                    else ([], Panic IndexOutOfRange))))"

definition claim_metrics_row ::
    "stdlib \<Rightarrow> string \<Rightarrow> time \<Rightarrow> Claim \<Rightarrow> int \<Rightarrow> ClaimViewsStats \<Rightarrow> ClaimRepliesStats \<Rightarrow>
     int \<Rightarrow> time \<Rightarrow> claim_totals \<Rightarrow> panic + string list" where
  "claim_metrics_row lib jobTime beforeDate claim flagged viewsStats repliesStats
       totalArguments lastActivityArgument t =
     (let body = ReplaceAll (c_Body claim) [CHR 0x0A] '' '';
          lastActivityArgumentDateString =
            (if lastActivityArgument \<noteq> 0 then FormatRFC3339Nano lib lastActivityArgument else []);
          lastActivityAgreeDateString =
            (if lastActivityAgree t \<noteq> 0 then FormatRFC3339Nano lib (lastActivityAgree t) else [])
      in bindP (Int_Add (totalBacked t) (totalChallenged t)) (\<lambda>staked.
           Inr [jobTime,
                FormatRFC3339Nano lib beforeDate,
                FormatRFC3339Nano lib (c_CreatedTime claim),
                fmt_d flagged,
                fmt_d (int (c_ID claim)),
                c_CommunityID claim,
                TrimSpace lib body,
                fmt_d totalArguments,
                fmt_d (agreesGiven t),
                fmt_d staked,
                fmt_d (totalBacked t),
                fmt_d (totalBackedArgument t),
                fmt_d (totalBackedAgree t),
                fmt_d (totalChallenged t),
                fmt_d (totalChallengedArgument t),
                fmt_d (totalChallengedAgree t),
                fmt_d (v_UserViews viewsStats),
                fmt_d (v_UniqueUserViews viewsStats),
                fmt_d (v_AnonViews viewsStats),
                fmt_d (v_UniqueAnonViews viewsStats),
                fmt_d (v_UserArgumentsViews viewsStats),
                fmt_d (v_UniqueUserArgumentsViews viewsStats),
                fmt_d (v_AnonArgumentsViews viewsStats),
                fmt_d (v_UniqueAnonArgumentsViews viewsStats),
                fmt_d (r_Replies repliesStats),
                lastActivityArgumentDateString,
                lastActivityAgreeDateString]))"

definition claim_metrics_body ::
    "stdlib \<Rightarrow> backend \<Rightarrow> string \<Rightarrow> time \<Rightarrow> ClaimViewsStats list \<Rightarrow> ClaimRepliesStats list \<Rightarrow>
     int list \<Rightarrow> Claim \<Rightarrow> unit \<Rightarrow> event list \<times> unit flow" where
  "claim_metrics_body lib b jobTime beforeDate claimViewsStats claimRepliesStats
       flaggedClaimsIDs claim s =
     (if \<not> c_CreatedTime claim < beforeDate then ([], Next ())
      else
        (let got = getClaimArguments b (c_ID claim);
             arguments = (case got of Inl _ \<Rightarrow> [] | Inr as \<Rightarrow> as);
             counted = filter (\<lambda>a. a_CreatedTime a < beforeDate) arguments;
             lastActivityArgument =
               fold (\<lambda>a t. if t < a_CreatedTime a then a_CreatedTime a else t) counted 0;
             totalArguments = int (length counted);
             flagged = (if c_ID claim \<in> set (map uint64 flaggedClaimsIDs) then 1 else 0)
         in and_then ((case got of Inl err \<Rightarrow> [RenderError err 500] | Inr _ \<Rightarrow> []), Next ())
           (\<lambda>_. and_then
              (for_each (claim_stake_body beforeDate arguments) (claimStakesResolver b claim)
                 no_totals)
              (\<lambda>t. and_then
                 (quiet (claim_metrics_row lib jobTime beforeDate claim flagged
                    (getClaimViewsStats claimViewsStats (c_ID claim))
                    (getClaimRepliesStats claimRepliesStats (c_ID claim))
                    totalArguments lastActivityArgument t))
                 (\<lambda>row. if length claim_metrics_header \<noteq> length row
                         then ([RenderError ''header and row content mismatch'' 500], Return)
                         else ([CsvWrite row, CsvFlush], Next ()))))))"

definition metricsVersion :: string where
  "metricsVersion = ''20190911-01''"

definition HandleClaimMetrics ::
    "stdlib \<Rightarrow> backend \<Rightarrow> MetricsRequest \<Rightarrow> event list \<times> unit flow" where
  "HandleClaimMetrics lib b rq =
     and_then ([HeaderAdd ''x-metrics-version'' metricsVersion], Next ())
       (\<lambda>_. and_then (parse_date lib rq)
          (\<lambda>beforeDate.
             (case QueryClaimsBeforeTime b beforeDate of
                Inl err \<Rightarrow> ([RenderError err 500], Return)
              | Inr claims \<Rightarrow>
                  (case DBClaimViewsStats b beforeDate of
                     Inl err \<Rightarrow> ([RenderError err 500], Return)
                   | Inr claimViewsStats \<Rightarrow>
                       (case DBClaimRepliesStats b beforeDate of
                          Inl err \<Rightarrow> ([RenderError err 500], Return)
                        | Inr claimRepliesStats \<Rightarrow>
                            and_then
                              ([HeaderAdd ''Content-Type'' ''text/csv'',
                                CsvWrite claim_metrics_header] @
                               (case FlaggedStoriesIDs b of
                                  Inl err \<Rightarrow> [RenderError err 500]
                                | Inr _ \<Rightarrow> []), Next ())
                              (\<lambda>_. for_each
                                 (claim_metrics_body lib b (rq_jobTime rq) beforeDate
                                    claimViewsStats claimRepliesStats
                                    (case FlaggedStoriesIDs b of Inl _ \<Rightarrow> [] | Inr ids \<Rightarrow> ids))
                                 claims ()))))))"

subsection \<open>HandleUsersMetrics\<close>

record UserCommunityMetrics =
  m_Claims :: int
  m_Arguments :: int
  m_AgreesGiven :: int
  m_AgreesReceived :: int
  m_Staked :: Coin
  m_StakedArgument :: Coin
  m_StakedAgree :: Coin
  m_InterestArgumentCreated :: Coin
  m_InterestAgreeReceived :: Coin
  m_InterestAgreeGiven :: Coin
  m_CuratorReward :: Coin
  m_InterestSlashed :: Coin
  m_StakeSlashed :: Coin
  m_ClaimsOpened :: int
  m_UniqueClaimsOpened :: int
  m_ArgumentsOpened :: int
  m_UniqueArgumentsOpened :: int
  m_Replies :: int
  m_EarnedCoin :: Coin
  m_PendingStake :: Coin

definition newUserCommunityMetrics :: UserCommunityMetrics where
  "newUserCommunityMetrics =
     \<lparr>m_Claims = 0, m_Arguments = 0, m_AgreesGiven = 0, m_AgreesReceived = 0,
      m_Staked = zeroStake, m_StakedArgument = zeroStake, m_StakedAgree = zeroStake,
      m_InterestArgumentCreated = zeroStake, m_InterestAgreeReceived = zeroStake,
      m_InterestAgreeGiven = zeroStake, m_CuratorReward = zeroStake,
      m_InterestSlashed = zeroStake, m_StakeSlashed = zeroStake,
      m_ClaimsOpened = 0, m_UniqueClaimsOpened = 0, m_ArgumentsOpened = 0,
      m_UniqueArgumentsOpened = 0, m_Replies = 0,
      m_EarnedCoin = zeroStake, m_PendingStake = zeroStake\<rparr>"

text \<open>
  \<open>Metrics\<close> is a map from addresses to maps from community ids to pointers; the metrics
  of a pair are created on first use, and every later use reaches the same struct. The
  model keys one map by the pair.
\<close>

type_synonym chainMetrics = "string \<times> string \<rightharpoonup> UserCommunityMetrics"

definition getUserCommunityMetric :: "chainMetrics \<Rightarrow> string \<Rightarrow> string \<Rightarrow> UserCommunityMetrics" where
  "getUserCommunityMetric m address communityID =
     (case m (address, communityID) of None \<Rightarrow> newUserCommunityMetrics | Some ucm \<Rightarrow> ucm)"

definition modify ::
    "chainMetrics \<Rightarrow> string \<Rightarrow> string \<Rightarrow> (UserCommunityMetrics \<Rightarrow> panic + UserCommunityMetrics) \<Rightarrow>
     panic + chainMetrics" where
  "modify m address communityID f =
     bindP (f (getUserCommunityMetric m address communityID))
       (\<lambda>ucm. Inr (m((address, communityID) \<mapsto> ucm)))"

definition betaReleaseDate :: time where
  "betaReleaseDate = 737250 * day"

definition notExpiredAt :: "time \<Rightarrow> time \<Rightarrow> time \<Rightarrow> bool" where
  "notExpiredAt date created end =
     (if created < betaReleaseDate then False
      else if date < created then False
      else if end < date then False
      else if \<not> created < end then False
      else True)"

definition users_stake_body ::
    "time \<Rightarrow> Claim \<Rightarrow> (nat \<rightharpoonup> string) \<Rightarrow> Stake \<Rightarrow> chainMetrics \<Rightarrow> panic + chainMetrics" where
  "users_stake_body beforeDate claim argumentIDCreator stake m =
     (if \<not> st_CreatedTime stake < beforeDate then Inr m
      else
        (let who = st_Creator stake;
             cid = c_CommunityID claim;
             amt = st_Amount stake;
             author = (case argumentIDCreator (st_ArgumentID stake) of None \<Rightarrow> [] | Some a \<Rightarrow> a)
         in bindP (if \<not> st_Expired stake \<or>
                      notExpiredAt beforeDate (st_CreatedTime stake) (st_EndTime stake)
                   then modify m who cid
                          (\<lambda>u. bindP (Coin_Add (m_PendingStake u) amt)
                             (\<lambda>c. Inr (u\<lparr>m_PendingStake := c\<rparr>)))
                   else modify m who cid Inr) (\<lambda>m1.
            bindP (if st_Type stake = StakeUpvote then
                     bindP (modify m1 who cid
                              (\<lambda>u. bindP (Coin_Add (m_StakedAgree u) amt)
                                 (\<lambda>c. Inr (u\<lparr>m_StakedAgree := c\<rparr>)))) (\<lambda>m2.
                     bindP (modify m2 author (st_CommunityID stake)
                              (\<lambda>u. Inr (u\<lparr>m_AgreesReceived := m_AgreesReceived u + 1\<rparr>))) (\<lambda>m3.
                     modify m3 who cid (\<lambda>u. Inr (u\<lparr>m_AgreesGiven := m_AgreesGiven u + 1\<rparr>))))
                   else Inr m1) (\<lambda>m4.
            bindP (if st_Type stake \<noteq> StakeUpvote then
                     modify m4 who cid
                       (\<lambda>u. bindP (Coin_Add (m_StakedArgument u) amt)
                          (\<lambda>c. Inr (u\<lparr>m_StakedArgument := c\<rparr>)))
                   else Inr m4) (\<lambda>m5.
            modify m5 who cid
              (\<lambda>u. bindP (Coin_Add (m_Staked u) amt) (\<lambda>c. Inr (u\<lparr>m_Staked := c\<rparr>))))))))"

definition users_claim_body ::
    "backend \<Rightarrow> time \<Rightarrow> Claim \<Rightarrow> chainMetrics \<Rightarrow> event list \<times> chainMetrics flow" where
  "users_claim_body b beforeDate claim m =
     (if \<not> c_CreatedTime claim < beforeDate then ([], Next m)
      else
        (let got = getClaimArguments b (c_ID claim);
             arguments = filter (\<lambda>a. a_CreatedTime a < beforeDate)
                           (case got of Inl _ \<Rightarrow> [] | Inr as \<Rightarrow> as);
             argumentIDCreator = fold (\<lambda>a k. k(a_ID a \<mapsto> a_Creator a)) arguments Map.empty
         in and_then
              (quiet (modify m (c_Creator claim) (c_CommunityID claim)
                        (\<lambda>u. Inr (u\<lparr>m_Claims := m_Claims u + 1\<rparr>))))
              (\<lambda>m1. and_then
                 ((case got of Inl err \<Rightarrow> [RenderError err 500] | Inr _ \<Rightarrow> []), Next m1)
                 (\<lambda>m2. and_then
                    (for_each
                       (\<lambda>argument k.
                          quiet (modify k (a_Creator argument) (c_CommunityID claim)
                                   (\<lambda>u. Inr (u\<lparr>m_Arguments := m_Arguments u + 1\<rparr>))))
                       arguments m2)
                    (\<lambda>m3. for_each
                       (\<lambda>stake k. quiet (users_stake_body beforeDate claim argumentIDCreator stake k))
                       (claimStakesResolver b claim) m3)))))"

definition trackedTransactions :: "TransactionType list" where
  "trackedTransactions =
     [TransactionBacking, TransactionChallenge, TransactionCuratorReward,
      TransactionInterestArgumentCreation, TransactionInterestUpvoteReceived,
      TransactionInterestUpvoteGiven, TransactionInterestArgumentCreationSlashed,
      TransactionInterestUpvoteReceivedSlashed, TransactionInterestUpvoteGivenSlashed,
      TransactionStakeCreatorSlashed, TransactionStakeCuratorSlashed]"

definition users_metrics_header :: "string list" where
  "users_metrics_header =
     [''job_date_time'', ''date'', ''address'', ''username'', ''balance'',
      ''community'', ''community_name'', ''stake_earned'',
      ''claims_created'', ''claims_opened'', ''unique_claims_opened'',
      ''arguments_created'', ''agrees_received'', ''agrees_given'',
      ''staked'', ''staked_arguments'', ''staked_agrees'',
      ''interest_argument_creation'', ''interest_agree_received'', ''interest_agree_given'',
      ''reward_not_helpful'',
      ''interest_slashed'', ''stake_slashed'', ''pending_stake'',
      ''replies'',
      ''arguments_opened'', ''unique_arguments_opened'']"

definition earn ::
    "string \<Rightarrow> (int \<Rightarrow> int \<Rightarrow> panic + int) \<Rightarrow> Coin \<Rightarrow> UserCommunityMetrics \<Rightarrow>
     panic + UserCommunityMetrics" where
  "earn communityID op amount u =
     bindP (op (Amount (m_EarnedCoin u)) (Amount amount)) (\<lambda>a.
     bindP (NewCoin communityID a) (\<lambda>c. Inr (u\<lparr>m_EarnedCoin := c\<rparr>)))"

text \<open>The \<open>switch transaction.Type\<close> of the users loop, on the metrics of the pair.\<close>

definition track ::
    "TransactionType \<Rightarrow> string \<Rightarrow> Coin \<Rightarrow> UserCommunityMetrics \<Rightarrow> panic + UserCommunityMetrics" where
  "track ty communityID amount u =
     (case ty of
        TransactionInterestArgumentCreation \<Rightarrow>
          bindP (Coin_Add (m_InterestArgumentCreated u) amount) (\<lambda>c.
          earn communityID Int_Add amount (u\<lparr>m_InterestArgumentCreated := c\<rparr>))
      | TransactionInterestUpvoteReceived \<Rightarrow>
          bindP (Coin_Add (m_InterestAgreeReceived u) amount) (\<lambda>c.
          earn communityID Int_Add amount (u\<lparr>m_InterestAgreeReceived := c\<rparr>))
      | TransactionInterestUpvoteGiven \<Rightarrow>
          bindP (Coin_Add (m_InterestAgreeGiven u) amount) (\<lambda>c.
          earn communityID Int_Add amount (u\<lparr>m_InterestAgreeGiven := c\<rparr>))
      | TransactionCuratorReward \<Rightarrow>
          bindP (Coin_Add (m_CuratorReward u) amount) (\<lambda>c. Inr (u\<lparr>m_CuratorReward := c\<rparr>))
      | TransactionInterestArgumentCreationSlashed \<Rightarrow>
          bindP (Coin_Add (m_InterestSlashed u) amount) (\<lambda>c.
          earn communityID Int_Sub amount (u\<lparr>m_InterestSlashed := c\<rparr>))
      | TransactionInterestUpvoteReceivedSlashed \<Rightarrow>
          bindP (Coin_Add (m_InterestSlashed u) amount) (\<lambda>c.
          earn communityID Int_Sub amount (u\<lparr>m_InterestSlashed := c\<rparr>))
      | TransactionInterestUpvoteGivenSlashed \<Rightarrow>
          bindP (Coin_Add (m_InterestSlashed u) amount) (\<lambda>c.
          earn communityID Int_Sub amount (u\<lparr>m_InterestSlashed := c\<rparr>))
      | TransactionStakeCreatorSlashed \<Rightarrow>
          bindP (Coin_Add (m_StakeSlashed u) amount) (\<lambda>c. Inr (u\<lparr>m_StakeSlashed := c\<rparr>))
      | TransactionStakeCuratorSlashed \<Rightarrow>
          bindP (Coin_Add (m_StakeSlashed u) amount) (\<lambda>c. Inr (u\<lparr>m_StakeSlashed := c\<rparr>))
      | _ \<Rightarrow> Inr u)"

definition users_tx_body ::
    "backend \<Rightarrow> time \<Rightarrow> string \<Rightarrow> Transaction \<Rightarrow> Coin \<times> chainMetrics \<Rightarrow>
     event list \<times> (Coin \<times> chainMetrics) flow" where
  "users_tx_body b beforeDate address transaction s =
     (case s of (balance, m) \<Rightarrow>
        if \<not> tx_CreatedTime transaction < beforeDate then ([], Next (balance, m))
        else
          (let amount =
                 (if AllowedForDeduction b (tx_Type transaction)
                  then (tx_Amount transaction)\<lparr>Amount := - Amount (tx_Amount transaction)\<rparr>
                  else tx_Amount transaction)
           in and_then (quiet (Coin_Add balance amount))
                (\<lambda>balance'.
                   if tx_Type transaction \<notin> set trackedTransactions then ([], Next (balance', m))
                   else if tx_CommunityID transaction = [] then
                     ([RenderError
                         (''transaction '' @ TypeString b (tx_Type transaction) @ '' ['' @
                          fmt_d (int (tx_ID transaction)) @ ''] must contain community id'') 500],
                      Return)
                   else
                     and_then
                       (quiet (modify m address (tx_CommunityID transaction)
                                 (track (tx_Type transaction) (tx_CommunityID transaction) amount)))
                       (\<lambda>m'. ([], Next (balance', m'))))))"

definition users_metrics_row ::
    "stdlib \<Rightarrow> string \<Rightarrow> time \<Rightarrow> User \<Rightarrow> Coin \<Rightarrow> Community \<Rightarrow> UserCommunityMetrics \<Rightarrow> string list" where
  "users_metrics_row lib jobTime beforeDate user balance community m =
     (let rowStart = [jobTime, FormatRFC3339Nano lib beforeDate, Address user, Username user,
                      fmt_d (Amount balance)]
      in rowStart @ [cy_ID community] @ [cy_Name community] @
         [fmt_d (Amount (m_EarnedCoin m))] @
         [fmt_d (m_Claims m)] @ [fmt_d (m_ClaimsOpened m)] @ [fmt_d (m_UniqueClaimsOpened m)] @
         [fmt_d (m_Arguments m)] @ [fmt_d (m_AgreesReceived m)] @ [fmt_d (m_AgreesGiven m)] @
         [fmt_d (Amount (m_Staked m))] @ [fmt_d (Amount (m_StakedArgument m))] @
         [fmt_d (Amount (m_StakedAgree m))] @
         [fmt_d (Amount (m_InterestArgumentCreated m))] @
         [fmt_d (Amount (m_InterestAgreeReceived m))] @
         [fmt_d (Amount (m_InterestAgreeGiven m))] @ [fmt_d (Amount (m_CuratorReward m))] @
         [fmt_d (Amount (m_InterestSlashed m))] @ [fmt_d (Amount (m_StakeSlashed m))] @
         [fmt_d (Amount (m_PendingStake m))] @
         [fmt_d (m_Replies m)] @
         [fmt_d (m_ArgumentsOpened m)] @ [fmt_d (m_UniqueArgumentsOpened m)])"

definition users_user_body ::
    "stdlib \<Rightarrow> backend \<Rightarrow> string \<Rightarrow> time \<Rightarrow> Community list \<Rightarrow> User \<Rightarrow> chainMetrics \<Rightarrow>
     event list \<times> chainMetrics flow" where
  "users_user_body lib b jobTime beforeDate communities user m =
     (if Address user = [] \<or> \<not> CreatedAt user < beforeDate then ([], Next m)
      else
        and_then
          (for_each (users_tx_body b beforeDate (Address user))
             (appAccountTransactionsResolver b (Address user)) (zeroStake, m))
          (\<lambda>(balance, m').
             (map (\<lambda>community.
                     CsvWrite (users_metrics_row lib jobTime beforeDate user balance community
                       (getUserCommunityMetric m' (Address user) (cy_ID community))))
                communities @ [CsvFlush],
              Next m')))"

definition set_opened_claims ::
    "backend \<Rightarrow> time \<Rightarrow> chainMetrics \<Rightarrow> event list \<times> chainMetrics flow" where
  "set_opened_claims b beforeDate m =
     (case OpenedClaimsSummary b beforeDate of
        Inl err \<Rightarrow> ([RenderError err 500], Next m)
      | Inr openedClaims \<Rightarrow>
          for_each
            (\<lambda>x k. quiet (modify k (oc_Address x) (oc_CommunityID x)
               (\<lambda>u. Inr (u\<lparr>m_ClaimsOpened := oc_OpenedClaims x,
                           m_UniqueClaimsOpened := oc_UniqueOpenedClaims x\<rparr>))))
            openedClaims m)"

definition set_opened_arguments ::
    "backend \<Rightarrow> time \<Rightarrow> chainMetrics \<Rightarrow> event list \<times> chainMetrics flow" where
  "set_opened_arguments b beforeDate m =
     (case OpenedArgumentsSummary b beforeDate of
        Inl err \<Rightarrow> ([RenderError err 500], Return)
      | Inr openedArguments \<Rightarrow>
          for_each
            (\<lambda>x k. quiet (modify k (oa_Address x) (oa_CommunityID x)
               (\<lambda>u. Inr (u\<lparr>m_ArgumentsOpened := oa_OpenedArguments x,
                           m_UniqueArgumentsOpened := oa_UniqueOpenedArguments x\<rparr>))))
            openedArguments m)"

definition set_replies ::
    "backend \<Rightarrow> time \<Rightarrow> chainMetrics \<Rightarrow> event list \<times> chainMetrics flow" where
  "set_replies b beforeDate m =
     (case DBUserRepliesStats b beforeDate of
        Inl err \<Rightarrow> ([RenderError err 500], Return)
      | Inr replies \<Rightarrow>
          for_each
            (\<lambda>x k. quiet (modify k (ur_Address x) (ur_CommunityID x)
               (\<lambda>u. Inr (u\<lparr>m_Replies := ur_Replies x\<rparr>))))
            replies m)"

text \<open>
  The handler from the communities query on (lines 215 to 392), with the metrics \<open>m\<close>
  that the claims loop accumulated.
\<close>

definition users_metrics_export ::
    "stdlib \<Rightarrow> backend \<Rightarrow> string \<Rightarrow> time \<Rightarrow> chainMetrics \<Rightarrow> event list \<times> chainMetrics flow" where
  "users_metrics_export lib b jobTime beforeDate m =
     and_then
       ((case QueryCommunities b of Some err \<Rightarrow> [RenderError err 500] | None \<Rightarrow> []) @
        (case DecodeCommunities b of Inl err \<Rightarrow> [RenderError err 500] | Inr _ \<Rightarrow> []), Next ())
       (\<lambda>_. let communities = (case DecodeCommunities b of Inl _ \<Rightarrow> [] | Inr cs \<Rightarrow> cs);
                users = (case FindAllUsers b of Inl _ \<Rightarrow> [] | Inr us \<Rightarrow> us)
             in if communities = [] then ([RenderError ''no communities found'' 500], Return)
                else
                  and_then
                    ([HeaderAdd ''Content-Type'' ''text/csv'', CsvWrite users_metrics_header],
                     Next ())
                    (\<lambda>_. and_then (set_opened_claims b beforeDate m)
                       (\<lambda>m1. and_then (set_opened_arguments b beforeDate m1)
                          (\<lambda>m2. and_then (set_replies b beforeDate m2)
                             (\<lambda>m3. for_each
                                (users_user_body lib b jobTime beforeDate communities)
                                users m3)))))"

definition HandleUsersMetrics ::
    "stdlib \<Rightarrow> backend \<Rightarrow> MetricsRequest \<Rightarrow> event list \<times> chainMetrics flow" where
  "HandleUsersMetrics lib b rq =
     and_then ([HeaderAdd ''x-metrics-version'' metricsVersion], Next ())
       (\<lambda>_. and_then (parse_date lib rq)
          (\<lambda>beforeDate.
             (case QueryClaimsBeforeTime b beforeDate of
                Inl err \<Rightarrow> ([RenderError err 500], Return)
              | Inr claims \<Rightarrow>
                  and_then
                    ((case FindAllUsers b of
                        Inl err \<Rightarrow> [RenderError err 500, RenderError err 500]
                      | Inr _ \<Rightarrow> []), Next ())
                    (\<lambda>_. and_then (for_each (users_claim_body b beforeDate) claims Map.empty)
                       (users_metrics_export lib b (rq_jobTime rq) beforeDate)))))"

section \<open>HandleMetrics: the per-user, per-category summary\<close>

datatype StoryStatus = Pending | Expired | StoryStatusOther nat

record Story =
  s_ID :: int
  s_CategoryID :: int
  s_Creator :: string
  s_Status :: StoryStatus
  s_CreatedTime :: time

text \<open>A backing or a challenge of a story, with the methods the handler calls on it.\<close>

record Vote =
  b_Amount :: Coin
  b_Creator :: string
  b_StoryID :: int
  b_CreatedTime :: time
  b_ArgumentID :: int

record StoryArgument =
  ar_ID :: int
  ar_Creator :: string

record Category =
  cat_ID :: int
  cat_Title :: string
  cat_Denom :: string

datatype BankTransactionType =
  Interest
  | BackingLike
  | ChallengeLike
  | RewardPool
  | BackingReturned
  | ChallengeReturned
  | BankTransactionOther nat

record BankTransaction =
  t_TransactionType :: BankTransactionType
  t_Amount :: Coin
  t_GroupID :: int
  t_CreatedTime :: time

record TwitterProfile =
  tp_Address :: string
  tp_Username :: string

record UserOpenedClaims =
  uo_Address :: string
  uo_CategoryID :: int
  uo_OpenedClaims :: int

text \<open>
  The answers of the chain and of the data store during one request. \<open>stakeBalance\<close> is
  \<open>user.Coins.AmountOf(app.StakeDenom)\<close> of the user \<open>getUser\<close> returns (zero for the
  empty user), \<open>InitialStakeBalance\<close> the stored initial balance or the query's error, and
  \<open>rangeOrder\<close> ranks story ids in the order in which this run's \<open>range\<close> over the
  \<open>userStoryResults\<close> map visits them, an order Go leaves unspecified.
\<close>

record chain =
  RunQueryStories :: "string + Story list"
  allCategoriesResolver :: "Category list"
  backingsResolver :: "int \<Rightarrow> Vote list"
  challengesResolver :: "int \<Rightarrow> Vote list"
  argumentResolver :: "int \<Rightarrow> StoryArgument"
  stakeBalance :: "string \<Rightarrow> int"
  InitialStakeBalance :: "string \<Rightarrow> string + int"
  FindAllProfiles :: "string + TwitterProfile list"
  TwitterProfileByAddress :: "string \<Rightarrow> TwitterProfile option \<times> string option"
  transactionsResolver :: "string \<Rightarrow> BankTransaction list"
  OpenedClaimsByCategory :: "time \<Rightarrow> string + UserOpenedClaims list"
  rangeOrder :: "int \<Rightarrow> nat"

record Metrics =
  TotalClaims :: int
  TotalArguments :: int
  TotalEndorsementsReceived :: int
  TotalEndorsementsGiven :: int
  TotalBackings :: int
  TotalChallenges :: int
  TotalOpenedClaims :: int
  TotalAmountStaked :: Coin
  TotalAmountBacked :: Coin
  TotalAmountChallenged :: Coin
  StakeEarned :: Coin
  StakeLost :: Coin
  TotalAmountAtStake :: Coin
  InterestEarned :: Coin

text \<open>
  \<open>CredEarned\<close>, \<open>Balance\<close> and \<open>RunningBalance\<close> are left at Go's zero value when the
  struct is made; \<open>None\<close> is that zero coin (empty denomination, nil amount), on which
  \<open>Add\<close> panics.
\<close>

record CategoryMetrics =
  CategoryID :: int
  CategoryName :: string
  CredEarned :: "Coin option"
  Metrics :: Metrics

record UserMetrics =
  UserName :: string
  Balance :: "Coin option"
  RunningBalance :: "Coin option"
  CategoryMetrics :: "int \<rightharpoonup> CategoryMetrics"

type_synonym Users = "string \<rightharpoonup> UserMetrics"

definition newMetrics :: Metrics where
  "newMetrics =
     \<lparr>TotalClaims = 0, TotalArguments = 0, TotalEndorsementsReceived = 0,
      TotalEndorsementsGiven = 0, TotalBackings = 0, TotalChallenges = 0, TotalOpenedClaims = 0,
      TotalAmountStaked = zeroStake, TotalAmountBacked = zeroStake,
      TotalAmountChallenged = zeroStake, StakeEarned = zeroStake, StakeLost = zeroStake,
      TotalAmountAtStake = zeroStake, InterestEarned = zeroStake\<rparr>"

definition getMetricsByCategory :: "UserMetrics \<Rightarrow> int \<Rightarrow> CategoryMetrics" where
  "getMetricsByCategory um categoryID =
     (case CategoryMetrics um categoryID of
        None \<Rightarrow> \<lparr>CategoryID = categoryID, CategoryName = [], CredEarned = None,
                  Metrics = newMetrics\<rparr>
      | Some cm \<Rightarrow> cm)"

text \<open>
  \<open>getMetricsByCategory\<close> stores the struct it makes and hands out a pointer; a method
  that then changes the struct through the pointer is a change of the stored entry.
\<close>

definition withCategory ::
    "UserMetrics \<Rightarrow> int \<Rightarrow> (CategoryMetrics \<Rightarrow> panic + CategoryMetrics) \<Rightarrow> panic + UserMetrics" where
  "withCategory um categoryID f =
     bindP (f (getMetricsByCategory um categoryID))
       (\<lambda>cm. Inr (um\<lparr>CategoryMetrics := (CategoryMetrics um)(categoryID \<mapsto> cm)\<rparr>))"

definition withMetrics ::
    "UserMetrics \<Rightarrow> int \<Rightarrow> (Metrics \<Rightarrow> panic + Metrics) \<Rightarrow> panic + UserMetrics" where
  "withMetrics um categoryID g =
     withCategory um categoryID (\<lambda>cm. bindP (g (Metrics cm)) (\<lambda>m. Inr (cm\<lparr>Metrics := m\<rparr>)))"

definition GetUserMetrics :: "Users \<Rightarrow> string \<Rightarrow> UserMetrics" where
  "GetUserMetrics users address =
     (case users address of
        None \<Rightarrow> \<lparr>UserName = [], Balance = None, RunningBalance = None,
                  CategoryMetrics = Map.empty\<rparr>
      | Some userMetrics \<Rightarrow> userMetrics)"

definition increaseArgumentsCount :: "UserMetrics \<Rightarrow> int \<Rightarrow> panic + UserMetrics" where
  "increaseArgumentsCount um categoryID =
     withMetrics um categoryID (\<lambda>m. Inr (m\<lparr>TotalArguments := TotalArguments m + 1\<rparr>))"

definition increaseClaimsCount :: "UserMetrics \<Rightarrow> int \<Rightarrow> panic + UserMetrics" where
  "increaseClaimsCount um categoryID =
     withMetrics um categoryID (\<lambda>m. Inr (m\<lparr>TotalClaims := TotalClaims m + 1\<rparr>))"

definition increaseEndorsementsGivenCount :: "UserMetrics \<Rightarrow> int \<Rightarrow> panic + UserMetrics" where
  "increaseEndorsementsGivenCount um categoryID =
     withMetrics um categoryID
       (\<lambda>m. Inr (m\<lparr>TotalEndorsementsGiven := TotalEndorsementsGiven m + 1\<rparr>))"

definition increaseEndorsementsReceivedCount :: "UserMetrics \<Rightarrow> int \<Rightarrow> panic + UserMetrics" where
  "increaseEndorsementsReceivedCount um categoryID =
     withMetrics um categoryID
       (\<lambda>m. Inr (m\<lparr>TotalEndorsementsReceived := TotalEndorsementsReceived m + 1\<rparr>))"

definition increaseTotalBackings :: "UserMetrics \<Rightarrow> int \<Rightarrow> panic + UserMetrics" where
  "increaseTotalBackings um categoryID =
     withMetrics um categoryID (\<lambda>m. Inr (m\<lparr>TotalBackings := TotalBackings m + 1\<rparr>))"

definition increaseTotalChallenges :: "UserMetrics \<Rightarrow> int \<Rightarrow> panic + UserMetrics" where
  "increaseTotalChallenges um categoryID =
     withMetrics um categoryID (\<lambda>m. Inr (m\<lparr>TotalChallenges := TotalChallenges m + 1\<rparr>))"

definition setTotalOpenedClaims :: "UserMetrics \<Rightarrow> int \<Rightarrow> int \<Rightarrow> panic + UserMetrics" where
  "setTotalOpenedClaims um categoryID openedClaims =
     withMetrics um categoryID (\<lambda>m. Inr (m\<lparr>TotalOpenedClaims := openedClaims\<rparr>))"

definition addAmoutAtStake :: "UserMetrics \<Rightarrow> int \<Rightarrow> Coin \<Rightarrow> panic + UserMetrics" where
  "addAmoutAtStake um categoryID amount =
     withMetrics um categoryID
       (\<lambda>m. bindP (Coin_Add (TotalAmountAtStake m) amount)
          (\<lambda>c. Inr (m\<lparr>TotalAmountAtStake := c\<rparr>)))"

definition addStakedAmount :: "UserMetrics \<Rightarrow> int \<Rightarrow> Coin \<Rightarrow> panic + UserMetrics" where
  "addStakedAmount um categoryID amount =
     withMetrics um categoryID
       (\<lambda>m. bindP (Coin_Add (TotalAmountStaked m) amount)
          (\<lambda>c. Inr (m\<lparr>TotalAmountStaked := c\<rparr>)))"

definition addBackedAmount :: "UserMetrics \<Rightarrow> int \<Rightarrow> Coin \<Rightarrow> panic + UserMetrics" where
  "addBackedAmount um categoryID amount =
     withMetrics um categoryID
       (\<lambda>m. bindP (Coin_Add (TotalAmountBacked m) amount)
          (\<lambda>c. Inr (m\<lparr>TotalAmountBacked := c\<rparr>)))"

definition addChallengedAmount :: "UserMetrics \<Rightarrow> int \<Rightarrow> Coin \<Rightarrow> panic + UserMetrics" where
  "addChallengedAmount um categoryID amount =
     withMetrics um categoryID
       (\<lambda>m. bindP (Coin_Add (TotalAmountChallenged m) amount)
          (\<lambda>c. Inr (m\<lparr>TotalAmountChallenged := c\<rparr>)))"

definition addStakeLost :: "UserMetrics \<Rightarrow> int \<Rightarrow> Coin \<Rightarrow> panic + UserMetrics" where
  "addStakeLost um categoryID amount =
     withMetrics um categoryID
       (\<lambda>m. bindP (Coin_Add (StakeLost m) amount) (\<lambda>c. Inr (m\<lparr>StakeLost := c\<rparr>)))"

definition addInterestEarned :: "UserMetrics \<Rightarrow> int \<Rightarrow> Coin \<Rightarrow> panic + UserMetrics" where
  "addInterestEarned um categoryID amount =
     withMetrics um categoryID
       (\<lambda>m. bindP (Coin_Add (InterestEarned m) amount) (\<lambda>c. Inr (m\<lparr>InterestEarned := c\<rparr>)))"

definition addStakeEarned :: "UserMetrics \<Rightarrow> int \<Rightarrow> Coin \<Rightarrow> panic + UserMetrics" where
  "addStakeEarned um categoryID amount =
     withMetrics um categoryID
       (\<lambda>m. bindP (Coin_Add (StakeEarned m) amount) (\<lambda>c. Inr (m\<lparr>StakeEarned := c\<rparr>)))"

text \<open>\<open>Add\<close> on a coin that may still be the zero value.\<close>

definition Coin_Add_opt :: "Coin option \<Rightarrow> Coin \<Rightarrow> panic + Coin" where
  "Coin_Add_opt a b =
     (case a of
        None \<Rightarrow> if Denom b \<noteq> [] then Inl (InvalidDenominations [] (Denom b)) else Inl NilDereference
      | Some c \<Rightarrow> Coin_Add c b)"

definition addCredEarned :: "UserMetrics \<Rightarrow> int \<Rightarrow> Coin \<Rightarrow> panic + UserMetrics" where
  "addCredEarned um categoryID amount =
     withCategory um categoryID
       (\<lambda>cm. bindP (Coin_Add_opt (CredEarned cm) amount)
          (\<lambda>c. Inr (cm\<lparr>CredEarned := Some c\<rparr>)))"

definition addRunningBalance :: "UserMetrics \<Rightarrow> Coin \<Rightarrow> panic + UserMetrics" where
  "addRunningBalance um amount =
     (if Denom amount = StakeDenom
      then bindP (Coin_Add_opt (RunningBalance um) amount)
             (\<lambda>c. Inr (um\<lparr>RunningBalance := Some c\<rparr>))
      else Inr um)"

text \<open>A loop whose body may panic and renders nothing.\<close>

fun foldP :: "('a \<Rightarrow> 's \<Rightarrow> panic + 's) \<Rightarrow> 'a list \<Rightarrow> 's \<Rightarrow> panic + 's" where
  "foldP body [] s = Inr s"
| "foldP body (x # xs) s = bindP (body x s) (foldP body xs)"

subsection \<open>The pass over the stories\<close>

definition mapUserStakeByStoryIDKey :: "string \<Rightarrow> int \<Rightarrow> string" where
  "mapUserStakeByStoryIDKey user storyID = user @ '':'' @ fmt_d storyID"

text \<open>
  What the pass carries from story to story: the summary's users, the index of each story
  seen, and the stake of each user in each story.
\<close>

record pass =
  Users :: Users
  mappedStories :: "int \<rightharpoonup> nat"
  mapUserStakeByStoryID :: "string \<rightharpoonup> Coin"

datatype side = Backing | Challenge

text \<open>
  The body of the loop over a story's backings, and of the one over its challenges: the
  two differ in the amount and the counter of the side only. The third component is the
  story's running \<open>backingAmount\<close>, respectively \<open>challengeAmount\<close>.
\<close>

definition stake_body ::
    "chain \<Rightarrow> time \<Rightarrow> Story \<Rightarrow> side \<Rightarrow> Vote \<Rightarrow> pass \<times> Coin \<Rightarrow> panic + pass \<times> Coin" where
  "stake_body ch beforeDate s sd b st =
     (case st of (p, acc) \<Rightarrow>
        if \<not> b_CreatedTime b < beforeDate then Inr (p, acc)
        else
          bindP (Coin_Add acc (b_Amount b)) (\<lambda>acc'.
            let creator = b_Creator b;
                staked = (mapUserStakeByStoryID p)
                           (mapUserStakeByStoryIDKey creator (b_StoryID b) \<mapsto> b_Amount b)
            in bindP (addStakedAmount (GetUserMetrics (Users p) creator) (s_CategoryID s)
                        (b_Amount b)) (\<lambda>um1.
               bindP (case sd of
                        Backing \<Rightarrow> addBackedAmount um1 (s_CategoryID s) (b_Amount b)
                      | Challenge \<Rightarrow> addChallengedAmount um1 (s_CategoryID s) (b_Amount b)) (\<lambda>um2.
               bindP (case sd of
                        Backing \<Rightarrow> increaseTotalBackings um2 (s_CategoryID s)
                      | Challenge \<Rightarrow> increaseTotalChallenges um2 (s_CategoryID s)) (\<lambda>um3.
               bindP (if s_Status s = Pending
                      then addAmoutAtStake um3 (s_CategoryID s) (b_Amount b)
                      else Inr um3) (\<lambda>um4.
               let argument = argumentResolver ch (b_ArgumentID b)
               in bindP (if ar_ID argument = 0 then Inr um4
                         else if ar_Creator argument = creator
                         then increaseArgumentsCount um4 (s_CategoryID s)
                         else increaseEndorsementsGivenCount um4 (s_CategoryID s)) (\<lambda>um5.
                  Inr (p\<lparr>Users := (Users p)(creator \<mapsto> um5), mapUserStakeByStoryID := staked\<rparr>,
                       acc'))))))))"

definition lose_stake :: "Story \<Rightarrow> Vote \<Rightarrow> Users \<Rightarrow> panic + Users" where
  "lose_stake s b users =
     bindP (addStakeLost (GetUserMetrics users (b_Creator b)) (s_CategoryID s) (b_Amount b))
       (\<lambda>um. Inr (users(b_Creator b \<mapsto> um)))"

definition story_body :: "chain \<Rightarrow> time \<Rightarrow> nat \<times> Story \<Rightarrow> pass \<Rightarrow> panic + pass" where
  "story_body ch beforeDate entry p0 =
     (case entry of (idx, s) \<Rightarrow>
        if \<not> s_CreatedTime s < beforeDate then Inr p0
        else
          bindP (increaseClaimsCount (GetUserMetrics (Users p0) (s_Creator s)) (s_CategoryID s))
            (\<lambda>um.
             let p1 = p0\<lparr>Users := (Users p0)(s_Creator s \<mapsto> um),
                         mappedStories := (mappedStories p0)(s_ID s \<mapsto> idx)\<rparr>;
                 backings = backingsResolver ch (s_ID s);
                 challenges = challengesResolver ch (s_ID s)
             in bindP (foldP (stake_body ch beforeDate s Backing) backings (p1, zeroStake))
                  (\<lambda>(p2, backingAmount).
                   bindP (foldP (stake_body ch beforeDate s Challenge) challenges (p2, zeroStake))
                     (\<lambda>(p3, challengeAmount).
                      if s_Status s = Pending then Inr p3
                      else
                        bindP (if Amount backingAmount < Amount challengeAmount
                               then foldP (lose_stake s) backings (Users p3)
                               else Inr (Users p3)) (\<lambda>u4.
                        bindP (if Amount challengeAmount < Amount backingAmount
                               then foldP (lose_stake s) challenges u4
                               else Inr u4) (\<lambda>u5.
                        Inr (p3\<lparr>Users := u5\<rparr>)))))))"

definition stories_pass :: "chain \<Rightarrow> time \<Rightarrow> Story list \<Rightarrow> panic + pass" where
  "stories_pass ch beforeDate stories =
     foldP (story_body ch beforeDate) (enumerate 0 stories)
       \<lparr>Users = Map.empty, mappedStories = Map.empty, mapUserStakeByStoryID = Map.empty\<rparr>"

subsection \<open>The pass over the users and their transactions\<close>

record storyRewardResult =
  sr_CategoryID :: int
  sr_Reward :: "Coin option"
  sr_StakeReturned :: "Coin option"

text \<open>
  \<open>userStoryResults\<close>, a map from story ids to pointers, as the list of its entries in
  the order of their creation.
\<close>

type_synonym userStoryResults = "(int \<times> storyRewardResult) list"

text \<open>\<open>sdk.NewCoin(c.Denom, sdk.NewInt(c.Amount.Int64()))\<close>.\<close>

definition copy_coin :: "Coin \<Rightarrow> panic + Coin" where
  "copy_coin c = bindP (Int64 (Amount c)) (NewCoin (Denom c))"

definition story_at :: "Story list \<Rightarrow> nat \<Rightarrow> panic + Story" where
  "story_at stories i = (if i < length stories then Inr (stories ! i) else Inl IndexOutOfRange)"

definition note_result ::
    "Story \<Rightarrow> BankTransaction \<Rightarrow> userStoryResults \<Rightarrow> panic + userStoryResults" where
  "note_result s tx results =
     (if s_Status s \<noteq> Expired then Inr results
      else
        (let storyReward =
               (case map_of results (t_GroupID tx) of
                  None \<Rightarrow> \<lparr>sr_CategoryID = s_CategoryID s, sr_Reward = None,
                            sr_StakeReturned = None\<rparr>
                | Some r \<Rightarrow> r)
         in bindP (if t_TransactionType tx = RewardPool
                   then bindP (copy_coin (t_Amount tx))
                          (\<lambda>reward. Inr (storyReward\<lparr>sr_Reward := Some reward\<rparr>))
                   else Inr storyReward) (\<lambda>r1.
            bindP (if t_TransactionType tx = BackingReturned \<or>
                      t_TransactionType tx = ChallengeReturned
                   then bindP (copy_coin (t_Amount tx))
                          (\<lambda>returned. Inr (r1\<lparr>sr_StakeReturned := Some returned\<rparr>))
                   else Inr r1) (\<lambda>r2.
            Inr (AList.update (t_GroupID tx) r2 results)))))"

definition transaction_body ::
    "time \<Rightarrow> Story list \<Rightarrow> (int \<rightharpoonup> nat) \<Rightarrow> BankTransaction \<Rightarrow> UserMetrics \<times> userStoryResults \<Rightarrow>
     panic + UserMetrics \<times> userStoryResults" where
  "transaction_body beforeDate stories mapped tx st =
     (case st of (um, results) \<Rightarrow>
        if \<not> t_CreatedTime tx < beforeDate then Inr (um, results)
        else
          bindP (addRunningBalance um (t_Amount tx)) (\<lambda>um1.
            if t_TransactionType tx = Interest then
              (case mapped (t_GroupID tx) of
                 None \<Rightarrow> Inr (um1, results)
               | Some i \<Rightarrow>
                   bindP (story_at stories i) (\<lambda>s.
                   bindP (addInterestEarned um1 (s_CategoryID s) (t_Amount tx)) (\<lambda>um2.
                   Inr (um2, results))))
            else if t_TransactionType tx = BackingLike \<or> t_TransactionType tx = ChallengeLike then
              (case mapped (t_GroupID tx) of
                 None \<Rightarrow> Inr (um1, results)
               | Some i \<Rightarrow>
                   bindP (story_at stories i) (\<lambda>s.
                   bindP (addCredEarned um1 (s_CategoryID s) (t_Amount tx)) (\<lambda>um2.
                   bindP (increaseEndorsementsReceivedCount um2 (s_CategoryID s)) (\<lambda>um3.
                   Inr (um3, results)))))
            else if t_TransactionType tx = RewardPool \<or> t_TransactionType tx = BackingReturned \<or>
                    t_TransactionType tx = ChallengeReturned then
              (case mapped (t_GroupID tx) of
                 None \<Rightarrow> Inr (um1, results)
               | Some i \<Rightarrow>
                   bindP (story_at stories i) (\<lambda>s.
                   bindP (note_result s tx results) (\<lambda>results'.
                   Inr (um1, results'))))
            else Inr (um1, results)))"

text \<open>
  What one entry of \<open>userStoryResults\<close> adds to \<open>StakeEarned\<close> (lines 429 to 456):
  nothing (\<open>continue\<close>), or the coin handed to \<open>addStakeEarned\<close>.
\<close>

definition earned ::
    "(string \<rightharpoonup> Coin) \<Rightarrow> string \<Rightarrow> int \<times> storyRewardResult \<Rightarrow> panic + Coin option" where
  "earned staked userAddress entry =
     (case entry of (storyID, storyResult) \<Rightarrow>
        (case sr_Reward storyResult of
           None \<Rightarrow> Inr None
         | Some reward \<Rightarrow>
             (case sr_StakeReturned storyResult of
                Some _ \<Rightarrow> Inr (Some reward)
              | None \<Rightarrow>
                  (case staked (mapUserStakeByStoryIDKey userAddress storyID) of
                     None \<Rightarrow> Inr None
                   | Some stakedAmount \<Rightarrow>
                       bindP (Coin_Sub reward stakedAmount) (\<lambda>net.
                         if Amount net = 0 then Inr None
                         else if Amount net < 0 then Inr None
                         else Inr (Some net))))))"

definition reward_body ::
    "(string \<rightharpoonup> Coin) \<Rightarrow> string \<Rightarrow> int \<times> storyRewardResult \<Rightarrow> UserMetrics \<Rightarrow> panic + UserMetrics" where
  "reward_body staked userAddress entry um =
     bindP (earned staked userAddress entry)
       (\<lambda>e. case e of
               None \<Rightarrow> Inr um
             | Some amount \<Rightarrow> addStakeEarned um (sr_CategoryID (snd entry)) amount)"

text \<open>
  \<open>metricsSummary.Categories\<close> keeps, for each id, the last category of the list with
  that id. The loop over it gives every category its own entry, so the order of the
  visit shows only in which panic comes first.
\<close>

definition mappedCategories :: "Category list \<Rightarrow> Category list" where
  "mappedCategories categories =
     List.map_filter (\<lambda>k. find (\<lambda>c. cat_ID c = k) (rev categories))
       (remdups (map cat_ID categories))"

definition to_int64 :: "int \<Rightarrow> int" where
  "to_int64 v = (v + 2 ^ 63) mod 2 ^ 64 - 2 ^ 63"

definition getInitialStakeBalance :: "chain \<Rightarrow> string \<Rightarrow> int" where
  "getInitialStakeBalance ch address =
     (case InitialStakeBalance ch address of Inl _ \<Rightarrow> 0 | Inr v \<Rightarrow> to_int64 v)"

definition name_category :: "Category \<Rightarrow> UserMetrics \<Rightarrow> panic + UserMetrics" where
  "name_category c um =
     withCategory um (cat_ID c)
       (\<lambda>cm. bindP (NewCoin (cat_Denom c) 0)
          (\<lambda>z. Inr (cm\<lparr>CredEarned := Some z, CategoryName := cat_Title c\<rparr>)))"

definition profile_body ::
    "chain \<Rightarrow> time \<Rightarrow> Story list \<Rightarrow> pass \<Rightarrow> TwitterProfile \<Rightarrow> Users \<Rightarrow> panic + Users" where
  "profile_body ch beforeDate stories p userProfile users =
     (let userAddress = tp_Address userProfile
      in bindP (NewCoin StakeDenom (stakeBalance ch userAddress)) (\<lambda>balance.
         bindP (NewCoin StakeDenom (getInitialStakeBalance ch userAddress)) (\<lambda>running.
         bindP (foldP name_category (mappedCategories (allCategoriesResolver ch))
                  ((GetUserMetrics users userAddress)
                     \<lparr>Balance := Some balance, RunningBalance := Some running\<rparr>)) (\<lambda>um2.
         let um3 = (case TwitterProfileByAddress ch userAddress of
                      (Some profile, None) \<Rightarrow> um2\<lparr>UserName := tp_Username profile\<rparr>
                    | _ \<Rightarrow> um2)
         in bindP (foldP (transaction_body beforeDate stories (mappedStories p))
                     (transactionsResolver ch userAddress) (um3, [])) (\<lambda>(um4, results).
            bindP (foldP (reward_body (mapUserStakeByStoryID p) userAddress)
                     (sort_key (\<lambda>entry. rangeOrder ch (fst entry)) results) um4) (\<lambda>um5.
            Inr (users(userAddress \<mapsto> um5))))))))"

definition opened_body :: "UserOpenedClaims \<Rightarrow> Users \<Rightarrow> panic + Users" where
  "opened_body x users =
     bindP (setTotalOpenedClaims (GetUserMetrics users (uo_Address x)) (uo_CategoryID x)
              (uo_OpenedClaims x))
       (\<lambda>um. Inr (users(uo_Address x \<mapsto> um)))"

text \<open>
  The handler. \<open>Next users\<close> is the summary it hands to \<open>render.JSON\<close> with status 200.
\<close>

definition HandleMetrics :: "stdlib \<Rightarrow> chain \<Rightarrow> MetricsRequest \<Rightarrow> event list \<times> Users flow" where
  "HandleMetrics lib ch rq =
     and_then (parse_date lib rq)
       (\<lambda>beforeDate.
          (case RunQueryStories ch of
             Inl err \<Rightarrow> ([RenderError err 500], Return)
           | Inr stories \<Rightarrow>
               if allCategoriesResolver ch = [] then
                 ([RenderError ''no categories found'' 500], Return)
               else
                 and_then (quiet (stories_pass ch beforeDate stories))
                   (\<lambda>p. and_then
                      ((case FindAllProfiles ch of
                          Inl err \<Rightarrow> [RenderError err 500]
                        | Inr _ \<Rightarrow> []), Next ())
                      (\<lambda>_. and_then
                         (quiet (foldP (profile_body ch beforeDate stories p)
                                   (case FindAllProfiles ch of Inl _ \<Rightarrow> [] | Inr us \<Rightarrow> us)
                                   (Users p)))
                         (\<lambda>users. and_then
                            ((case OpenedClaimsByCategory ch beforeDate of
                                Inl err \<Rightarrow> [RenderError err 500]
                              | Inr _ \<Rightarrow> []), Next ())
                            (\<lambda>_. quiet
                               (foldP opened_body
                                  (case OpenedClaimsByCategory ch beforeDate of
                                     Inl _ \<Rightarrow> []
                                   | Inr xs \<Rightarrow> xs)
                                  users)))))))"

section \<open>Mention translation (package db)\<close>

text \<open>
  The tag extractor of the mention library and the profile lookup of the data store, as
  \<open>replaceUsernamesWithAddress\<close> uses them; \<open>mapOrder\<close> ranks usernames in the order in
  which this run's \<open>range\<close> over the \<open>addressByUsername\<close> map visits them.
\<close>

record mentions =
  GetTagsAsUniqueStrings :: "char \<Rightarrow> string \<Rightarrow> char list \<Rightarrow> string list"
  TwitterProfileByUsername :: "string \<Rightarrow> TwitterProfile option \<times> string option"
  mapOrder :: "string \<Rightarrow> nat"

definition parseMentions :: "mentions \<Rightarrow> string \<Rightarrow> string list" where
  "parseMentions c body = GetTagsAsUniqueStrings c CHR ''@'' body [CHR '' '', CHR 0x0A, CHR 0x0D]"

text \<open>
  The first loop of \<open>replaceUsernamesWithAddress\<close>: the map from usernames to addresses,
  or the error of the first lookup that fails.
\<close>

fun lookup_addresses ::
    "mentions \<Rightarrow> string list \<Rightarrow> (string \<times> string) list \<Rightarrow> string + (string \<times> string) list" where
  "lookup_addresses c [] addressByUsername = Inr addressByUsername"
| "lookup_addresses c (username # usernames) addressByUsername =
     (case TwitterProfileByUsername c username of
        (_, Some err) \<Rightarrow> Inl err
      | (None, None) \<Rightarrow>
          lookup_addresses c usernames (AList.update username username addressByUsername)
      | (Some twitterProfile, None) \<Rightarrow>
          lookup_addresses c usernames
            (AList.update username (tp_Address twitterProfile) addressByUsername))"

definition replaceUsernamesWithAddress :: "mentions \<Rightarrow> string \<Rightarrow> string \<times> string option" where
  "replaceUsernamesWithAddress c body =
     (case lookup_addresses c (parseMentions c body) [] of
        Inl err \<Rightarrow> (body, Some err)
      | Inr addressByUsername \<Rightarrow>
          (fold (\<lambda>(username, address) text. ReplaceAll text username address)
             (sort_key (\<lambda>entry. mapOrder c (fst entry)) addressByUsername) body,
           None))"

definition TranslateToCosmosMentions :: "mentions \<Rightarrow> string \<Rightarrow> string \<times> string option" where
  "TranslateToCosmosMentions c body = replaceUsernamesWithAddress c body"

section \<open>Properties of reports\<close>

text \<open>
  The records handed to the CSV writer all have \<open>n\<close> fields; and: the first record
  written, if any, is the header, and every later one has as many fields as the header.
\<close>

definition len_ok :: "nat \<Rightarrow> event list \<Rightarrow> bool" where
  "len_ok n es \<longleftrightarrow> list_all (\<lambda>row. length row = n) (rows_of es)"

definition csv_report :: "string list \<Rightarrow> event list \<Rightarrow> bool" where
  "csv_report header es \<longleftrightarrow>
     (case rows_of es of
        [] \<Rightarrow> True
      | h # rows \<Rightarrow> h = header \<and> list_all (\<lambda>row. length row = length header) rows)"

text \<open>A block that ends by falling through to the next statement.\<close>

definition falls_through :: "event list \<times> 's flow \<Rightarrow> bool" where
  "falls_through r = (case snd r of Next _ \<Rightarrow> True | _ \<Rightarrow> False)"

section \<open>Properties of the summary\<close>

text \<open>
  The \<open>TotalAmountStaked\<close> that a summary holds for a user and a category (zero where
  it has no entry), and any other metric read the same way.
\<close>

definition um_staked :: "UserMetrics \<Rightarrow> int \<Rightarrow> int" where
  "um_staked um c =
     (case CategoryMetrics um c of None \<Rightarrow> 0 | Some cm \<Rightarrow> Amount (TotalAmountStaked (Metrics cm)))"

definition TotalAmountStaked_of :: "Users \<Rightarrow> string \<Rightarrow> int \<Rightarrow> int" where
  "TotalAmountStaked_of users u c = (case users u of None \<Rightarrow> 0 | Some um \<Rightarrow> um_staked um c)"

definition um_metric :: "(Metrics \<Rightarrow> 'a) \<Rightarrow> UserMetrics \<Rightarrow> int \<Rightarrow> 'a" where
  "um_metric f um c = f (Metrics (getMetricsByCategory um c))"

definition metric_of :: "(Metrics \<Rightarrow> 'a) \<Rightarrow> Users \<Rightarrow> string \<Rightarrow> int \<Rightarrow> 'a" where
  "metric_of f users u c = um_metric f (GetUserMetrics users u) c"

text \<open>
  The sum the specification speaks of: the amounts of the backings and challenges of user
  \<open>u\<close> created strictly before the cutoff date, over the stories of category \<open>c\<close>.
  And the well-formedness of what the chain answers: no stake is older than its story.
\<close>

definition stakes_before :: "time \<Rightarrow> string \<Rightarrow> Vote list \<Rightarrow> int" where
  "stakes_before beforeDate u votes =
     sum_list (map (\<lambda>b. Amount (b_Amount b))
       (filter (\<lambda>b. b_CreatedTime b < beforeDate \<and> b_Creator b = u) votes))"

definition staked_before :: "chain \<Rightarrow> time \<Rightarrow> Story list \<Rightarrow> string \<Rightarrow> int \<Rightarrow> int" where
  "staked_before ch beforeDate stories u c =
     sum_list (map (\<lambda>s. stakes_before beforeDate u (backingsResolver ch (s_ID s)) +
                        stakes_before beforeDate u (challengesResolver ch (s_ID s)))
       (filter (\<lambda>s. s_CategoryID s = c) stories))"

definition stakes_follow_story :: "chain \<Rightarrow> Story list \<Rightarrow> bool" where
  "stakes_follow_story ch stories \<longleftrightarrow>
     list_all (\<lambda>s. list_all (\<lambda>b. s_CreatedTime s \<le> b_CreatedTime b)
                      (backingsResolver ch (s_ID s) @ challengesResolver ch (s_ID s)))
       stories"

text \<open>The panics of the SDK's arithmetic on coins.\<close>

definition arithmetic_panic :: "panic \<Rightarrow> bool" where
  "arithmetic_panic p = (case p of IntOverflow \<Rightarrow> True | InvalidDenominations _ _ \<Rightarrow> True | _ \<Rightarrow> False)"

text \<open>Every reward stored in \<open>userStoryResults\<close> is a coin that is not negative.\<close>

definition rewards_ok :: "userStoryResults \<Rightarrow> bool" where
  "rewards_ok results \<longleftrightarrow>
     list_all (\<lambda>entry. case sr_Reward (snd entry) of None \<Rightarrow> True | Some c \<Rightarrow> 0 \<le> Amount c)
       results"

section \<open>Sample data\<close>

definition alice :: User where
  "alice = \<lparr>ID = 1, Username = ''alice'', Email = ''alice@example.org'', Address = ''cosmos1alice'',
     CreatedAt = 100, UpdatedAt = 120, LastAuthenticatedAt = Some 150, UserGroup = 0\<rparr>"

definition bob :: User where
  "bob = \<lparr>ID = 2, Username = ''bob'', Email = ''bob@example.org'', Address = ''cosmos1bob'',
     CreatedAt = 200, UpdatedAt = 200, LastAuthenticatedAt = None, UserGroup = 1\<rparr>"

definition store :: Client where
  "store = \<lparr>users_rows = [alice, bob],
     users_fault = (\<lambda>i. if i = 9 then Some ''connection refused'' else None)\<rparr>"

definition sdk_stub :: deps where
  "sdk_stub = \<lparr>ParseCoin = (\<lambda>s. None), CoinDisplayName = ''TRU''\<rparr>"

definition invite_by_bob :: RewardNotificationRequest where
  "invite_by_bob = \<lparr>RewardeeID = 1, CauserID = 2, RewardType = RewardTypeInvite,
     RewardAmount = ''3'', CauserAction = RewardCauserActionSignedUp\<rparr>"

definition invite_by_nobody :: RewardNotificationRequest where
  "invite_by_nobody = \<lparr>RewardeeID = 2, CauserID = 0, RewardType = RewardTypeInvite,
     RewardAmount = ''1'', CauserAction = RewardCauserActionSignedUp\<rparr>"

definition invite_unreachable :: RewardNotificationRequest where
  "invite_unreachable = \<lparr>RewardeeID = 9, CauserID = 2, RewardType = RewardTypeInvite,
     RewardAmount = ''5'', CauserAction = RewardCauserActionSignedUp\<rparr>"

definition invite_unknown_rewardee :: RewardNotificationRequest where
  "invite_unknown_rewardee = \<lparr>RewardeeID = 7, CauserID = 0, RewardType = RewardTypeInvite,
     RewardAmount = ''5'', CauserAction = RewardCauserActionSignedUp\<rparr>"

definition note_for_alice :: Notification where
  "note_for_alice = \<lparr>To = ''cosmos1alice'', TypeID = 0, Type = NotificationRewardInviteUnlocked,
     Msg = ''rewarded with 3 invites because bob became an active user on TruStory.'',
     Action = ''Reward unlocked'', Trim = True\<rparr>"

definition note_for_bob :: Notification where
  "note_for_bob = \<lparr>To = ''cosmos1bob'', TypeID = 0, Type = NotificationRewardInviteUnlocked,
     Msg = ''rewarded with 1 invites because you became an active user on TruStory.'',
     Action = ''Reward unlocked'', Trim = True\<rparr>"

definition sample_lib :: stdlib where
  "sample_lib = \<lparr>FormatRFC3339Nano = fmt_d,
     ParseDate = (\<lambda>s. if s = ''2019-09-11'' then Inr 1000 else Inl ''cannot parse''),
     TrimSpace = id\<rparr>"

definition open_request :: UserBaseRequest where
  "open_request = \<lparr>ub_Secret = ''s3cret'',
     ub_Header = [''Metrics-Secret'' \<mapsto> [''s3cret'']],
     ub_FindAll = Inr [alice, bob]\<rparr>"

definition wrong_request :: UserBaseRequest where
  "wrong_request = \<lparr>ub_Secret = ''s3cret'',
     ub_Header = [''Metrics-Secret'' \<mapsto> [''guess'']],
     ub_FindAll = Inr [alice, bob]\<rparr>"

definition unconfigured_request :: UserBaseRequest where
  "unconfigured_request = \<lparr>ub_Secret = [],
     ub_Header = Map.empty,
     ub_FindAll = Inr [alice, bob]\<rparr>"

text \<open>
  A tag extractor to run the mention translation on: the words between terminators that
  start with the prefix, without it and without repetitions.
\<close>

fun fields :: "char list \<Rightarrow> string \<Rightarrow> string \<Rightarrow> string list" where
  "fields terminators word [] = [rev word]"
| "fields terminators word (c # cs) =
     (if c \<in> set terminators then rev word # fields terminators [] cs
      else fields terminators (c # word) cs)"

definition prefixed_words :: "char \<Rightarrow> string \<Rightarrow> char list \<Rightarrow> string list" where
  "prefixed_words prefix body terminators =
     remdups (map tl (filter (\<lambda>w. w \<noteq> [] \<and> hd w = prefix \<and> tl w \<noteq> [])
       (fields terminators [] body)))"

definition sample_mentions :: mentions where
  "sample_mentions = \<lparr>GetTagsAsUniqueStrings = prefixed_words,
     TwitterProfileByUsername =
       (\<lambda>u. if u = ''bob'' then (Some \<lparr>tp_Address = ''cosmos1bob'', tp_Username = ''bob''\<rparr>, None)
            else if u = ''down'' then (None, Some ''connection refused'')
            else (None, None)),
     mapOrder = length\<rparr>"

definition coin :: "int \<Rightarrow> Coin" where
  "coin n = \<lparr>Denom = StakeDenom, Amount = n\<rparr>"

definition claim1 :: Claim where
  "claim1 = \<lparr>c_ID = 1, c_CommunityID = ''crypto'', c_Body = ''Bitcoin is money'',
     c_Creator = ''cosmos1alice'', c_CreatedTime = 100\<rparr>"

definition argument1 :: Argument where
  "argument1 = \<lparr>a_ID = 1, a_Creator = ''cosmos1alice'', a_StakeType = StakeBacking,
     a_CreatedTime = 150\<rparr>"

definition orphan_stake :: Stake where
  "orphan_stake = \<lparr>st_ArgumentID = 2, st_CommunityID = ''crypto'', st_Type = StakeBacking,
     st_Amount = coin 5, st_Creator = ''cosmos1bob'', st_CreatedTime = 200, st_EndTime = 900,
     st_Expired = True\<rparr>"

definition agree_stake :: Stake where
  "agree_stake = \<lparr>st_ArgumentID = 1, st_CommunityID = ''crypto'', st_Type = StakeUpvote,
     st_Amount = coin 7, st_Creator = ''cosmos1bob'', st_CreatedTime = 250, st_EndTime = 900,
     st_Expired = True\<rparr>"

definition sample_backend :: backend where
  "sample_backend =
     \<lparr>QueryClaimsBeforeTime = (\<lambda>t. Inr [claim1]),
      QueryClaimArguments = (\<lambda>i. Inr [argument1]),
      claimStakesResolver = (\<lambda>c. [orphan_stake, agree_stake]),
      CommentsByClaimID = (\<lambda>i. []),
      DBClaimViewsStats = (\<lambda>t. Inr []),
      DBClaimRepliesStats = (\<lambda>t. Inr []),
      FlaggedStoriesIDs = Inr [],
      FindAllUsers = Inr [alice, bob],
      QueryCommunities = None,
      DecodeCommunities = Inr [\<lparr>cy_ID = ''crypto'', cy_Name = ''Crypto''\<rparr>],
      OpenedClaimsSummary = (\<lambda>t. Inr []),
      OpenedArgumentsSummary = (\<lambda>t. Inr []),
      DBUserRepliesStats = (\<lambda>t. Inr []),
      appAccountTransactionsResolver = (\<lambda>a. []),
      AllowedForDeduction = (\<lambda>t. False),
      TypeString = (\<lambda>t. ''transaction'')\<rparr>"

definition sample_request :: MetricsRequest where
  "sample_request = \<lparr>rq_jobTime = ''201909110000'', rq_ParseForm = None, rq_date = ''2019-09-11''\<rparr>"

definition story1 :: Story where
  "story1 = \<lparr>s_ID = 1, s_CategoryID = 7, s_Creator = ''cosmos1alice'', s_Status = Expired,
     s_CreatedTime = 100\<rparr>"

definition story2 :: Story where
  "story2 = \<lparr>s_ID = 2, s_CategoryID = 7, s_Creator = ''cosmos1bob'', s_Status = Pending,
     s_CreatedTime = 2000\<rparr>"

definition sample_chain :: chain where
  "sample_chain =
     \<lparr>RunQueryStories = Inr [story1, story2],
      allCategoriesResolver = [\<lparr>cat_ID = 7, cat_Title = ''Crypto'', cat_Denom = ''crypto''\<rparr>],
      backingsResolver = (\<lambda>i. if i = 1 then
          [\<lparr>b_Amount = coin 30, b_Creator = ''cosmos1alice'', b_StoryID = 1, b_CreatedTime = 200,
            b_ArgumentID = 1\<rparr>,
           \<lparr>b_Amount = coin 20, b_Creator = ''cosmos1alice'', b_StoryID = 1, b_CreatedTime = 1500,
            b_ArgumentID = 3\<rparr>] else []),
      challengesResolver = (\<lambda>i. if i = 1 then
          [\<lparr>b_Amount = coin 10, b_Creator = ''cosmos1bob'', b_StoryID = 1, b_CreatedTime = 300,
            b_ArgumentID = 2\<rparr>,
           \<lparr>b_Amount = coin 5, b_Creator = ''cosmos1alice'', b_StoryID = 1, b_CreatedTime = 400,
            b_ArgumentID = 1\<rparr>] else []),
      argumentResolver = (\<lambda>i. if i = 1 then \<lparr>ar_ID = 1, ar_Creator = ''cosmos1alice''\<rparr>
          else \<lparr>ar_ID = 0, ar_Creator = []\<rparr>),
      stakeBalance = (\<lambda>a. 100),
      InitialStakeBalance = (\<lambda>a. Inr 300),
      FindAllProfiles = Inr [\<lparr>tp_Address = ''cosmos1alice'', tp_Username = ''alice''\<rparr>],
      TwitterProfileByAddress =
        (\<lambda>a. (Some \<lparr>tp_Address = ''cosmos1alice'', tp_Username = ''alice''\<rparr>, None)),
      transactionsResolver = (\<lambda>a. if a = ''cosmos1alice'' then
          [\<lparr>t_TransactionType = RewardPool, t_Amount = coin 50, t_GroupID = 1,
            t_CreatedTime = 900\<rparr>] else []),
      OpenedClaimsByCategory = (\<lambda>t. Inr []),
      rangeOrder = nat\<rparr>"

definition bob_challenge :: Vote where
  "bob_challenge = \<lparr>b_Amount = coin 10, b_Creator = ''cosmos1bob'', b_StoryID = 1,
     b_CreatedTime = 300, b_ArgumentID = 2\<rparr>"

definition empty_pass :: pass where
  "empty_pass = \<lparr>Users = Map.empty, mappedStories = Map.empty, mapUserStakeByStoryID = Map.empty\<rparr>"

definition funded :: UserMetrics where
  "funded = \<lparr>UserName = ''alice'', Balance = Some (coin 100), RunningBalance = Some (coin 300),
     CategoryMetrics = Map.empty\<rparr>"

definition reward1 :: storyRewardResult where
  "reward1 = \<lparr>sr_CategoryID = 7, sr_Reward = Some (coin 50), sr_StakeReturned = None\<rparr>"


section \<open>The user table: lookups by id\<close>

lemma UserByID_cases:
  "UserByID c i =
     (case users_fault c i of
        Some msg \<Rightarrow> (None, Some (QueryFailed msg))
      | None \<Rightarrow>
          (case find (\<lambda>u. ID u = i) (users_rows c) of
             None \<Rightarrow> (None, None)
           | Some u \<Rightarrow> (Some u, None)))"
  by (simp add: UserByID_def First_user_by_id_def split: option.splits)

lemma find_None_no_row: "find P xs = None \<longleftrightarrow> \<not> (\<exists>x\<in>set xs. P x)"
  by (auto simp: find_None_iff)

lemma find_Some_row: "find P xs = Some x \<Longrightarrow> P x \<and> x \<in> set xs"
  by (induction xs) (auto split: if_splits)

lemma UserByID_store [simp]:
  "UserByID store 1 = (Some alice, None)"
  "UserByID store 2 = (Some bob, None)"
  "UserByID store 7 = (None, None)"
  "UserByID store 9 = (None, Some (QueryFailed ''connection refused''))"
  by (simp_all add: UserByID_cases store_def alice_def bob_def)

lemma turn_invite_by_bob:
  "processRewardNotification store sdk_stub invite_by_bob = Sent [1, 2] note_for_alice"
  by (simp add: processRewardNotification_def buildNotification_def
        getRewardStringFromRequest_def getRewardReasonFromRequest_def
        getNotificationTypeFromRequest_def invite_by_bob_def note_for_alice_def)
     (simp add: alice_def bob_def)

lemma turn_invite_by_nobody:
  "processRewardNotification store sdk_stub invite_by_nobody = Sent [2] note_for_bob"
  by (simp add: processRewardNotification_def buildNotification_def
        getRewardStringFromRequest_def getRewardReasonFromRequest_def
        getNotificationTypeFromRequest_def invite_by_nobody_def note_for_bob_def)
     (simp add: alice_def bob_def)

lemma turn_invite_unreachable:
  "processRewardNotification store sdk_stub invite_unreachable = Dropped [9]"
  by (simp add: processRewardNotification_def invite_unreachable_def)

lemma turn_invite_unknown_rewardee:
  "processRewardNotification store sdk_stub invite_unknown_rewardee =
     Panicked [7] NilDereference"
  by (simp add: processRewardNotification_def buildNotification_def
        invite_unknown_rewardee_def)

text \<open>
  Claim C9. \<open>UserByID\<close> returns \<open>(nil, nil)\<close> exactly when the query succeeds and no row
  of the users table has the given id; its error is non-nil exactly when the query itself
  fails. A caller that checks only the error therefore goes on with a nil user: the reward
  worker, given a rewardee id that matches no row (and no causer), dereferences it.
\<close>

theorem UserByID_nil_without_error:
  "(UserByID c i = (None, None) \<longleftrightarrow>
      users_fault c i = None \<and> \<not> (\<exists>u\<in>set (users_rows c). ID u = i)) \<and>
   (snd (UserByID c i) \<noteq> None \<longleftrightarrow> users_fault c i \<noteq> None) \<and>
   (UserByID c (RewardeeID n) = (None, None) \<and> CauserID n = 0 \<longrightarrow>
      processRewardNotification c d n = Panicked [RewardeeID n] NilDereference)"
  by (auto simp: UserByID_cases find_None_no_row processRewardNotification_def
        buildNotification_def split: option.splits dest: find_Some_row)

theorem UserByID_nil_without_error_witness:
  "UserByID store 7 = (None, None) \<and> snd (UserByID store 9) \<noteq> None \<and>
   snd (UserByID store 7) = None \<and>
   processRewardNotification store sdk_stub invite_unknown_rewardee =
     Panicked [7] NilDereference"
proof -
  have no_row: "users_fault store 7 = None \<and> \<not> (\<exists>u\<in>set (users_rows store). ID u = 7)"
    by (simp add: store_def alice_def bob_def)
  have fault: "users_fault store 9 \<noteq> None"
    by (simp add: store_def)
  have req: "RewardeeID invite_unknown_rewardee = 7 \<and> CauserID invite_unknown_rewardee = 0"
    by (simp add: invite_unknown_rewardee_def)
  from UserByID_nil_without_error [of store 7 invite_unknown_rewardee sdk_stub] no_row req
  have a: "UserByID store 7 = (None, None)"
    and b: "processRewardNotification store sdk_stub invite_unknown_rewardee =
              Panicked [7] NilDereference"
    by simp_all
  from UserByID_nil_without_error [of store 9 invite_unknown_rewardee sdk_stub] fault
  have c: "snd (UserByID store 9) \<noteq> None"
    by blast
  from a b c show ?thesis by simp
qed

section \<open>The reward notification worker\<close>

text \<open>
  Claim C5. What the worker does with a reward request of type invite: it drops it when a
  lookup fails, it panics on a nil rewardee, and otherwise it sends the rewardee the
  notification whose message is "rewarded with N invites because WHO became an active
  user on TruStory.", where WHO is the username of the causer the worker resolved, and
  the word "you" when that causer is nil.
\<close>

theorem invite_message:
  assumes "RewardType n = RewardTypeInvite"
  shows "processRewardNotification c d n =
     (if lookupFailed c (RewardeeID n) then Dropped [RewardeeID n]
      else if CauserID n \<noteq> 0 \<and> lookupFailed c (CauserID n)
      then Dropped [RewardeeID n, CauserID n]
      else (case fst (UserByID c (RewardeeID n)) of
              None \<Rightarrow>
                Panicked (if CauserID n \<noteq> 0 then [RewardeeID n, CauserID n] else [RewardeeID n])
                  NilDereference
            | Some user \<Rightarrow>
                Sent (if CauserID n \<noteq> 0 then [RewardeeID n, CauserID n] else [RewardeeID n])
                  \<lparr>To = Address user, TypeID = 0, Type = NotificationRewardInviteUnlocked,
                   Msg = ''rewarded with '' @ RewardAmount n @ '' invites because '' @
                     (case resolvedCauser c n of None \<Rightarrow> ''you'' | Some u \<Rightarrow> Username u) @
                     '' became an active user on TruStory.'',
                   Action = ''Reward unlocked'', Trim = True\<rparr>))"
  using assms
  by (auto simp: processRewardNotification_def buildNotification_def resolvedCauser_def
        lookupFailed_def getRewardStringFromRequest_def getRewardReasonFromRequest_def
        getNotificationTypeFromRequest_def
        split: prod.splits option.splits)

theorem invite_message_witness:
  "processRewardNotification store sdk_stub invite_by_bob =
     Sent [1, 2]
       \<lparr>To = ''cosmos1alice'', TypeID = 0, Type = NotificationRewardInviteUnlocked,
        Msg = ''rewarded with 3 invites because bob became an active user on TruStory.'',
        Action = ''Reward unlocked'', Trim = True\<rparr> \<and>
   processRewardNotification store sdk_stub invite_by_nobody =
     Sent [2]
       \<lparr>To = ''cosmos1bob'', TypeID = 0, Type = NotificationRewardInviteUnlocked,
        Msg = ''rewarded with 1 invites because you became an active user on TruStory.'',
        Action = ''Reward unlocked'', Trim = True\<rparr>"
proof -
  have t1: "RewardType invite_by_bob = RewardTypeInvite"
    and t2: "RewardType invite_by_nobody = RewardTypeInvite"
    by (simp_all add: invite_by_bob_def invite_by_nobody_def)
  have ok: "\<not> lookupFailed store 1" "\<not> lookupFailed store 2"
    by (simp_all add: lookupFailed_def)
  have c1: "resolvedCauser store invite_by_bob = Some bob"
    and c2: "resolvedCauser store invite_by_nobody = None"
    by (simp_all add: resolvedCauser_def invite_by_bob_def invite_by_nobody_def)
  have f1: "RewardeeID invite_by_bob = 1" "CauserID invite_by_bob = 2"
    "RewardAmount invite_by_bob = ''3''"
    and f2: "RewardeeID invite_by_nobody = 2" "CauserID invite_by_nobody = 0"
    "RewardAmount invite_by_nobody = ''1''"
    by (simp_all add: invite_by_bob_def invite_by_nobody_def)
  have a: "Address alice = ''cosmos1alice''" "Address bob = ''cosmos1bob''"
    "Username bob = ''bob''"
    by (simp_all add: alice_def bob_def)
  from invite_message [OF t1, of store sdk_stub] invite_message [OF t2, of store sdk_stub]
  show ?thesis
    by (simp add: f1 f2 ok c1 c2 a)
qed

lemma dropped_turn:
  assumes "lookupFailed c (RewardeeID n) \<or> (CauserID n \<noteq> 0 \<and> lookupFailed c (CauserID n))"
  shows "processRewardNotification c d n =
           Dropped (if lookupFailed c (RewardeeID n) then [RewardeeID n]
                    else [RewardeeID n, CauserID n])"
  using assms
  by (auto simp: processRewardNotification_def lookupFailed_def
        split: prod.splits option.splits)

lemma run_dropped_anywhere:
  assumes "processRewardNotification c d n = Dropped ls"
  shows "sent (processRewardsNotifications c d (pre @ n # post)) =
           sent (processRewardsNotifications c d (pre @ post)) \<and>
         ended (processRewardsNotifications c d (pre @ n # post)) =
           ended (processRewardsNotifications c d (pre @ post))"
  using assms
  by (induction pre) (auto simp: Let_def split: turn.splits)

lemma run_three:
  "processRewardsNotifications store sdk_stub
     [invite_by_bob, invite_unreachable, invite_by_nobody] =
   \<lparr>sent = [note_for_alice, note_for_bob], lookups = [1, 2, 9, 2], ended = ChannelClosed\<rparr>"
  by (simp add: turn_invite_by_bob turn_invite_by_nobody turn_invite_unreachable)

lemma run_two:
  "processRewardsNotifications store sdk_stub [invite_by_bob, invite_by_nobody] =
   \<lparr>sent = [note_for_alice, note_for_bob], lookups = [1, 2, 2], ended = ChannelClosed\<rparr>"
  by (simp add: turn_invite_by_bob turn_invite_by_nobody)

text \<open>
  Claim C6. When the lookup of the rewardee, or of the causer, returns an error, the turn
  emits nothing: each id was looked up once (no retry), and the worker's whole run is the
  run without that request, wherever it stands in the queue: the same notifications are
  sent and the loop ends the same way.
\<close>

theorem lookup_error_drops_item:
  assumes "lookupFailed c (RewardeeID n) \<or> (CauserID n \<noteq> 0 \<and> lookupFailed c (CauserID n))"
  shows "processRewardNotification c d n =
           Dropped (if lookupFailed c (RewardeeID n) then [RewardeeID n]
                    else [RewardeeID n, CauserID n]) \<and>
         sent (processRewardsNotifications c d (pre @ n # post)) =
           sent (processRewardsNotifications c d (pre @ post)) \<and>
         ended (processRewardsNotifications c d (pre @ n # post)) =
           ended (processRewardsNotifications c d (pre @ post))"
  using dropped_turn [OF assms] run_dropped_anywhere [OF dropped_turn [OF assms]]
  by simp

theorem lookup_error_drops_item_witness:
  "lookupFailed store (RewardeeID invite_unreachable) \<and>
   processRewardNotification store sdk_stub invite_unreachable = Dropped [9] \<and>
   sent (processRewardsNotifications store sdk_stub
           [invite_by_bob, invite_unreachable, invite_by_nobody]) =
     [note_for_alice, note_for_bob] \<and>
   ended (processRewardsNotifications store sdk_stub
           [invite_by_bob, invite_unreachable, invite_by_nobody]) = ChannelClosed"
proof -
  have failed: "lookupFailed store (RewardeeID invite_unreachable)"
    by (simp add: lookupFailed_def invite_unreachable_def)
  then have h: "lookupFailed store (RewardeeID invite_unreachable) \<or>
      (CauserID invite_unreachable \<noteq> 0 \<and> lookupFailed store (CauserID invite_unreachable))"
    by simp
  have nine: "RewardeeID invite_unreachable = 9"
    by (simp add: invite_unreachable_def)
  have shape: "[invite_by_bob] @ invite_unreachable # [invite_by_nobody] =
      [invite_by_bob, invite_unreachable, invite_by_nobody]"
    "[invite_by_bob] @ [invite_by_nobody] = [invite_by_bob, invite_by_nobody]"
    by simp_all
  note inst = lookup_error_drops_item [OF h, of sdk_stub "[invite_by_bob]" "[invite_by_nobody]"]
  have dropped: "processRewardNotification store sdk_stub invite_unreachable = Dropped [9]"
    using inst failed by (simp only: if_True nine)
  have same_sent: "sent (processRewardsNotifications store sdk_stub
        [invite_by_bob, invite_unreachable, invite_by_nobody]) = [note_for_alice, note_for_bob]"
    using inst by (simp only: shape run_two run.select_convs)
  have same_end: "ended (processRewardsNotifications store sdk_stub
        [invite_by_bob, invite_unreachable, invite_by_nobody]) = ChannelClosed"
    using inst by (simp only: shape run_two run.select_convs)
  from failed dropped same_sent same_end show ?thesis
    by (simp only: simp_thms)
qed

text \<open>
  Claim C7. The notifications the worker sends are those of the requests it handled, in
  the order of the queue: the list sent is the list of requests up to the first one that
  crashes the worker, with the dropped ones left out and each other one replaced by its
  notification. The loop ends by the channel closing exactly when no request crashes it.
\<close>

theorem delivery_order_preserved:
  "sent (processRewardsNotifications c d ns) =
     List.map_filter (notificationFor c d) (takeWhile (\<lambda>n. \<not> fatal c d n) ns) \<and>
   (ended (processRewardsNotifications c d ns) = ChannelClosed \<longleftrightarrow>
      list_all (\<lambda>n. \<not> fatal c d n) ns)"
proof (induction ns)
  case Nil
  show ?case by (simp add: List.map_filter_simps)
next
  case (Cons n ns)
  then show ?case
    by (cases "processRewardNotification c d n")
       (simp_all add: Let_def notificationFor_def fatal_def List.map_filter_simps)
qed

theorem delivery_order_preserved_witness:
  "sent (processRewardsNotifications store sdk_stub
           [invite_by_bob, invite_unreachable, invite_by_nobody]) =
     [note_for_alice, note_for_bob] \<and>
   List.map_filter (notificationFor store sdk_stub)
     [invite_by_bob, invite_unreachable, invite_by_nobody] = [note_for_alice, note_for_bob]"
proof -
  have nf: "\<not> fatal store sdk_stub invite_by_bob" "\<not> fatal store sdk_stub invite_unreachable"
    "\<not> fatal store sdk_stub invite_by_nobody"
    by (simp_all add: fatal_def turn_invite_by_bob turn_invite_unreachable
          turn_invite_by_nobody)
  have whole: "takeWhile (\<lambda>n. \<not> fatal store sdk_stub n)
      [invite_by_bob, invite_unreachable, invite_by_nobody] =
      [invite_by_bob, invite_unreachable, invite_by_nobody]"
    by (simp add: nf)
  have out: "sent (processRewardsNotifications store sdk_stub
      [invite_by_bob, invite_unreachable, invite_by_nobody]) = [note_for_alice, note_for_bob]"
    by (simp only: run_three run.select_convs)
  from delivery_order_preserved
    [of store sdk_stub "[invite_by_bob, invite_unreachable, invite_by_nobody]"]
  have "sent (processRewardsNotifications store sdk_stub
      [invite_by_bob, invite_unreachable, invite_by_nobody]) =
    List.map_filter (notificationFor store sdk_stub)
      [invite_by_bob, invite_unreachable, invite_by_nobody]"
    by (simp only: whole)
  with out show ?thesis by (simp only: simp_thms)
qed

section \<open>The CSV reports\<close>

lemma rows_of_simps [simp]:
  "rows_of [] = []"
  "rows_of (CsvWrite r # es) = r # rows_of es"
  "rows_of (HeaderAdd k v # es) = rows_of es"
  "rows_of (CsvFlush # es) = rows_of es"
  "rows_of (RenderError msg code # es) = rows_of es"
  "rows_of (es @ es') = rows_of es @ rows_of es'"
  by (simp_all add: rows_of_def)

lemma and_then_Next [simp]: "and_then (es, Next s) k = (es @ fst (k s), snd (k s))"
  by (simp add: and_then_def split: prod.splits)

lemma and_then_Return [simp]: "and_then (es, Return) k = (es, Return)"
  by (simp add: and_then_def)

lemma and_then_Panic [simp]: "and_then (es, Panic p) k = (es, Panic p)"
  by (simp add: and_then_def)

lemma fst_and_then:
  "fst (and_then r k) = fst r @ (case snd r of Next s \<Rightarrow> fst (k s) | _ \<Rightarrow> [])"
  by (cases r; cases "snd r") auto

lemma len_ok_simps [simp]:
  "len_ok n []"
  "len_ok n (CsvWrite r # es) \<longleftrightarrow> length r = n \<and> len_ok n es"
  "len_ok n (HeaderAdd k v # es) \<longleftrightarrow> len_ok n es"
  "len_ok n (CsvFlush # es) \<longleftrightarrow> len_ok n es"
  "len_ok n (RenderError msg code # es) \<longleftrightarrow> len_ok n es"
  "len_ok n (es @ es') \<longleftrightarrow> len_ok n es \<and> len_ok n es'"
  by (simp_all add: len_ok_def)

lemma len_ok_and_then:
  assumes "len_ok n (fst r)" and "\<And>s. len_ok n (fst (k s))"
  shows "len_ok n (fst (and_then r k))"
  using assms by (simp add: fst_and_then split: flow.splits)

lemma len_ok_for_each:
  assumes "\<And>x s. len_ok n (fst (body x s))"
  shows "len_ok n (fst (for_each body xs s))"
  by (induction xs arbitrary: s) (simp_all add: len_ok_and_then assms)

lemma len_ok_quiet [simp]: "len_ok n (fst (quiet r))"
  by (simp add: quiet_def split: sum.splits)

lemma fst_quiet [simp]: "fst (quiet r) = []"
  by (simp add: quiet_def split: sum.splits)

lemma csv_report_header:
  "len_ok (length h) es \<Longrightarrow> csv_report h (CsvWrite h # es)"
  by (simp add: csv_report_def len_ok_def)

lemma csv_report_skip [simp]:
  "csv_report h [] "
  "csv_report h (HeaderAdd k v # es) \<longleftrightarrow> csv_report h es"
  "csv_report h (RenderError msg code # es) \<longleftrightarrow> csv_report h es"
  by (simp_all add: csv_report_def)

lemma csv_report_prefix:
  "rows_of es = [] \<Longrightarrow> csv_report h (es @ es') \<longleftrightarrow> csv_report h es'"
  by (simp add: csv_report_def)

lemma csv_report_and_then:
  assumes "rows_of (fst r) = []" and "\<And>s. csv_report h (fst (k s))"
  shows "csv_report h (fst (and_then r k))"
  using assms by (simp add: fst_and_then csv_report_prefix split: flow.splits)

lemma parse_date_no_rows [simp]: "rows_of (fst (parse_date lib rq)) = []"
  by (simp add: parse_date_def split: option.splits sum.splits)

subsection \<open>Rows of HandleUserBase\<close>

lemma user_base_body_len: "len_ok 7 (fst (user_base_body lib user s))"
  by (simp add: user_base_body_def Let_def split: sum.splits)

lemma HandleUserBase_report: "csv_report user_base_header (fst (HandleUserBase lib rq))"
proof -
  have n: "length user_base_header = 7" by (simp add: user_base_header_def)
  show ?thesis
    by (auto simp: HandleUserBase_def Let_def n intro!: csv_report_header len_ok_for_each
          user_base_body_len split: sum.splits)
qed

subsection \<open>Rows of HandleUserClaims\<close>

lemma user_claims_body_len: "len_ok 8 (fst (user_claims_body lib b jobTime targetDate claim s))"
  by (simp add: user_claims_body_def Let_def)

lemma HandleUserClaims_report: "csv_report user_claims_header (fst (HandleUserClaims lib b rq))"
proof -
  have n: "length user_claims_header = 8" by (simp add: user_claims_header_def)
  have "len_ok 8 (fst (and_then (parse_date lib rq)
          (\<lambda>targetDate.
             (case QueryClaimsBeforeTime b targetDate of
                Inl err \<Rightarrow> ([RenderError err 500], Return)
              | Inr claims \<Rightarrow>
                  for_each (user_claims_body lib b (rq_jobTime rq) targetDate) claims ()))))"
    by (rule len_ok_and_then)
       (auto simp: len_ok_def intro!: len_ok_for_each [unfolded len_ok_def]
          user_claims_body_len [unfolded len_ok_def] split: sum.splits)
  then show ?thesis
    by (simp add: HandleUserClaims_def n csv_report_header)
qed

subsection \<open>Rows of HandleClaimMetrics\<close>

lemma claim_stake_body_len: "len_ok n (fst (claim_stake_body beforeDate arguments stake t))"
  by (simp add: claim_stake_body_def Let_def fst_and_then split: option.splits)

lemma claim_metrics_row_len:
  "claim_metrics_row lib jobTime beforeDate claim flagged vs rs ta la t = Inr row \<Longrightarrow> length row = 27"
  by (auto simp: claim_metrics_row_def Let_def bindP_def split: sum.splits)

lemma claim_metrics_body_len:
  "len_ok 27 (fst (claim_metrics_body lib b jobTime beforeDate vs rs fl claim s))"
proof -
  have hdr: "length claim_metrics_header = 27" by (simp add: claim_metrics_header_def)
  show ?thesis
    unfolding claim_metrics_body_def Let_def
    by (auto simp: hdr quiet_def intro!: len_ok_and_then len_ok_for_each claim_stake_body_len
          split: sum.splits dest: claim_metrics_row_len)
qed

lemma HandleClaimMetrics_report:
  "csv_report claim_metrics_header (fst (HandleClaimMetrics lib b rq))"
proof -
  have hdr: "length claim_metrics_header = 27" by (simp add: claim_metrics_header_def)
  show ?thesis
    unfolding HandleClaimMetrics_def
    by (auto simp: hdr csv_report_prefix intro!: csv_report_and_then csv_report_header
          len_ok_for_each claim_metrics_body_len split: sum.splits)
qed


subsection \<open>Rows of HandleUsersMetrics\<close>

lemma users_metrics_row_len:
  "length (users_metrics_row lib jobTime beforeDate user balance community m) = 27"
  by (simp add: users_metrics_row_def Let_def)

lemma rows_of_map_CsvWrite [simp]: "rows_of (map (\<lambda>x. CsvWrite (f x)) xs) = map f xs"
  by (induction xs) simp_all

lemma users_tx_body_no_rows: "rows_of (fst (users_tx_body b beforeDate address tx s)) = []"
  by (cases s) (simp add: users_tx_body_def Let_def fst_and_then split: flow.splits)

lemma no_rows_len_ok: "rows_of es = [] \<Longrightarrow> len_ok n es"
  by (simp add: len_ok_def)

lemma users_user_body_len:
  "len_ok 27 (fst (users_user_body lib b jobTime beforeDate communities user m))"
proof (cases "Address user = [] \<or> \<not> CreatedAt user < beforeDate")
  case True
  then show ?thesis by (simp add: users_user_body_def)
next
  case False
  have txs: "len_ok 27 (fst (for_each (users_tx_body b beforeDate (Address user))
      (appAccountTransactionsResolver b (Address user)) (zeroStake, m)))"
    by (intro len_ok_for_each no_rows_len_ok users_tx_body_no_rows)
  have rows: "len_ok 27 (fst ((\<lambda>(balance, m').
      (map (\<lambda>community.
              CsvWrite (users_metrics_row lib jobTime beforeDate user balance community
                (getUserCommunityMetric m' (Address user) (cy_ID community))))
         communities @ [CsvFlush], Next m')) s))" for s
    by (cases s) (simp add: len_ok_def list_all_iff users_metrics_row_len)
  from False show ?thesis
    unfolding users_user_body_def
    by (simp only: if_False) (rule len_ok_and_then [OF txs rows])
qed

lemma no_rows_and_then:
  assumes "rows_of (fst r) = []" and "\<And>s. rows_of (fst (k s)) = []"
  shows "rows_of (fst (and_then r k)) = []"
  using assms by (simp add: fst_and_then split: flow.splits)

lemma no_rows_for_each:
  assumes "\<And>x s. rows_of (fst (body x s)) = []"
  shows "rows_of (fst (for_each body xs s)) = []"
  by (induction xs arbitrary: s) (simp_all add: no_rows_and_then assms)

lemma set_opened_claims_no_rows [simp]: "rows_of (fst (set_opened_claims b beforeDate m)) = []"
  by (simp add: set_opened_claims_def no_rows_for_each split: sum.splits)

lemma set_opened_arguments_no_rows [simp]:
  "rows_of (fst (set_opened_arguments b beforeDate m)) = []"
  by (simp add: set_opened_arguments_def no_rows_for_each split: sum.splits)

lemma set_replies_no_rows [simp]: "rows_of (fst (set_replies b beforeDate m)) = []"
  by (simp add: set_replies_def no_rows_for_each split: sum.splits)

lemma users_claim_body_no_rows [simp]: "rows_of (fst (users_claim_body b beforeDate claim m)) = []"
  unfolding users_claim_body_def Let_def
  by (auto intro!: no_rows_and_then no_rows_for_each split: sum.splits)

lemma users_metrics_export_report:
  "csv_report users_metrics_header (fst (users_metrics_export lib b jobTime beforeDate m))"
proof -
  have hdr: "length users_metrics_header = 27" by (simp add: users_metrics_header_def)
  have rest: "len_ok 27 (fst (and_then (set_opened_claims b beforeDate m)
      (\<lambda>m1. and_then (set_opened_arguments b beforeDate m1)
         (\<lambda>m2. and_then (set_replies b beforeDate m2)
            (\<lambda>m3. for_each (users_user_body lib b jobTime beforeDate cs) us m3)))))" for cs us
    by (intro len_ok_and_then len_ok_for_each users_user_body_len no_rows_len_ok) simp_all
  show ?thesis
    unfolding users_metrics_export_def Let_def
    by (rule csv_report_and_then)
       (auto simp: hdr rest intro!: csv_report_header split: option.splits sum.splits)
qed

lemma HandleUsersMetrics_report:
  "csv_report users_metrics_header (fst (HandleUsersMetrics lib b rq))"
  unfolding HandleUsersMetrics_def
  by (auto simp: csv_report_prefix intro!: csv_report_and_then users_metrics_export_report
        no_rows_for_each split: sum.splits)

subsection \<open>The four reports\<close>

lemma fmt_d_samples:
  "fmt_d 100 = ''100''" "fmt_d 120 = ''120''" "fmt_d 150 = ''150''" "fmt_d 200 = ''200''"
  by (simp_all add: fmt_d_def show_nat.simps)

lemma open_request_run:
  "HandleUserBase sample_lib open_request =
     ([HeaderAdd ''Content-Type'' ''text/csv'',
       CsvWrite user_base_header,
       CsvWrite [''cosmos1alice'', ''alice'', ''alice@example.org'', ''100'', ''120'', ''150'', ''User''],
       CsvFlush,
       CsvWrite [''cosmos1bob'', ''bob'', ''bob@example.org'', ''200'', ''200'', [], ''Employee''],
       CsvFlush], Next ())"
  by (simp add: HandleUserBase_def open_request_def Header_Get_def user_base_body_def
        sample_lib_def alice_def bob_def UserGroup_String_def userGroupTypeName_def
        fmt_d_samples)

lemma claim_metrics_run:
  "HandleClaimMetrics sample_lib sample_backend sample_request =
     ([HeaderAdd ''x-metrics-version'' ''20190911-01'',
       HeaderAdd ''Content-Type'' ''text/csv'',
       CsvWrite claim_metrics_header,
       RenderError ''unable to find argument with id 2'' 500,
       CsvWrite [''201909110000'', ''1000'', ''100'', ''0'', ''1'', ''crypto'', ''Bitcoin is money'',
                 ''1'', ''1'', ''12'', ''12'', ''5'', ''7'', ''0'', ''0'', ''0'',
                 ''0'', ''0'', ''0'', ''0'', ''0'', ''0'', ''0'', ''0'', ''0'', ''150'', ''250''],
       CsvFlush], Next ())"
  by code_simp

lemma user_claims_run:
  "HandleUserClaims sample_lib sample_backend sample_request =
     ([HeaderAdd ''Content-Type'' ''text/csv'',
       CsvWrite user_claims_header,
       CsvWrite [''201909110000'', ''1000'', ''1'', ''Bitcoin is money'', ''crypto'',
                 ''cosmos1alice'', ''100'', ''1''],
       CsvFlush], Next ())"
  by code_simp

lemma users_metrics_run:
  "fst (HandleUsersMetrics sample_lib sample_backend sample_request) =
     [HeaderAdd ''x-metrics-version'' ''20190911-01'',
      HeaderAdd ''Content-Type'' ''text/csv'',
      CsvWrite users_metrics_header,
      CsvWrite [''201909110000'', ''1000'', ''cosmos1alice'', ''alice'', ''0'',
                ''crypto'', ''Crypto'', ''0'', ''1'', ''0'', ''0'', ''1'', ''1'', ''0'',
                ''0'', ''0'', ''0'', ''0'', ''0'', ''0'', ''0'', ''0'', ''0'', ''0'', ''0'',
                ''0'', ''0''],
      CsvFlush,
      CsvWrite [''201909110000'', ''1000'', ''cosmos1bob'', ''bob'', ''0'',
                ''crypto'', ''Crypto'', ''0'', ''0'', ''0'', ''0'', ''0'', ''0'', ''1'',
                ''12'', ''5'', ''7'', ''0'', ''0'', ''0'', ''0'', ''0'', ''0'', ''0'', ''0'',
                ''0'', ''0''],
      CsvFlush]"
  by code_simp

lemma parse_date_ok:
  "rq_ParseForm rq = None \<Longrightarrow> rq_date rq \<noteq> [] \<Longrightarrow> ParseDate lib (rq_date rq) = Inr d \<Longrightarrow>
     parse_date lib rq = ([], Next d)"
  by (simp add: parse_date_def)

lemma HandleUserClaims_writes: "rows_of (fst (HandleUserClaims lib b rq)) \<noteq> []"
  by (simp add: HandleUserClaims_def)

lemma HandleUserBase_writes:
  "ub_Secret ub \<noteq> [] \<Longrightarrow> ub_Secret ub = Header_Get (ub_Header ub) ''Metrics-Secret'' \<Longrightarrow>
     rows_of (fst (HandleUserBase lib ub)) \<noteq> []"
  by (simp add: HandleUserBase_def Let_def)

lemma HandleClaimMetrics_writes:
  assumes "rq_ParseForm rq = None" "rq_date rq \<noteq> []" "ParseDate lib (rq_date rq) = Inr d"
    and "QueryClaimsBeforeTime b d = Inr claims"
    and "DBClaimViewsStats b d = Inr vs" and "DBClaimRepliesStats b d = Inr rs"
  shows "rows_of (fst (HandleClaimMetrics lib b rq)) \<noteq> []"
  using assms(4-) by (simp add: HandleClaimMetrics_def parse_date_ok [OF assms(1-3)])

lemma falls_through_Next: "falls_through r \<Longrightarrow> \<exists>es s. r = (es, Next s)"
  by (cases r; cases "snd r") (auto simp: falls_through_def)

lemma users_metrics_export_writes:
  assumes "DecodeCommunities b = Inr cs" and "cs \<noteq> []"
  shows "rows_of (fst (users_metrics_export lib b jobTime d m)) \<noteq> []"
  using assms by (simp add: users_metrics_export_def Let_def)

lemma HandleUsersMetrics_writes:
  assumes "rq_ParseForm rq = None" "rq_date rq \<noteq> []" "ParseDate lib (rq_date rq) = Inr d"
    and "QueryClaimsBeforeTime b d = Inr claims"
    and "falls_through (for_each (users_claim_body b d) claims Map.empty)"
    and "DecodeCommunities b = Inr cs" and "cs \<noteq> []"
  shows "rows_of (fst (HandleUsersMetrics lib b rq)) \<noteq> []"
proof -
  from falls_through_Next [OF assms(5)] obtain es m where
    loop: "for_each (users_claim_body b d) claims Map.empty = (es, Next m)"
    by blast
  show ?thesis
    using assms(4) users_metrics_export_writes [OF assms(6,7), of lib "rq_jobTime rq" d m]
    by (simp add: HandleUsersMetrics_def parse_date_ok [OF assms(1-3)] loop)
qed

lemma sample_claims_loop:
  "falls_through (for_each (users_claim_body sample_backend 1000) [claim1] Map.empty)"
  by code_simp

text \<open>
  Claim C3. In each of the four CSV reports the first record handed to the writer is the
  handler's header and every later record has as many fields as that header. And the
  header is written: always by \<open>HandleUserClaims\<close>, by \<open>HandleUserBase\<close> once the
  secret is accepted, by \<open>HandleClaimMetrics\<close> once the date is parsed and its three
  queries succeed, and by \<open>HandleUsersMetrics\<close> once the date is parsed, the claims are
  queried and counted, and there is a community.
\<close>

theorem csv_rows_match_header:
  "csv_report users_metrics_header (fst (HandleUsersMetrics lib b rq)) \<and>
   csv_report claim_metrics_header (fst (HandleClaimMetrics lib b rq)) \<and>
   csv_report user_claims_header (fst (HandleUserClaims lib b rq)) \<and>
   csv_report user_base_header (fst (HandleUserBase lib ub)) \<and>
   rows_of (fst (HandleUserClaims lib b rq)) \<noteq> [] \<and>
   (ub_Secret ub \<noteq> [] \<and> ub_Secret ub = Header_Get (ub_Header ub) ''Metrics-Secret'' \<longrightarrow>
      rows_of (fst (HandleUserBase lib ub)) \<noteq> []) \<and>
   (rq_ParseForm rq = None \<and> rq_date rq \<noteq> [] \<and> ParseDate lib (rq_date rq) = Inr d \<and>
    QueryClaimsBeforeTime b d = Inr claims \<longrightarrow>
      (DBClaimViewsStats b d = Inr vs \<and> DBClaimRepliesStats b d = Inr rs \<longrightarrow>
         rows_of (fst (HandleClaimMetrics lib b rq)) \<noteq> []) \<and>
      (falls_through (for_each (users_claim_body b d) claims Map.empty) \<and>
       DecodeCommunities b = Inr cs \<and> cs \<noteq> [] \<longrightarrow>
         rows_of (fst (HandleUsersMetrics lib b rq)) \<noteq> []))"
  using HandleUsersMetrics_report [of lib b rq] HandleClaimMetrics_report [of lib b rq]
    HandleUserClaims_report [of lib b rq] HandleUserBase_report [of lib ub]
    HandleUserClaims_writes [of lib b rq] HandleUserBase_writes [of ub lib]
    HandleClaimMetrics_writes [of rq lib d b claims vs rs]
    HandleUsersMetrics_writes [of rq lib d b claims cs]
  by blast

theorem csv_rows_match_header_witness:
  "rows_of (fst (HandleUsersMetrics sample_lib sample_backend sample_request)) =
     [users_metrics_header,
      [''201909110000'', ''1000'', ''cosmos1alice'', ''alice'', ''0'',
       ''crypto'', ''Crypto'', ''0'', ''1'', ''0'', ''0'', ''1'', ''1'', ''0'',
       ''0'', ''0'', ''0'', ''0'', ''0'', ''0'', ''0'', ''0'', ''0'', ''0'', ''0'', ''0'', ''0''],
      [''201909110000'', ''1000'', ''cosmos1bob'', ''bob'', ''0'',
       ''crypto'', ''Crypto'', ''0'', ''0'', ''0'', ''0'', ''0'', ''0'', ''1'',
       ''12'', ''5'', ''7'', ''0'', ''0'', ''0'', ''0'', ''0'', ''0'', ''0'', ''0'', ''0'', ''0'']] \<and>
   rows_of (fst (HandleClaimMetrics sample_lib sample_backend sample_request)) =
     [claim_metrics_header,
      [''201909110000'', ''1000'', ''100'', ''0'', ''1'', ''crypto'', ''Bitcoin is money'',
       ''1'', ''1'', ''12'', ''12'', ''5'', ''7'', ''0'', ''0'', ''0'',
       ''0'', ''0'', ''0'', ''0'', ''0'', ''0'', ''0'', ''0'', ''0'', ''150'', ''250'']] \<and>
   rows_of (fst (HandleUserClaims sample_lib sample_backend sample_request)) =
     [user_claims_header,
      [''201909110000'', ''1000'', ''1'', ''Bitcoin is money'', ''crypto'', ''cosmos1alice'',
       ''100'', ''1'']] \<and>
   rows_of (fst (HandleUserBase sample_lib open_request)) =
     [user_base_header,
      [''cosmos1alice'', ''alice'', ''alice@example.org'', ''100'', ''120'', ''150'', ''User''],
      [''cosmos1bob'', ''bob'', ''bob@example.org'', ''200'', ''200'', [], ''Employee'']] \<and>
   csv_report users_metrics_header
     (fst (HandleUsersMetrics sample_lib sample_backend sample_request)) \<and>
   csv_report claim_metrics_header
     (fst (HandleClaimMetrics sample_lib sample_backend sample_request)) \<and>
   csv_report user_claims_header
     (fst (HandleUserClaims sample_lib sample_backend sample_request)) \<and>
   csv_report user_base_header (fst (HandleUserBase sample_lib open_request))"
proof -
  have secret: "ub_Secret open_request \<noteq> [] \<and>
      ub_Secret open_request = Header_Get (ub_Header open_request) ''Metrics-Secret''"
    by (simp add: open_request_def Header_Get_def)
  have form: "rq_ParseForm sample_request = None \<and> rq_date sample_request \<noteq> [] \<and>
      ParseDate sample_lib (rq_date sample_request) = Inr 1000 \<and>
      QueryClaimsBeforeTime sample_backend 1000 = Inr [claim1]"
    by (simp add: sample_request_def sample_lib_def sample_backend_def)
  have stats: "DBClaimViewsStats sample_backend 1000 = Inr [] \<and>
      DBClaimRepliesStats sample_backend 1000 = Inr []"
    by (simp add: sample_backend_def)
  have communities: "DecodeCommunities sample_backend = Inr [\<lparr>cy_ID = ''crypto'', cy_Name = ''Crypto''\<rparr>] \<and>
      [\<lparr>cy_ID = ''crypto'', cy_Name = ''Crypto''\<rparr>] \<noteq> []"
    by (simp add: sample_backend_def)
  note inst = csv_rows_match_header [of sample_lib sample_backend sample_request open_request
      1000 "[claim1]" "[]" "[]" "[\<lparr>cy_ID = ''crypto'', cy_Name = ''Crypto''\<rparr>]"]
  from inst have reports:
    "csv_report users_metrics_header
       (fst (HandleUsersMetrics sample_lib sample_backend sample_request))"
    "csv_report claim_metrics_header
       (fst (HandleClaimMetrics sample_lib sample_backend sample_request))"
    "csv_report user_claims_header
       (fst (HandleUserClaims sample_lib sample_backend sample_request))"
    "csv_report user_base_header (fst (HandleUserBase sample_lib open_request))"
    by blast+
  from inst secret form stats communities sample_claims_loop have written:
    "rows_of (fst (HandleUserBase sample_lib open_request)) \<noteq> []"
    "rows_of (fst (HandleClaimMetrics sample_lib sample_backend sample_request)) \<noteq> []"
    "rows_of (fst (HandleUsersMetrics sample_lib sample_backend sample_request)) \<noteq> []"
    by blast+
  have rows:
    "rows_of (fst (HandleUsersMetrics sample_lib sample_backend sample_request)) =
     [users_metrics_header,
      [''201909110000'', ''1000'', ''cosmos1alice'', ''alice'', ''0'',
       ''crypto'', ''Crypto'', ''0'', ''1'', ''0'', ''0'', ''1'', ''1'', ''0'',
       ''0'', ''0'', ''0'', ''0'', ''0'', ''0'', ''0'', ''0'', ''0'', ''0'', ''0'', ''0'', ''0''],
      [''201909110000'', ''1000'', ''cosmos1bob'', ''bob'', ''0'',
       ''crypto'', ''Crypto'', ''0'', ''0'', ''0'', ''0'', ''0'', ''0'', ''1'',
       ''12'', ''5'', ''7'', ''0'', ''0'', ''0'', ''0'', ''0'', ''0'', ''0'', ''0'', ''0'', ''0'']]"
    "rows_of (fst (HandleClaimMetrics sample_lib sample_backend sample_request)) =
     [claim_metrics_header,
      [''201909110000'', ''1000'', ''100'', ''0'', ''1'', ''crypto'', ''Bitcoin is money'',
       ''1'', ''1'', ''12'', ''12'', ''5'', ''7'', ''0'', ''0'', ''0'',
       ''0'', ''0'', ''0'', ''0'', ''0'', ''0'', ''0'', ''0'', ''0'', ''150'', ''250'']]"
    "rows_of (fst (HandleUserClaims sample_lib sample_backend sample_request)) =
     [user_claims_header,
      [''201909110000'', ''1000'', ''1'', ''Bitcoin is money'', ''crypto'', ''cosmos1alice'',
       ''100'', ''1'']]"
    "rows_of (fst (HandleUserBase sample_lib open_request)) =
     [user_base_header,
      [''cosmos1alice'', ''alice'', ''alice@example.org'', ''100'', ''120'', ''150'', ''User''],
      [''cosmos1bob'', ''bob'', ''bob@example.org'', ''200'', ''200'', [], ''Employee'']]"
    by (simp_all add: users_metrics_run claim_metrics_run user_claims_run open_request_run)
  from rows reports show ?thesis
    by (simp only: simp_thms)
qed

text \<open>
  Claim C10. \<open>HandleUserBase\<close> answers exactly \<open>render.Error("Invalid token", 401)\<close>,
  and nothing else, if and only if the configured secret is empty or differs from the
  request's \<open>Metrics-Secret\<close> header; it hands records to the CSV writer if and only if
  the secret is non-empty and equal to the header.
\<close>

theorem HandleUserBase_token:
  "(HandleUserBase lib rq = ([RenderError ''Invalid token'' 401], Return) \<longleftrightarrow>
      ub_Secret rq = [] \<or> ub_Secret rq \<noteq> Header_Get (ub_Header rq) ''Metrics-Secret'') \<and>
   (rows_of (fst (HandleUserBase lib rq)) \<noteq> [] \<longleftrightarrow>
      ub_Secret rq \<noteq> [] \<and> ub_Secret rq = Header_Get (ub_Header rq) ''Metrics-Secret'')"
  by (auto simp: HandleUserBase_def Let_def split: sum.splits)

theorem HandleUserBase_token_witness:
  "HandleUserBase sample_lib wrong_request = ([RenderError ''Invalid token'' 401], Return) \<and>
   HandleUserBase sample_lib unconfigured_request = ([RenderError ''Invalid token'' 401], Return) \<and>
   rows_of (fst (HandleUserBase sample_lib wrong_request)) = [] \<and>
   rows_of (fst (HandleUserBase sample_lib open_request)) \<noteq> []"
proof -
  have wrong: "ub_Secret wrong_request \<noteq> Header_Get (ub_Header wrong_request) ''Metrics-Secret''"
    by (simp add: wrong_request_def Header_Get_def)
  have unset: "ub_Secret unconfigured_request = []"
    by (simp add: unconfigured_request_def)
  have ok: "ub_Secret open_request \<noteq> [] \<and>
      ub_Secret open_request = Header_Get (ub_Header open_request) ''Metrics-Secret''"
    by (simp add: open_request_def Header_Get_def)
  from HandleUserBase_token [of sample_lib wrong_request] wrong
  have a: "HandleUserBase sample_lib wrong_request = ([RenderError ''Invalid token'' 401], Return)"
    and c: "rows_of (fst (HandleUserBase sample_lib wrong_request)) = []"
    by blast+
  from HandleUserBase_token [of sample_lib unconfigured_request] unset
  have b: "HandleUserBase sample_lib unconfigured_request =
      ([RenderError ''Invalid token'' 401], Return)"
    by blast
  from HandleUserBase_token [of sample_lib open_request] ok
  have d: "rows_of (fst (HandleUserBase sample_lib open_request)) \<noteq> []"
    by blast
  from a b c d show ?thesis by (simp only: simp_thms)
qed

section \<open>Mention translation\<close>

lemma parseMentions_plain: "parseMentions sample_mentions ''hello world'' = []"
  by (simp add: parseMentions_def sample_mentions_def prefixed_words_def)

lemma parseMentions_bob: "parseMentions sample_mentions ''hi @bob'' = [''bob'']"
  by (simp add: parseMentions_def sample_mentions_def prefixed_words_def)

lemma translate_bob:
  "TranslateToCosmosMentions sample_mentions ''hi @bob'' = (''hi @cosmos1bob'', None)"
proof -
  have r: "ReplaceAll ''hi @bob'' ''bob'' ''cosmos1bob'' = ''hi @cosmos1bob''"
    by (simp add: ReplaceAll_def)
  have l: "lookup_addresses sample_mentions [''bob''] [] = Inr [(''bob'', ''cosmos1bob'')]"
    by (simp add: sample_mentions_def)
  show ?thesis
    unfolding TranslateToCosmosMentions_def replaceUsernamesWithAddress_def parseMentions_bob l
    by (simp add: r)
qed

text \<open>
  Claim C8. On a body in which \<open>parseMentions\<close> finds no mention,
  \<open>TranslateToCosmosMentions\<close> returns the body unchanged and a nil error.
\<close>

theorem translate_without_mentions:
  assumes "parseMentions c body = []"
  shows "TranslateToCosmosMentions c body = (body, None)"
  using assms
  by (simp add: TranslateToCosmosMentions_def replaceUsernamesWithAddress_def)

theorem translate_without_mentions_witness:
  "parseMentions sample_mentions ''hello world'' = [] \<and>
   TranslateToCosmosMentions sample_mentions ''hello world'' = (''hello world'', None)"
  using translate_without_mentions [OF parseMentions_plain] parseMentions_plain
  by (simp only: simp_thms)

section \<open>HandleMetrics: the amounts staked\<close>

lemma bindP_Inr_iff [simp]: "bindP r k = Inr y \<longleftrightarrow> (\<exists>x. r = Inr x \<and> k x = Inr y)"
  by (cases r) (simp_all add: bindP_def)

lemma bindP_simps [simp]: "bindP (Inr x) k = k x" "bindP (Inl p) k = Inl p"
  by (simp_all add: bindP_def)

lemma um_staked_new [simp]:
  "um_staked \<lparr>UserName = n, Balance = b, RunningBalance = r, CategoryMetrics = Map.empty\<rparr> c = 0"
  by (simp add: um_staked_def)

lemma staked_GetUserMetrics [simp]:
  "um_staked (GetUserMetrics users u) c = TotalAmountStaked_of users u c"
  by (simp add: GetUserMetrics_def TotalAmountStaked_of_def split: option.splits)

lemma staked_of_upd [simp]:
  "TotalAmountStaked_of (users(a \<mapsto> um)) u c =
     (if u = a then um_staked um c else TotalAmountStaked_of users u c)"
  by (simp add: TotalAmountStaked_of_def)

lemma um_staked_fields [simp]:
  "um_staked (um\<lparr>Balance := x\<rparr>) c = um_staked um c"
  "um_staked (um\<lparr>RunningBalance := y\<rparr>) c = um_staked um c"
  "um_staked (um\<lparr>UserName := z\<rparr>) c = um_staked um c"
  by (simp_all add: um_staked_def)

lemma withCategory_staked:
  assumes "withCategory um k f = Inr um'"
    and "\<And>cm cm'. f cm = Inr cm' \<Longrightarrow>
           Amount (TotalAmountStaked (Metrics cm')) = Amount (TotalAmountStaked (Metrics cm)) + d"
  shows "um_staked um' c = um_staked um c + (if c = k then d else 0)"
  using assms
  by (auto simp: withCategory_def um_staked_def getMetricsByCategory_def newMetrics_def
        zeroStake_def split: option.splits)

lemma withMetrics_staked:
  assumes "withMetrics um k g = Inr um'"
    and "\<And>m m'. g m = Inr m' \<Longrightarrow> Amount (TotalAmountStaked m') = Amount (TotalAmountStaked m) + d"
  shows "um_staked um' c = um_staked um c + (if c = k then d else 0)"
  using assms(1) unfolding withMetrics_def
  by (rule withCategory_staked) (auto dest: assms(2))

lemma Coin_Add_Amount: "Coin_Add a b = Inr r \<Longrightarrow> Amount r = Amount a + Amount b \<and> Denom r = Denom a"
  by (auto simp: Coin_Add_def Int_Add_def Int_ok_def split: if_splits)

lemma addStakedAmount_staked:
  "addStakedAmount um k amount = Inr um' \<Longrightarrow>
     um_staked um' c = um_staked um c + (if c = k then Amount amount else 0)"
  unfolding addStakedAmount_def
  by (erule withMetrics_staked) (auto dest: Coin_Add_Amount)

lemma other_metric_staked:
  "increaseArgumentsCount um k = Inr um' \<Longrightarrow> um_staked um' c = um_staked um c"
  "increaseClaimsCount um k = Inr um' \<Longrightarrow> um_staked um' c = um_staked um c"
  "increaseEndorsementsGivenCount um k = Inr um' \<Longrightarrow> um_staked um' c = um_staked um c"
  "increaseEndorsementsReceivedCount um k = Inr um' \<Longrightarrow> um_staked um' c = um_staked um c"
  "increaseTotalBackings um k = Inr um' \<Longrightarrow> um_staked um' c = um_staked um c"
  "increaseTotalChallenges um k = Inr um' \<Longrightarrow> um_staked um' c = um_staked um c"
  "setTotalOpenedClaims um k n = Inr um' \<Longrightarrow> um_staked um' c = um_staked um c"
  "addAmoutAtStake um k amount = Inr um' \<Longrightarrow> um_staked um' c = um_staked um c"
  "addBackedAmount um k amount = Inr um' \<Longrightarrow> um_staked um' c = um_staked um c"
  "addChallengedAmount um k amount = Inr um' \<Longrightarrow> um_staked um' c = um_staked um c"
  "addStakeLost um k amount = Inr um' \<Longrightarrow> um_staked um' c = um_staked um c"
  "addInterestEarned um k amount = Inr um' \<Longrightarrow> um_staked um' c = um_staked um c"
  "addStakeEarned um k amount = Inr um' \<Longrightarrow> um_staked um' c = um_staked um c"
  unfolding increaseArgumentsCount_def increaseClaimsCount_def increaseEndorsementsGivenCount_def
    increaseEndorsementsReceivedCount_def increaseTotalBackings_def increaseTotalChallenges_def
    setTotalOpenedClaims_def addAmoutAtStake_def addBackedAmount_def addChallengedAmount_def
    addStakeLost_def addInterestEarned_def addStakeEarned_def
  by (drule withMetrics_staked [where d = 0 and c = c]; auto)+

lemma addCredEarned_staked:
  "addCredEarned um k amount = Inr um' \<Longrightarrow> um_staked um' c = um_staked um c"
  unfolding addCredEarned_def
  by (drule withCategory_staked [where d = 0 and c = c]; auto)

lemma name_category_staked:
  "name_category cat um = Inr um' \<Longrightarrow> um_staked um' c = um_staked um c"
  unfolding name_category_def
  by (drule withCategory_staked [where d = 0 and c = c]; auto)

lemma addRunningBalance_staked:
  "addRunningBalance um amount = Inr um' \<Longrightarrow> um_staked um' c = um_staked um c"
  by (auto simp: addRunningBalance_def split: if_splits)

lemma foldP_sum:
  fixes f :: "'s \<Rightarrow> int"
  assumes "\<And>x s s'. body x s = Inr s' \<Longrightarrow> f s' = f s + g x"
    and "foldP body xs s = Inr s'"
  shows "f s' = f s + sum_list (map g xs)"
  using assms(2)
proof (induction xs arbitrary: s)
  case Nil
  then show ?case by simp
next
  case (Cons x xs)
  from Cons.prems obtain s1 where 1: "body x s = Inr s1" and 2: "foldP body xs s1 = Inr s'"
    by auto
  from assms(1) [OF 1] Cons.IH [OF 2] show ?case by simp
qed

lemma foldP_keep:
  fixes f :: "'s \<Rightarrow> int"
  assumes "\<And>x s s'. body x s = Inr s' \<Longrightarrow> f s' = f s"
    and "foldP body xs s = Inr s'"
  shows "f s' = f s"
  using foldP_sum [where g = "\<lambda>_. 0" and f = f and body = body, OF _ assms(2)] assms(1)
  by simp

lemma stake_body_staked:
  assumes "stake_body ch beforeDate s sd b (p, acc) = Inr (p', acc')"
  shows "TotalAmountStaked_of (Users p') u c =
           TotalAmountStaked_of (Users p) u c +
           (if b_CreatedTime b < beforeDate \<and> b_Creator b = u \<and> s_CategoryID s = c
            then Amount (b_Amount b) else 0)"
proof (cases "b_CreatedTime b < beforeDate")
  case False
  with assms show ?thesis by (simp add: stake_body_def)
next
  case True
  from assms True obtain um1 um2 um3 um4 um5 where
    1: "addStakedAmount (GetUserMetrics (Users p) (b_Creator b)) (s_CategoryID s) (b_Amount b) = Inr um1"
    and 2: "(case sd of Backing \<Rightarrow> addBackedAmount um1 (s_CategoryID s) (b_Amount b)
               | Challenge \<Rightarrow> addChallengedAmount um1 (s_CategoryID s) (b_Amount b)) = Inr um2"
    and 3: "(case sd of Backing \<Rightarrow> increaseTotalBackings um2 (s_CategoryID s)
               | Challenge \<Rightarrow> increaseTotalChallenges um2 (s_CategoryID s)) = Inr um3"
    and 4: "(if s_Status s = Pending then addAmoutAtStake um3 (s_CategoryID s) (b_Amount b)
             else Inr um3) = Inr um4"
    and 5: "(if ar_ID (argumentResolver ch (b_ArgumentID b)) = 0 then Inr um4
             else if ar_Creator (argumentResolver ch (b_ArgumentID b)) = b_Creator b
             then increaseArgumentsCount um4 (s_CategoryID s)
             else increaseEndorsementsGivenCount um4 (s_CategoryID s)) = Inr um5"
    and users: "Users p' = (Users p)(b_Creator b \<mapsto> um5)"
    by (auto simp: stake_body_def Let_def)
  have s1: "um_staked um1 c = TotalAmountStaked_of (Users p) (b_Creator b) c +
      (if c = s_CategoryID s then Amount (b_Amount b) else 0)"
    using addStakedAmount_staked [OF 1, of c] by simp
  have s2: "um_staked um2 c = um_staked um1 c"
    using 2 by (cases sd) (auto dest: other_metric_staked)
  have s3: "um_staked um3 c = um_staked um2 c"
    using 3 by (cases sd) (auto dest: other_metric_staked)
  have s4: "um_staked um4 c = um_staked um3 c"
    using 4 by (auto split: if_splits dest: other_metric_staked)
  have s5: "um_staked um5 c = um_staked um4 c"
    using 5 by (auto split: if_splits dest: other_metric_staked)
  from True show ?thesis
    by (auto simp: users s1 s2 s3 s4 s5)
qed

lemma stake_loop_staked:
  assumes "foldP (stake_body ch beforeDate s sd) votes (p, acc) = Inr (p', acc')"
  shows "TotalAmountStaked_of (Users p') u c =
           TotalAmountStaked_of (Users p) u c +
           (if s_CategoryID s = c then stakes_before beforeDate u votes else 0)"
proof -
  have "TotalAmountStaked_of (Users (fst (p', acc'))) u c =
      TotalAmountStaked_of (Users (fst (p, acc))) u c +
      sum_list (map (\<lambda>b. if b_CreatedTime b < beforeDate \<and> b_Creator b = u \<and> s_CategoryID s = c
                          then Amount (b_Amount b) else 0) votes)"
  proof (rule foldP_sum [OF _ assms])
    fix x st st'
    assume "stake_body ch beforeDate s sd x st = Inr st'"
    then show "TotalAmountStaked_of (Users (fst st')) u c =
        TotalAmountStaked_of (Users (fst st)) u c +
        (if b_CreatedTime x < beforeDate \<and> b_Creator x = u \<and> s_CategoryID s = c
         then Amount (b_Amount x) else 0)"
      by (cases st; cases st') (simp add: stake_body_staked)
  qed
  moreover have "sum_list (map (\<lambda>b. if b_CreatedTime b < beforeDate \<and> b_Creator b = u \<and>
        s_CategoryID s = c then Amount (b_Amount b) else 0) votes) =
      (if s_CategoryID s = c then stakes_before beforeDate u votes else 0)"
    by (induction votes) (auto simp: stakes_before_def)
  ultimately show ?thesis by simp
qed

lemma lose_stake_staked:
  "lose_stake s b users = Inr users' \<Longrightarrow>
     TotalAmountStaked_of users' u c = TotalAmountStaked_of users u c"
  by (auto simp: lose_stake_def dest: other_metric_staked)

lemma lose_loop_staked:
  "foldP (lose_stake s) votes users = Inr users' \<Longrightarrow>
     TotalAmountStaked_of users' u c = TotalAmountStaked_of users u c"
  by (rule foldP_keep [where f = "\<lambda>us. TotalAmountStaked_of us u c"])
     (auto dest: lose_stake_staked)

lemma story_body_staked:
  assumes "story_body ch beforeDate (idx, s) p = Inr p'"
  shows "TotalAmountStaked_of (Users p') u c =
           TotalAmountStaked_of (Users p) u c +
           (if s_CreatedTime s < beforeDate \<and> s_CategoryID s = c
            then stakes_before beforeDate u (backingsResolver ch (s_ID s)) +
                 stakes_before beforeDate u (challengesResolver ch (s_ID s))
            else 0)"
proof (cases "s_CreatedTime s < beforeDate")
  case False
  with assms show ?thesis by (simp add: story_body_def)
next
  case True
  from assms True obtain um p2 ba p3 ca where
    1: "increaseClaimsCount (GetUserMetrics (Users p) (s_Creator s)) (s_CategoryID s) = Inr um"
    and 2: "foldP (stake_body ch beforeDate s Backing) (backingsResolver ch (s_ID s))
              (p\<lparr>Users := (Users p)(s_Creator s \<mapsto> um),
                  mappedStories := (mappedStories p)(s_ID s \<mapsto> idx)\<rparr>, zeroStake) = Inr (p2, ba)"
    and 3: "foldP (stake_body ch beforeDate s Challenge) (challengesResolver ch (s_ID s))
              (p2, zeroStake) = Inr (p3, ca)"
    and 4: "(if s_Status s = Pending then Inr p3
             else bindP (if Amount ba < Amount ca
                         then foldP (lose_stake s) (backingsResolver ch (s_ID s)) (Users p3)
                         else Inr (Users p3))
                    (\<lambda>u4. bindP (if Amount ca < Amount ba
                                  then foldP (lose_stake s) (challengesResolver ch (s_ID s)) u4
                                  else Inr u4)
                             (\<lambda>u5. Inr (p3\<lparr>Users := u5\<rparr>)))) = Inr p'"
    by (auto simp: story_body_def Let_def split: prod.splits)
  have s1: "um_staked um c = TotalAmountStaked_of (Users p) (s_Creator s) c"
    using other_metric_staked(2) [OF 1, of c] by simp
  have s2: "TotalAmountStaked_of (Users p2) u c = TotalAmountStaked_of (Users p) u c +
      (if s_CategoryID s = c then stakes_before beforeDate u (backingsResolver ch (s_ID s)) else 0)"
    using stake_loop_staked [OF 2, of u c] by (simp add: s1)
  have s3: "TotalAmountStaked_of (Users p3) u c = TotalAmountStaked_of (Users p2) u c +
      (if s_CategoryID s = c then stakes_before beforeDate u (challengesResolver ch (s_ID s)) else 0)"
    using stake_loop_staked [OF 3, of u c] by simp
  have s4: "TotalAmountStaked_of (Users p') u c = TotalAmountStaked_of (Users p3) u c"
    using 4 by (auto split: if_splits dest: lose_loop_staked)
  from True show ?thesis by (simp add: s2 s3 s4)
qed

lemma stories_loop_staked:
  assumes "foldP (story_body ch beforeDate) (enumerate n stories) p = Inr p'"
  shows "TotalAmountStaked_of (Users p') u c =
           TotalAmountStaked_of (Users p) u c +
           staked_before ch beforeDate (filter (\<lambda>s. s_CreatedTime s < beforeDate) stories) u c"
  using assms
proof (induction stories arbitrary: n p)
  case Nil
  then show ?case by (simp add: staked_before_def)
next
  case (Cons s stories)
  from Cons.prems obtain p1 where 1: "story_body ch beforeDate (n, s) p = Inr p1"
    and 2: "foldP (story_body ch beforeDate) (enumerate (Suc n) stories) p1 = Inr p'"
    by auto
  from story_body_staked [OF 1, of u c] Cons.IH [OF 2] show ?case
    by (simp add: staked_before_def)
qed

lemma stakes_before_none:
  "list_all (\<lambda>b. \<not> b_CreatedTime b < beforeDate) votes \<Longrightarrow> stakes_before beforeDate u votes = 0"
  by (induction votes) (auto simp: stakes_before_def)

lemma staked_before_filter:
  assumes "stakes_follow_story ch stories"
  shows "staked_before ch beforeDate (filter (\<lambda>s. s_CreatedTime s < beforeDate) stories) u c =
         staked_before ch beforeDate stories u c"
  using assms
proof (induction stories)
  case Nil
  then show ?case by simp
next
  case (Cons s stories)
  then have follow: "list_all (\<lambda>b. s_CreatedTime s \<le> b_CreatedTime b)
      (backingsResolver ch (s_ID s) @ challengesResolver ch (s_ID s))"
    and rest: "stakes_follow_story ch stories"
    by (simp_all add: stakes_follow_story_def)
  have late: "\<not> s_CreatedTime s < beforeDate \<Longrightarrow>
      stakes_before beforeDate u (backingsResolver ch (s_ID s)) = 0 \<and>
      stakes_before beforeDate u (challengesResolver ch (s_ID s)) = 0"
  proof -
    assume "\<not> s_CreatedTime s < beforeDate"
    with follow have "list_all (\<lambda>b. \<not> b_CreatedTime b < beforeDate)
        (backingsResolver ch (s_ID s) @ challengesResolver ch (s_ID s))"
      by (force simp: list_all_iff)
    then show ?thesis
      by (simp add: stakes_before_none)
  qed
  from Cons.IH [OF rest] late show ?case
    by (auto simp: staked_before_def)
qed

lemma stories_pass_staked:
  assumes "stories_pass ch beforeDate stories = Inr p"
    and "stakes_follow_story ch stories"
  shows "TotalAmountStaked_of (Users p) u c = staked_before ch beforeDate stories u c"
  using stories_loop_staked [OF assms(1) [unfolded stories_pass_def], of u c]
    staked_before_filter [OF assms(2), of beforeDate u c]
  by (simp add: TotalAmountStaked_of_def)

lemma transaction_body_staked:
  assumes "transaction_body beforeDate stories mapped tx (um, results) = Inr (um', results')"
  shows "um_staked um' c = um_staked um c"
  using assms
  by (auto simp: transaction_body_def split: if_splits option.splits)
     (metis other_metric_staked(4,12) addCredEarned_staked addRunningBalance_staked)+

lemma transactions_loop_staked:
  assumes "foldP (transaction_body beforeDate stories mapped) txs (um, results) = Inr (um', results')"
  shows "um_staked um' c = um_staked um c"
proof -
  have "um_staked (fst (um', results')) c = um_staked (fst (um, results)) c"
  proof (rule foldP_keep [OF _ assms])
    fix x st st'
    assume "transaction_body beforeDate stories mapped x st = Inr st'"
    then show "um_staked (fst st') c = um_staked (fst st) c"
      by (cases st; cases st') (simp add: transaction_body_staked)
  qed
  then show ?thesis by simp
qed

lemma reward_body_staked:
  "reward_body staked userAddress entry um = Inr um' \<Longrightarrow> um_staked um' c = um_staked um c"
  by (auto simp: reward_body_def split: option.splits intro: other_metric_staked(13))

lemma reward_loop_staked:
  "foldP (reward_body staked userAddress) entries um = Inr um' \<Longrightarrow>
     um_staked um' c = um_staked um c"
  by (rule foldP_keep [where f = "\<lambda>um. um_staked um c"]) (auto dest: reward_body_staked)

lemma categories_loop_staked:
  "foldP name_category cats um = Inr um' \<Longrightarrow> um_staked um' c = um_staked um c"
  by (rule foldP_keep [where f = "\<lambda>um. um_staked um c"]) (auto dest: name_category_staked)

lemma profile_body_staked:
  assumes "profile_body ch beforeDate stories p userProfile users = Inr users'"
  shows "TotalAmountStaked_of users' u c = TotalAmountStaked_of users u c"
proof -
  define um3 where "um3 um2 =
      (case TwitterProfileByAddress ch (tp_Address userProfile) of
         (Some profile, None) \<Rightarrow> um2\<lparr>UserName := tp_Username profile\<rparr>
       | _ \<Rightarrow> um2)" for um2 :: UserMetrics
  have named: "um_staked (um3 um2) c = um_staked um2 c" for um2
    by (simp add: um3_def split: prod.splits option.splits)
  from assms obtain balance running um2 st um5 where
    1: "foldP name_category (mappedCategories (allCategoriesResolver ch))
          ((GetUserMetrics users (tp_Address userProfile))
             \<lparr>Balance := Some balance, RunningBalance := Some running\<rparr>) = Inr um2"
    and 2: "foldP (transaction_body beforeDate stories (mappedStories p))
          (transactionsResolver ch (tp_Address userProfile)) (um3 um2, []) = Inr st"
    and 3: "foldP (reward_body (mapUserStakeByStoryID p) (tp_Address userProfile))
          (sort_key (\<lambda>entry. rangeOrder ch (fst entry)) (snd st)) (fst st) = Inr um5"
    and users: "users' = users(tp_Address userProfile \<mapsto> um5)"
    unfolding profile_body_def Let_def um3_def [symmetric]
    by (auto simp: case_prod_beta)
  have s1: "um_staked um2 c = TotalAmountStaked_of users (tp_Address userProfile) c"
    using categories_loop_staked [OF 1, of c] by simp
  have s2: "um_staked (fst st) c = um_staked um2 c"
    using transactions_loop_staked [of beforeDate stories "mappedStories p" _ "um3 um2" "[]"
        "fst st" "snd st" c] 2
    by (simp add: named)
  have s3: "um_staked um5 c = um_staked (fst st) c"
    using reward_loop_staked [OF 3] .
  show ?thesis
    by (simp add: users s1 s2 s3)
qed

lemma profiles_loop_staked:
  "foldP (profile_body ch beforeDate stories p) profiles users = Inr users' \<Longrightarrow>
     TotalAmountStaked_of users' u c = TotalAmountStaked_of users u c"
  by (rule foldP_keep [where f = "\<lambda>us. TotalAmountStaked_of us u c"])
     (auto dest: profile_body_staked)

lemma opened_body_staked:
  "opened_body x users = Inr users' \<Longrightarrow>
     TotalAmountStaked_of users' u c = TotalAmountStaked_of users u c"
  by (auto simp: opened_body_def dest: other_metric_staked)

lemma opened_loop_staked:
  "foldP opened_body xs users = Inr users' \<Longrightarrow>
     TotalAmountStaked_of users' u c = TotalAmountStaked_of users u c"
  by (rule foldP_keep [where f = "\<lambda>us. TotalAmountStaked_of us u c"])
     (auto dest: opened_body_staked)

lemma quiet_Next [simp]: "snd (quiet r) = Next s \<longleftrightarrow> r = Inr s"
  by (simp add: quiet_def split: sum.splits)

lemma quiet_eq_Next [simp]: "quiet r = (es, Next s) \<longleftrightarrow> es = [] \<and> r = Inr s"
  by (auto simp: quiet_def split: sum.splits)

lemma and_then_eq_Next:
  "and_then r k = (es, Next t) \<longleftrightarrow>
     (\<exists>es1 s es2. r = (es1, Next s) \<and> k s = (es2, Next t) \<and> es = es1 @ es2)"
  by (cases r; cases "snd r") (auto simp: and_then_def split: prod.splits)

lemma parse_date_Next:
  "parse_date lib rq = (es, Next t) \<longleftrightarrow>
     es = [] \<and> rq_ParseForm rq = None \<and> rq_date rq \<noteq> [] \<and> ParseDate lib (rq_date rq) = Inr t"
  by (auto simp: parse_date_def split: option.splits sum.splits)

text \<open>What a run of the handler that reaches \<open>render.JSON\<close> went through.\<close>

lemma HandleMetrics_Next:
  assumes "HandleMetrics lib ch rq = (es, Next users)"
  shows "\<exists>beforeDate stories p users1.
    ParseDate lib (rq_date rq) = Inr beforeDate \<and>
    RunQueryStories ch = Inr stories \<and>
    stories_pass ch beforeDate stories = Inr p \<and>
    foldP (profile_body ch beforeDate stories p)
       (case FindAllProfiles ch of Inl _ \<Rightarrow> [] | Inr us \<Rightarrow> us) (Users p) = Inr users1 \<and>
    foldP opened_body
       (case OpenedClaimsByCategory ch beforeDate of Inl _ \<Rightarrow> [] | Inr xs \<Rightarrow> xs) users1 = Inr users"
proof (cases "RunQueryStories ch")
  case (Inl err)
  with assms show ?thesis
    by (simp add: HandleMetrics_def and_then_eq_Next del: and_then_Next)
next
  case (Inr stories)
  with assms show ?thesis
    by (cases "allCategoriesResolver ch = []")
       (auto simp: HandleMetrics_def and_then_eq_Next parse_date_Next simp del: and_then_Next)
qed

section \<open>HandleMetrics: stakes without an argument\<close>

lemma withMetrics_metric_keep:
  assumes "withMetrics um k g = Inr um'"
    and "\<And>m m'. g m = Inr m' \<Longrightarrow> f m' = f m"
  shows "um_metric f um' c = um_metric f um c"
proof -
  from assms(1) obtain m' where
    g: "g (Metrics (getMetricsByCategory um k)) = Inr m'"
    and um': "um' = um\<lparr>CategoryMetrics :=
        (CategoryMetrics um)(k \<mapsto> (getMetricsByCategory um k)\<lparr>Metrics := m'\<rparr>)\<rparr>"
    by (auto simp: withMetrics_def withCategory_def)
  show ?thesis
  proof (cases "c = k")
    case True
    then show ?thesis
      using assms(2) [OF g] by (simp add: um' um_metric_def getMetricsByCategory_def)
  next
    case False
    then show ?thesis
      by (simp add: um' um_metric_def getMetricsByCategory_def)
  qed
qed

lemma withMetrics_panic:
  assumes "withMetrics um k g = Inl p" and "\<And>m q. g m = Inl q \<Longrightarrow> arithmetic_panic q"
  shows "arithmetic_panic p"
  using assms
  by (auto simp: withMetrics_def withCategory_def bindP_def split: sum.splits)

lemma Coin_Add_panic: "Coin_Add a b = Inl p \<Longrightarrow> arithmetic_panic p"
  by (auto simp: Coin_Add_def Int_Add_def Int_ok_def arithmetic_panic_def bindP_def
        split: if_splits sum.splits)

lemma bindP_Inl_iff: "bindP r k = Inl p \<longleftrightarrow> r = Inl p \<or> (\<exists>x. r = Inr x \<and> k x = Inl p)"
  by (cases r) simp_all

lemma amounts_keep_counters:
  assumes "\<And>m x. f (m\<lparr>TotalAmountStaked := x\<rparr>) = f m"
    "\<And>m x. f (m\<lparr>TotalAmountBacked := x\<rparr>) = f m"
    "\<And>m x. f (m\<lparr>TotalAmountChallenged := x\<rparr>) = f m"
    "\<And>m x. f (m\<lparr>TotalAmountAtStake := x\<rparr>) = f m"
    "\<And>m x. f (m\<lparr>TotalBackings := x\<rparr>) = f m"
    "\<And>m x. f (m\<lparr>TotalChallenges := x\<rparr>) = f m"
  shows "addStakedAmount um k a = Inr um' \<Longrightarrow> um_metric f um' c = um_metric f um c"
    "addBackedAmount um k a = Inr um' \<Longrightarrow> um_metric f um' c = um_metric f um c"
    "addChallengedAmount um k a = Inr um' \<Longrightarrow> um_metric f um' c = um_metric f um c"
    "addAmoutAtStake um k a = Inr um' \<Longrightarrow> um_metric f um' c = um_metric f um c"
    "increaseTotalBackings um k = Inr um' \<Longrightarrow> um_metric f um' c = um_metric f um c"
    "increaseTotalChallenges um k = Inr um' \<Longrightarrow> um_metric f um' c = um_metric f um c"
  unfolding addStakedAmount_def addBackedAmount_def addChallengedAmount_def addAmoutAtStake_def
    increaseTotalBackings_def increaseTotalChallenges_def
  by (erule withMetrics_metric_keep; auto simp: assms)+

lemma amounts_panic:
  "addStakedAmount um k a = Inl p \<Longrightarrow> arithmetic_panic p"
  "addBackedAmount um k a = Inl p \<Longrightarrow> arithmetic_panic p"
  "addChallengedAmount um k a = Inl p \<Longrightarrow> arithmetic_panic p"
  "addAmoutAtStake um k a = Inl p \<Longrightarrow> arithmetic_panic p"
  unfolding addStakedAmount_def addBackedAmount_def addChallengedAmount_def addAmoutAtStake_def
  by (erule withMetrics_panic; auto simp: bindP_Inl_iff dest: Coin_Add_panic)+

lemma counters_never_panic:
  "increaseTotalBackings um k \<noteq> Inl p" "increaseTotalChallenges um k \<noteq> Inl p"
  by (auto simp: increaseTotalBackings_def increaseTotalChallenges_def withMetrics_def
        withCategory_def bindP_def)

lemma metric_of_upd [simp]:
  "metric_of f (users(a \<mapsto> um)) u c = (if u = a then um_metric f um c else metric_of f users u c)"
  by (simp add: metric_of_def GetUserMetrics_def)

lemma um_metric_GetUserMetrics [simp]:
  "um_metric f (GetUserMetrics users u) c = metric_of f users u c"
  by (simp add: metric_of_def)

text \<open>The step of the stakes loop for a stake whose argument is not found.\<close>

lemma stake_body_orphan:
  assumes "ar_ID (argumentResolver ch (b_ArgumentID b)) = 0"
    and "b_CreatedTime b < beforeDate"
  shows "stake_body ch beforeDate s sd b (p, acc) =
     bindP (Coin_Add acc (b_Amount b)) (\<lambda>acc'.
     bindP (addStakedAmount (GetUserMetrics (Users p) (b_Creator b)) (s_CategoryID s) (b_Amount b))
       (\<lambda>um1.
     bindP (case sd of
              Backing \<Rightarrow> addBackedAmount um1 (s_CategoryID s) (b_Amount b)
            | Challenge \<Rightarrow> addChallengedAmount um1 (s_CategoryID s) (b_Amount b)) (\<lambda>um2.
     bindP (case sd of
              Backing \<Rightarrow> increaseTotalBackings um2 (s_CategoryID s)
            | Challenge \<Rightarrow> increaseTotalChallenges um2 (s_CategoryID s)) (\<lambda>um3.
     bindP (if s_Status s = Pending then addAmoutAtStake um3 (s_CategoryID s) (b_Amount b)
            else Inr um3) (\<lambda>um4.
     Inr (p\<lparr>Users := (Users p)(b_Creator b \<mapsto> um4),
            mapUserStakeByStoryID := (mapUserStakeByStoryID p)
              (mapUserStakeByStoryIDKey (b_Creator b) (b_StoryID b) \<mapsto> b_Amount b)\<rparr>, acc'))))))"
  using assms by (simp add: stake_body_def Let_def)

lemma stake_body_orphan_panic:
  assumes "ar_ID (argumentResolver ch (b_ArgumentID b)) = 0"
    and "b_CreatedTime b < beforeDate"
    and "stake_body ch beforeDate s sd b (p, acc) = Inl pn"
  shows "arithmetic_panic pn"
  using assms(3) unfolding stake_body_orphan [OF assms(1,2)]
  by (cases sd)
     (auto simp: bindP_Inl_iff counters_never_panic split: if_splits
        dest: Coin_Add_panic amounts_panic)

lemma stake_body_orphan_counters:
  assumes "ar_ID (argumentResolver ch (b_ArgumentID b)) = 0"
    and "b_CreatedTime b < beforeDate"
    and "stake_body ch beforeDate s sd b (p, acc) = Inr (p', acc')"
    and keep: "\<And>m x. f (m\<lparr>TotalAmountStaked := x\<rparr>) = f m"
    "\<And>m x. f (m\<lparr>TotalAmountBacked := x\<rparr>) = f m"
    "\<And>m x. f (m\<lparr>TotalAmountChallenged := x\<rparr>) = f m"
    "\<And>m x. f (m\<lparr>TotalAmountAtStake := x\<rparr>) = f m"
    "\<And>m x. f (m\<lparr>TotalBackings := x\<rparr>) = f m"
    "\<And>m x. f (m\<lparr>TotalChallenges := x\<rparr>) = f m"
  shows "metric_of f (Users p') u c = metric_of f (Users p) u c"
proof -
  note k = amounts_keep_counters [of f, OF keep]
  from assms(3) [unfolded stake_body_orphan [OF assms(1,2)]] obtain um1 um2 um3 um4 where
    1: "addStakedAmount (GetUserMetrics (Users p) (b_Creator b)) (s_CategoryID s) (b_Amount b) = Inr um1"
    and 2: "(case sd of Backing \<Rightarrow> addBackedAmount um1 (s_CategoryID s) (b_Amount b)
               | Challenge \<Rightarrow> addChallengedAmount um1 (s_CategoryID s) (b_Amount b)) = Inr um2"
    and 3: "(case sd of Backing \<Rightarrow> increaseTotalBackings um2 (s_CategoryID s)
               | Challenge \<Rightarrow> increaseTotalChallenges um2 (s_CategoryID s)) = Inr um3"
    and 4: "(if s_Status s = Pending then addAmoutAtStake um3 (s_CategoryID s) (b_Amount b)
             else Inr um3) = Inr um4"
    and users: "Users p' = (Users p)(b_Creator b \<mapsto> um4)"
    by auto
  have s1: "um_metric f um1 c = metric_of f (Users p) (b_Creator b) c"
    using k(1) [OF 1, of c] by simp
  have s2: "um_metric f um2 c = um_metric f um1 c"
    using 2 by (cases sd) (auto dest: k(2,3))
  have s3: "um_metric f um3 c = um_metric f um2 c"
    using 3 by (cases sd) (auto dest: k(5,6))
  have s4: "um_metric f um4 c = um_metric f um3 c"
    using 4 by (auto split: if_splits dest: k(4))
  show ?thesis
    by (simp add: users s1 s2 s3 s4)
qed

lemma stake_body_acc:
  "stake_body ch beforeDate s sd b (p, acc) = Inr (p', acc') \<Longrightarrow>
     Amount acc' = Amount acc + (if b_CreatedTime b < beforeDate then Amount (b_Amount b) else 0)"
  by (auto simp: stake_body_def Let_def split: if_splits dest: Coin_Add_Amount)

lemma claim_stake_body_orphan:
  assumes "index_by a_ID arguments (st_ArgumentID stake) = None"
    and "st_CreatedTime stake < beforeDate"
  shows "fst (claim_stake_body beforeDate arguments stake t) =
     [RenderError (''unable to find argument with id '' @ fmt_d (int (st_ArgumentID stake))) 500]"
  using assms by (simp add: claim_stake_body_def Let_def)

text \<open>
  Claim C4, amended. In \<open>HandleMetrics\<close> a backing or challenge whose argument the
  resolver does not find (its \<open>ID\<close> is zero) is not fatal: the step panics only if the
  arithmetic on coins does, and otherwise the loop goes on with the next stake, the
  stake's amount having been added to the story's total and to the staker's
  \<open>TotalAmountStaked\<close>, with \<open>TotalArguments\<close> and \<open>TotalEndorsementsGiven\<close> left as
  they were. In \<open>HandleClaimMetrics\<close> a stake whose argument is not among the claim's
  arguments makes the handler render the error "unable to find argument with id N" with
  status 500.
\<close>

theorem missing_argument_handling:
  assumes "ar_ID (argumentResolver ch (b_ArgumentID b)) = 0"
    and "b_CreatedTime b < beforeDate"
    and "index_by a_ID arguments (st_ArgumentID stake) = None"
    and "st_CreatedTime stake < beforeDate"
  shows "(case stake_body ch beforeDate s sd b (p, acc) of
            Inl pn \<Rightarrow> arithmetic_panic pn
          | Inr (p', acc') \<Rightarrow>
              foldP (stake_body ch beforeDate s sd) (b # bs) (p, acc) =
                foldP (stake_body ch beforeDate s sd) bs (p', acc') \<and>
              Amount acc' = Amount acc + Amount (b_Amount b) \<and>
              TotalAmountStaked_of (Users p') (b_Creator b) (s_CategoryID s) =
                TotalAmountStaked_of (Users p) (b_Creator b) (s_CategoryID s) + Amount (b_Amount b) \<and>
              metric_of TotalArguments (Users p') u c = metric_of TotalArguments (Users p) u c \<and>
              metric_of TotalEndorsementsGiven (Users p') u c =
                metric_of TotalEndorsementsGiven (Users p) u c) \<and>
         fst (claim_stake_body beforeDate arguments stake t) =
           [RenderError (''unable to find argument with id '' @ fmt_d (int (st_ArgumentID stake))) 500]"
proof (cases "stake_body ch beforeDate s sd b (p, acc)")
  case (Inl pn)
  with stake_body_orphan_panic [OF assms(1,2) Inl] claim_stake_body_orphan [OF assms(3,4)]
  show ?thesis by simp
next
  case (Inr r)
  obtain p' acc' where r: "r = (p', acc')" by (cases r)
  note run = Inr [unfolded r]
  have "metric_of TotalArguments (Users p') u c = metric_of TotalArguments (Users p) u c"
    by (rule stake_body_orphan_counters [OF assms(1,2) run]) simp_all
  moreover have "metric_of TotalEndorsementsGiven (Users p') u c =
      metric_of TotalEndorsementsGiven (Users p) u c"
    by (rule stake_body_orphan_counters [OF assms(1,2) run]) simp_all
  ultimately show ?thesis
    using stake_body_staked [OF run, of "b_Creator b" "s_CategoryID s"]
      stake_body_acc [OF run] assms(2) claim_stake_body_orphan [OF assms(3,4)]
    by (simp add: run)
qed

section \<open>HandleMetrics: rewards\<close>

lemma NewCoin_Amount: "NewCoin d a = Inr c \<Longrightarrow> 0 \<le> Amount c"
  by (auto simp: NewCoin_def split: if_splits)

lemma copy_coin_Amount: "copy_coin c = Inr c' \<Longrightarrow> 0 \<le> Amount c'"
  by (auto simp: copy_coin_def dest: NewCoin_Amount)

lemma rewards_ok_update:
  assumes "rewards_ok results"
    and "case sr_Reward r of None \<Rightarrow> True | Some c \<Rightarrow> 0 \<le> Amount c"
  shows "rewards_ok (AList.update k r results)"
  using assms by (induction results) (auto simp: rewards_ok_def)

lemma rewards_ok_map_of:
  "rewards_ok results \<Longrightarrow> map_of results k = Some r \<Longrightarrow>
     (case sr_Reward r of None \<Rightarrow> True | Some c \<Rightarrow> 0 \<le> Amount c)"
  by (auto simp: rewards_ok_def list_all_iff dest!: map_of_SomeD)

lemma note_result_ok:
  assumes "note_result s tx results = Inr results'" and "rewards_ok results"
  shows "rewards_ok results'"
proof (cases "s_Status s = Expired")
  case False
  with assms show ?thesis by (simp add: note_result_def)
next
  case True
  define r0 where "r0 = (case map_of results (t_GroupID tx) of
      None \<Rightarrow> \<lparr>sr_CategoryID = s_CategoryID s, sr_Reward = None, sr_StakeReturned = None\<rparr>
    | Some r \<Rightarrow> r)"
  have r0: "case sr_Reward r0 of None \<Rightarrow> True | Some c \<Rightarrow> 0 \<le> Amount c"
  proof (cases "map_of results (t_GroupID tx)")
    case None
    then show ?thesis by (simp add: r0_def)
  next
    case (Some r)
    with rewards_ok_map_of [OF assms(2) Some] show ?thesis by (simp add: r0_def)
  qed
  from assms(1) True have "\<exists>r1 r2.
      (if t_TransactionType tx = RewardPool
         then bindP (copy_coin (t_Amount tx)) (\<lambda>reward. Inr (r0\<lparr>sr_Reward := Some reward\<rparr>))
         else Inr r0) = Inr r1 \<and>
      (if t_TransactionType tx = BackingReturned \<or> t_TransactionType tx = ChallengeReturned
         then bindP (copy_coin (t_Amount tx)) (\<lambda>returned. Inr (r1\<lparr>sr_StakeReturned := Some returned\<rparr>))
         else Inr r1) = Inr r2 \<and>
      results' = AList.update (t_GroupID tx) r2 results"
    unfolding note_result_def Let_def r0_def [symmetric] by auto
  then obtain r1 r2 where
    1: "(if t_TransactionType tx = RewardPool
         then bindP (copy_coin (t_Amount tx)) (\<lambda>reward. Inr (r0\<lparr>sr_Reward := Some reward\<rparr>))
         else Inr r0) = Inr r1"
    and 2: "(if t_TransactionType tx = BackingReturned \<or> t_TransactionType tx = ChallengeReturned
         then bindP (copy_coin (t_Amount tx)) (\<lambda>returned. Inr (r1\<lparr>sr_StakeReturned := Some returned\<rparr>))
         else Inr r1) = Inr r2"
    and res: "results' = AList.update (t_GroupID tx) r2 results"
    by blast
  from 1 r0 have r1: "case sr_Reward r1 of None \<Rightarrow> True | Some c \<Rightarrow> 0 \<le> Amount c"
    by (auto split: if_splits dest: copy_coin_Amount)
  from 2 r1 have r2: "case sr_Reward r2 of None \<Rightarrow> True | Some c \<Rightarrow> 0 \<le> Amount c"
    by (auto split: if_splits)
  show ?thesis
    unfolding res by (rule rewards_ok_update [OF assms(2) r2])
qed

lemma transaction_body_ok:
  assumes "transaction_body beforeDate stories mapped tx (um, results) = Inr (um', results')"
    and "rewards_ok results"
  shows "rewards_ok results'"
  using assms
  by (auto simp: transaction_body_def split: if_splits option.splits dest: note_result_ok)

lemma transactions_loop_ok:
  assumes "foldP (transaction_body beforeDate stories mapped) txs st = Inr st'"
    and "rewards_ok (snd st)"
  shows "rewards_ok (snd st')"
  using assms
proof (induction txs arbitrary: st)
  case Nil
  then show ?case by simp
next
  case (Cons tx txs)
  from Cons.prems(1) obtain st1 where
    1: "transaction_body beforeDate stories mapped tx st = Inr st1"
    and 2: "foldP (transaction_body beforeDate stories mapped) txs st1 = Inr st'"
    by auto
  from 1 Cons.prems(2) have "rewards_ok (snd st1)"
    by (cases st; cases st1) (auto dest: transaction_body_ok)
  from Cons.IH [OF 2 this] show ?case .
qed

lemma Coin_Sub_Amount: "Coin_Sub a b = Inr r \<Longrightarrow> Amount r = Amount a - Amount b"
  by (auto simp: Coin_Sub_def Int_Sub_def Int_ok_def split: if_splits)

lemma earned_amount:
  assumes "earned staked userAddress entry = Inr (Some amount)"
    and "case sr_Reward (snd entry) of None \<Rightarrow> True | Some c \<Rightarrow> 0 \<le> Amount c"
  shows "0 \<le> Amount amount \<and> (sr_StakeReturned (snd entry) = None \<longrightarrow> 0 < Amount amount)"
  using assms
  by (cases entry)
     (auto simp: earned_def split: option.splits if_splits dest: Coin_Sub_Amount)

section \<open>Runs on the sample data\<close>

lemma sample_summary:
  "(case HandleMetrics sample_lib sample_chain sample_request of
      (es, Next users) \<Rightarrow>
        es = [] \<and> TotalAmountStaked_of users ''cosmos1bob'' 7 = 10 \<and>
        TotalAmountStaked_of users ''cosmos1alice'' 7 = 35 \<and>
        metric_of (\<lambda>m. Amount (StakeEarned m)) users ''cosmos1alice'' 7 = 45
    | _ \<Rightarrow> False)"
  by code_simp

lemma sample_expected:
  "staked_before sample_chain 1000 [story1, story2] ''cosmos1alice'' 7 = 35"
  "stakes_follow_story sample_chain [story1, story2]"
  by code_simp+

lemma bob_challenge_runs:
  "(case stake_body sample_chain 1000 story1 Challenge bob_challenge (empty_pass, coin 0) of
      Inl _ \<Rightarrow> False | Inr _ \<Rightarrow> True)"
  by code_simp

lemma alice_transactions:
  "foldP (transaction_body 1000 [story1, story2] [1 \<mapsto> 0])
     (transactionsResolver sample_chain ''cosmos1alice'') (funded, []) =
   Inr (funded\<lparr>RunningBalance := Some (coin 350)\<rparr>, [(1, reward1)])"
  by (simp add: sample_chain_def transaction_body_def addRunningBalance_def coin_def funded_def
        Coin_Add_opt_def Coin_Add_def Int_Add_def Int_ok_def story_at_def story1_def story2_def
        note_result_def copy_coin_def Int64_def is_int64_def NewCoin_def validDenom_def
        StakeDenom_def lower_or_digit_def reward1_def)

lemma alice_earned:
  "earned [''cosmos1alice:1'' \<mapsto> coin 5] ''cosmos1alice'' (1, reward1) = Inr (Some (coin 45))"
  by (simp add: earned_def mapUserStakeByStoryIDKey_def fmt_d_def show_nat.simps reward1_def
        Coin_Sub_def coin_def Int_Sub_def Int_ok_def)

section \<open>The claims on the metrics aggregator\<close>

text \<open>
  Claim C1. In a run of \<open>HandleMetrics\<close> that reaches \<open>render.JSON\<close>, the
  \<open>TotalAmountStaked\<close> of every user and category is the sum of the amounts of the
  backings and challenges of that user, created strictly before the cutoff date, on the
  stories of that category created before the cutoff date; stakes created at or after the
  cutoff add nothing. When no stake is older than its story, these are all the stakes of
  the user in the category created before the cutoff.
\<close>

theorem total_amount_staked_sum:
  assumes "HandleMetrics lib ch rq = (es, Next users)"
    and "ParseDate lib (rq_date rq) = Inr beforeDate"
    and "RunQueryStories ch = Inr stories"
  shows "TotalAmountStaked_of users u c =
           staked_before ch beforeDate (filter (\<lambda>s. s_CreatedTime s < beforeDate) stories) u c \<and>
         (stakes_follow_story ch stories \<longrightarrow>
            TotalAmountStaked_of users u c = staked_before ch beforeDate stories u c)"
proof -
  from HandleMetrics_Next [OF assms(1)] assms(2,3) obtain p users1 where
    1: "stories_pass ch beforeDate stories = Inr p"
    and 2: "foldP (profile_body ch beforeDate stories p)
       (case FindAllProfiles ch of Inl _ \<Rightarrow> [] | Inr us \<Rightarrow> us) (Users p) = Inr users1"
    and 3: "foldP opened_body
       (case OpenedClaimsByCategory ch beforeDate of Inl _ \<Rightarrow> [] | Inr xs \<Rightarrow> xs) users1 =
       Inr users"
    by auto
  have "TotalAmountStaked_of (Users p) u c =
      staked_before ch beforeDate (filter (\<lambda>s. s_CreatedTime s < beforeDate) stories) u c"
    using stories_loop_staked [OF 1 [unfolded stories_pass_def], of u c]
    by (simp add: TotalAmountStaked_of_def)
  with opened_loop_staked [OF 3, of u c] profiles_loop_staked [OF 2, of u c]
  have "TotalAmountStaked_of users u c =
      staked_before ch beforeDate (filter (\<lambda>s. s_CreatedTime s < beforeDate) stories) u c"
    by simp
  then show ?thesis
    by (simp add: staked_before_filter)
qed

theorem total_amount_staked_sum_witness:
  "(case HandleMetrics sample_lib sample_chain sample_request of
      (es, Next users) \<Rightarrow> TotalAmountStaked_of users ''cosmos1alice'' 7 = 35
    | _ \<Rightarrow> False) \<and>
   staked_before sample_chain 1000 [story1, story2] ''cosmos1alice'' 7 = 35 \<and>
   stakes_follow_story sample_chain [story1, story2]"
proof -
  from sample_summary obtain es users where
    run: "HandleMetrics sample_lib sample_chain sample_request = (es, Next users)"
    by (auto split: prod.splits flow.splits)
  have date: "ParseDate sample_lib (rq_date sample_request) = Inr 1000"
    by (simp add: sample_lib_def sample_request_def)
  have stories: "RunQueryStories sample_chain = Inr [story1, story2]"
    by (simp add: sample_chain_def)
  from total_amount_staked_sum [OF run date stories, of "''cosmos1alice''" 7] sample_expected
  have "TotalAmountStaked_of users ''cosmos1alice'' 7 = 35"
    by simp
  with sample_expected show ?thesis
    by (simp add: run)
qed

text \<open>
  Claim C2. For every entry of \<open>userStoryResults\<close> that the loop over a user's
  transactions built, the body of the rewards loop either panics, or adds nothing, or
  hands to \<open>addStakeEarned\<close> an amount that is not negative: the reward itself when the
  stake was returned by a transaction of its own, and otherwise the reward minus the
  staked amount of the side map, which is then strictly positive.
\<close>

theorem stake_earned_never_negative:
  assumes "foldP (transaction_body beforeDate stories mapped) txs (um, []) = Inr (um', results)"
    and "entry \<in> set results"
  shows "(case earned staked userAddress entry of
            Inl p \<Rightarrow> reward_body staked userAddress entry um2 = Inl p
          | Inr None \<Rightarrow> reward_body staked userAddress entry um2 = Inr um2
          | Inr (Some amount) \<Rightarrow>
              reward_body staked userAddress entry um2 =
                addStakeEarned um2 (sr_CategoryID (snd entry)) amount \<and>
              0 \<le> Amount amount \<and>
              (sr_StakeReturned (snd entry) = None \<longrightarrow> 0 < Amount amount))"
proof -
  have "rewards_ok (snd (um', results))"
    by (rule transactions_loop_ok [OF assms(1)]) (simp add: rewards_ok_def)
  with assms(2) have ok: "case sr_Reward (snd entry) of None \<Rightarrow> True | Some c \<Rightarrow> 0 \<le> Amount c"
    by (simp add: rewards_ok_def list_all_iff)
  show ?thesis
  proof (cases "earned staked userAddress entry")
    case (Inl p)
    then show ?thesis by (simp add: reward_body_def)
  next
    case (Inr e)
    show ?thesis
    proof (cases e)
      case None
      with Inr show ?thesis by (simp add: reward_body_def)
    next
      case (Some amount)
      with Inr earned_amount [OF _ ok, of staked userAddress amount] show ?thesis
        by (simp add: reward_body_def)
    qed
  qed
qed

theorem stake_earned_never_negative_witness:
  "foldP (transaction_body 1000 [story1, story2] [1 \<mapsto> 0])
     (transactionsResolver sample_chain ''cosmos1alice'') (funded, []) =
     Inr (funded\<lparr>RunningBalance := Some (coin 350)\<rparr>, [(1, reward1)]) \<and>
   earned [''cosmos1alice:1'' \<mapsto> coin 5] ''cosmos1alice'' (1, reward1) = Inr (Some (coin 45)) \<and>
   reward_body [''cosmos1alice:1'' \<mapsto> coin 5] ''cosmos1alice'' (1, reward1) funded =
     addStakeEarned funded 7 (coin 45) \<and>
   0 < Amount (coin 45) \<and>
   (case HandleMetrics sample_lib sample_chain sample_request of
      (es, Next users) \<Rightarrow> metric_of (\<lambda>m. Amount (StakeEarned m)) users ''cosmos1alice'' 7 = 45
    | _ \<Rightarrow> False)"
proof -
  have mem: "(1, reward1) \<in> set [(1, reward1)]" by simp
  have cat: "sr_CategoryID reward1 = 7" "sr_StakeReturned reward1 = None"
    by (simp_all add: reward1_def)
  from stake_earned_never_negative [OF alice_transactions mem,
      of "[''cosmos1alice:1'' \<mapsto> coin 5]" "''cosmos1alice''" funded]
  have "reward_body [''cosmos1alice:1'' \<mapsto> coin 5] ''cosmos1alice'' (1, reward1) funded =
      addStakeEarned funded 7 (coin 45) \<and> 0 < Amount (coin 45)"
    by (simp add: alice_earned cat)
  moreover from sample_summary have
    "(case HandleMetrics sample_lib sample_chain sample_request of
        (es, Next users) \<Rightarrow> metric_of (\<lambda>m. Amount (StakeEarned m)) users ''cosmos1alice'' 7 = 45
      | _ \<Rightarrow> False)"
    by (auto split: prod.splits flow.splits)
  ultimately show ?thesis
    using alice_transactions alice_earned by (simp only: simp_thms)
qed

text \<open>
  Claim C4, as the spec states it, fails. With a stake whose argument is not among the
  claim's arguments, \<open>HandleClaimMetrics\<close> renders the error and then goes on: it counts
  the stake, counts the next one, writes the claim's row and returns. With a challenge
  whose argument the resolver does not find, \<open>HandleMetrics\<close> renders no error, counts
  the challenge and the one after it, and reaches \<open>render.JSON\<close>.
\<close>

theorem missing_argument_fatal_counterexample:
  "index_by a_ID [argument1] (st_ArgumentID orphan_stake) = None \<and>
   HandleClaimMetrics sample_lib sample_backend sample_request =
     ([HeaderAdd ''x-metrics-version'' ''20190911-01'',
       HeaderAdd ''Content-Type'' ''text/csv'',
       CsvWrite claim_metrics_header,
       RenderError ''unable to find argument with id 2'' 500,
       CsvWrite [''201909110000'', ''1000'', ''100'', ''0'', ''1'', ''crypto'', ''Bitcoin is money'',
                 ''1'', ''1'', ''12'', ''12'', ''5'', ''7'', ''0'', ''0'', ''0'',
                 ''0'', ''0'', ''0'', ''0'', ''0'', ''0'', ''0'', ''0'', ''0'', ''150'', ''250''],
       CsvFlush], Next ()) \<and>
   ar_ID (argumentResolver sample_chain (b_ArgumentID bob_challenge)) = 0 \<and>
   (case HandleMetrics sample_lib sample_chain sample_request of
      (es, Next users) \<Rightarrow>
        es = [] \<and> TotalAmountStaked_of users ''cosmos1bob'' 7 = 10 \<and>
        TotalAmountStaked_of users ''cosmos1alice'' 7 = 35
    | _ \<Rightarrow> False)"
proof -
  have "index_by a_ID [argument1] (st_ArgumentID orphan_stake) = None"
    by (simp add: index_by_def argument1_def orphan_stake_def)
  moreover have "ar_ID (argumentResolver sample_chain (b_ArgumentID bob_challenge)) = 0"
    by (simp add: sample_chain_def bob_challenge_def)
  moreover from sample_summary have
    "(case HandleMetrics sample_lib sample_chain sample_request of
        (es, Next users) \<Rightarrow>
          es = [] \<and> TotalAmountStaked_of users ''cosmos1bob'' 7 = 10 \<and>
          TotalAmountStaked_of users ''cosmos1alice'' 7 = 35
      | _ \<Rightarrow> False)"
    by (auto split: prod.splits flow.splits)
  ultimately show ?thesis
    using claim_metrics_run by (simp only: simp_thms)
qed

theorem missing_argument_handling_witness:
  "ar_ID (argumentResolver sample_chain (b_ArgumentID bob_challenge)) = 0 \<and>
   b_CreatedTime bob_challenge < 1000 \<and>
   index_by a_ID [argument1] (st_ArgumentID orphan_stake) = None \<and>
   st_CreatedTime orphan_stake < 1000 \<and>
   (case stake_body sample_chain 1000 story1 Challenge bob_challenge (empty_pass, coin 0) of
      Inl _ \<Rightarrow> False
    | Inr (p', acc') \<Rightarrow>
        Amount acc' = 10 \<and>
        TotalAmountStaked_of (Users p') ''cosmos1bob'' 7 = 10 \<and>
        metric_of TotalArguments (Users p') ''cosmos1bob'' 7 = 0 \<and>
        metric_of TotalEndorsementsGiven (Users p') ''cosmos1bob'' 7 = 0) \<and>
   fst (claim_stake_body 1000 [argument1] orphan_stake no_totals) =
     [RenderError ''unable to find argument with id 2'' 500]"
proof -
  have h1: "ar_ID (argumentResolver sample_chain (b_ArgumentID bob_challenge)) = 0"
    by (simp add: sample_chain_def bob_challenge_def)
  have h2: "b_CreatedTime bob_challenge < 1000"
    by (simp add: bob_challenge_def)
  have h3: "index_by a_ID [argument1] (st_ArgumentID orphan_stake) = None"
    by (simp add: index_by_def argument1_def orphan_stake_def)
  have h4: "st_CreatedTime orphan_stake < 1000"
    by (simp add: orphan_stake_def)
  have vals: "Amount (coin 0) = 0" "Amount (b_Amount bob_challenge) = 10"
    "b_Creator bob_challenge = ''cosmos1bob''" "s_CategoryID story1 = 7"
    "TotalAmountStaked_of (Users empty_pass) ''cosmos1bob'' 7 = 0"
    "metric_of TotalArguments (Users empty_pass) ''cosmos1bob'' 7 = 0"
    "metric_of TotalEndorsementsGiven (Users empty_pass) ''cosmos1bob'' 7 = 0"
    "fmt_d (int (st_ArgumentID orphan_stake)) = ''2''"
    by (simp_all add: coin_def bob_challenge_def story1_def empty_pass_def
          TotalAmountStaked_of_def metric_of_def um_metric_def GetUserMetrics_def
          getMetricsByCategory_def newMetrics_def orphan_stake_def fmt_d_def show_nat.simps)
  from bob_challenge_runs obtain p' acc' where
    run: "stake_body sample_chain 1000 story1 Challenge bob_challenge (empty_pass, coin 0) =
      Inr (p', acc')"
    by (auto split: sum.splits)
  from missing_argument_handling [OF h1 h2 h3 h4, where s = story1 and sd = Challenge
      and p = empty_pass and acc = "coin 0" and bs = "[]" and u = "''cosmos1bob''" and c = 7
      and t = no_totals]
  have "Amount acc' = 10 \<and>
      TotalAmountStaked_of (Users p') ''cosmos1bob'' 7 = 10 \<and>
      metric_of TotalArguments (Users p') ''cosmos1bob'' 7 = 0 \<and>
      metric_of TotalEndorsementsGiven (Users p') ''cosmos1bob'' 7 = 0 \<and>
      fst (claim_stake_body 1000 [argument1] orphan_stake no_totals) =
        [RenderError ''unable to find argument with id 2'' 500]"
    by (simp add: run vals)
  with h1 h2 h3 h4 show ?thesis
    by (simp add: run)
qed

end
